theory Spec2Isabelle
  imports Complex_Main
begin

section \<open>Exceptions and effects\<close>

text \<open>
  The model class \<open>LM_LSTM_CRF\<close> of \<open>model/lm_lstm_crf.py\<close> is embedded with its
  effects made explicit. A Python exception is a value of \<open>error\<close>. A computation that
  may raise and that reads or writes a state \<open>'s\<close> has type \<open>('s, 'r) exn\<close>: it returns
  either the error or the result, together with the state as it stands at that moment
  (what was mutated before a raise stays mutated).
\<close>

datatype error = IndexError | AssertionError | AttributeError | RuntimeError | ValueError

type_synonym ('s, 'r) exn = "'s \<Rightarrow> (error + 'r) \<times> 's"

definition ret :: "'r \<Rightarrow> ('s, 'r) exn" where
  "ret x = (\<lambda>s. (Inr x, s))"

definition raise :: "error \<Rightarrow> ('s, 'r) exn" where
  "raise e = (\<lambda>s. (Inl e, s))"

definition lift :: "error + 'r \<Rightarrow> ('s, 'r) exn" where
  "lift r = (\<lambda>s. (r, s))"

definition bnd :: "('s, 'a) exn \<Rightarrow> ('a \<Rightarrow> ('s, 'b) exn) \<Rightarrow> ('s, 'b) exn" where
  "bnd c f = (\<lambda>s. case c s of (Inl e, s') \<Rightarrow> (Inl e, s') | (Inr x, s') \<Rightarrow> f x s')"

text \<open>
  A method of the class runs on the pair of the object \<open>self\<close> and the state \<open>'g\<close> of
  everything outside it that the library calls touch (the global random generator that
  dropout and the initialisers draw from). \<open>ext\<close> runs a library call, which never
  touches \<open>self\<close>.
\<close>

definition get_self :: "('m \<times> 'g, 'm) exn" where
  "get_self = (\<lambda>(m, g). (Inr m, (m, g)))"

definition modify_self :: "('m \<Rightarrow> 'm) \<Rightarrow> ('m \<times> 'g, unit) exn" where
  "modify_self u = (\<lambda>(m, g). (Inr (), (u m, g)))"

definition ext :: "('g, 'r) exn \<Rightarrow> ('m \<times> 'g, 'r) exn" where
  "ext c = (\<lambda>(m, g). case c g of (r, g') \<Rightarrow> (r, (m, g')))"

fun repeat_m :: "nat \<Rightarrow> ('s, 'r) exn \<Rightarrow> ('s, 'r list) exn" where
  "repeat_m 0 c = ret []"
| "repeat_m (Suc n) c = bnd c (\<lambda>x. bnd (repeat_m n c) (\<lambda>xs. ret (x # xs)))"


section \<open>Tensors\<close>

text \<open>
  A tensor is its shape and its elements in row-major order. The tensor functions that
  \<open>lm_lstm_crf.py\<close> calls itself (\<open>size\<close>, \<open>unsqueeze\<close>, \<open>expand\<close>, \<open>torch.gather\<close>,
  \<open>torch.cat\<close>, \<open>permute\<close>, \<open>view\<close>) are defined on it, with the library's checks as
  error branches. Strides are not modelled: every tensor is read in its logical order.
\<close>

datatype 'a tensor = Tensor (shape: "nat list") (data: "'a list")

definition numel :: "'a tensor \<Rightarrow> nat" where
  "numel t = prod_list (shape t)"

text \<open>\<open>tmp[i]\<close> on the tuple returned by \<open>size()\<close>.\<close>

definition size_index :: "nat list \<Rightarrow> nat \<Rightarrow> error + int" where
  "size_index tmp i = (if i < length tmp then Inr (int (tmp ! i)) else Inl IndexError)"

text \<open>
  The place of the element with index \<open>idx\<close> in the data of a tensor of shape \<open>sh\<close>, and
  the index of the element at place \<open>n\<close>. \<open>tabulate sh f\<close> is the tensor of shape \<open>sh\<close>
  whose element at every index \<open>idx\<close> is \<open>f idx\<close>.
\<close>

fun ravel :: "nat list \<Rightarrow> nat list \<Rightarrow> nat" where
  "ravel (d # ds) (i # js) = i * prod_list ds + ravel ds js"
| "ravel _ _ = 0"

fun unravel :: "nat list \<Rightarrow> nat \<Rightarrow> nat list" where
  "unravel [] n = []"
| "unravel (d # ds) n = (n div prod_list ds) # unravel ds (n mod prod_list ds)"

definition elem :: "'a tensor \<Rightarrow> nat list \<Rightarrow> 'a" where
  "elem t idx = data t ! ravel (shape t) idx"

definition tabulate :: "nat list \<Rightarrow> (nat list \<Rightarrow> 'a) \<Rightarrow> 'a tensor" where
  "tabulate sh f = Tensor sh (map (\<lambda>n. f (unravel sh n)) [0..<prod_list sh])"

fun index_of :: "nat list \<Rightarrow> nat \<Rightarrow> nat" where
  "index_of [] a = 0"
| "index_of (x # xs) a = (if x = a then 0 else Suc (index_of xs a))"

text \<open>\<open>t.permute(*dims)\<close>: axis \<open>j\<close> of the result is axis \<open>dims[j]\<close> of \<open>t\<close>.\<close>

definition permute :: "'a tensor \<Rightarrow> nat list \<Rightarrow> error + 'a tensor" where
  "permute t dims =
     (if sort dims \<noteq> [0..<length (shape t)] then Inl RuntimeError
      else Inr (tabulate (map (\<lambda>p. shape t ! p) dims)
                  (\<lambda>idx. elem t (map (\<lambda>a. idx ! index_of dims a) [0..<length dims]))))"

text \<open>\<open>t.unsqueeze(d)\<close> for a non-negative \<open>d\<close>.\<close>

definition unsqueeze :: "'a tensor \<Rightarrow> nat \<Rightarrow> error + 'a tensor" where
  "unsqueeze t d =
     (if d \<le> length (shape t)
      then Inr (Tensor (take d (shape t) @ [1] @ drop d (shape t)) (data t))
      else Inl IndexError)"

text \<open>
  \<open>t.expand(*sizes)\<close>: the sizes are aligned to the right of the shape; a size \<open>-1\<close>
  keeps an existing axis, an axis of length 1 is repeated, any other mismatch raises.
\<close>

definition expand :: "'a tensor \<Rightarrow> int list \<Rightarrow> error + 'a tensor" where
  "expand t sizes =
     (let k = length sizes - length (shape t);
          old = replicate k 1 @ shape t
      in if length sizes < length (shape t) then Inl RuntimeError
         else if list_ex (\<lambda>s. s < 0) (take k sizes) then Inl RuntimeError
         else if list_ex (\<lambda>(d, s). s \<noteq> - 1 \<and> s \<noteq> int d \<and> (d \<noteq> 1 \<or> s < 0))
                   (zip (shape t) (drop k sizes)) then Inl RuntimeError
         else Inr (tabulate (map2 (\<lambda>d s. if s = - 1 then d else nat s) old sizes)
                     (\<lambda>idx. elem (Tensor old (data t))
                                (map2 (\<lambda>d i. if d = 1 then 0 else i) old idx))))"

text \<open>
  \<open>torch.gather(input, 0, index)\<close>: the result has the shape of \<open>index\<close> and the element
  \<open>input[index[i, j, k], j, k]\<close> at \<open>[i, j, k]\<close>. An index without elements gives the
  empty result with no check; otherwise both tensors must have the same number of axes
  (a tensor without axes counts as one of shape \<open>(1)\<close>), the index must not exceed the
  input along the other axes, and its elements must be rows of the input.
\<close>

definition at_least_one_axis :: "'a tensor \<Rightarrow> 'a tensor" where
  "at_least_one_axis t = (if shape t = [] then Tensor [1] (data t) else t)"

definition gather0 :: "'a tensor \<Rightarrow> int tensor \<Rightarrow> error + 'a tensor" where
  "gather0 input index =
     (let inp = at_least_one_axis input; ind = at_least_one_axis index
      in if numel index = 0 then Inr (Tensor (shape index) [])
         else if length (shape ind) \<noteq> length (shape inp) then Inl RuntimeError
         else if \<not> list_all2 (\<le>) (tl (shape ind)) (tl (shape inp)) then Inl RuntimeError
         else if list_ex (\<lambda>v. v < 0 \<or> int (hd (shape inp)) \<le> v) (data index)
           then Inl RuntimeError
         else Inr (Tensor (shape index)
                     (data (tabulate (shape ind)
                              (\<lambda>idx. elem inp (nat (elem ind idx) # tl idx))))))"

text \<open>
  \<open>torch.cat(tensors, dim=2)\<close>. An empty tensor of one axis is skipped; the first tensor
  that is not skipped must have a third axis (\<open>IndexError\<close> otherwise), and the others
  must have its shape except along that axis.
\<close>

fun cat_at :: "'a tensor \<Rightarrow> 'a tensor list \<Rightarrow> nat list \<Rightarrow> 'a" where
  "cat_at t [] idx = elem t idx"
| "cat_at t (u # us) idx =
     (if idx ! 2 < shape t ! 2 then elem t idx
      else cat_at u us (idx[2 := idx ! 2 - shape t ! 2]))"

definition cat2 :: "'a tensor list \<Rightarrow> error + 'a tensor" where
  "cat2 ts =
     (if ts = [] then Inl RuntimeError
      else case filter (\<lambda>t. shape t \<noteq> [0]) ts of
        [] \<Rightarrow> Inr (Tensor [0] [])
      | t # rest \<Rightarrow>
          if length (shape t) \<le> 2 then Inl IndexError
          else if list_ex (\<lambda>u. (shape u)[2 := 0] \<noteq> (shape t)[2 := 0]) rest
            then Inl RuntimeError
          else Inr (tabulate ((shape t)[2 := sum_list (map (\<lambda>u. shape u ! 2) (t # rest))])
                      (cat_at t rest)))"

text \<open>
  \<open>t.view(*sizes)\<close>: at most one size is \<open>-1\<close> and is inferred; the sizes must account
  for every element.
\<close>

definition view :: "'a tensor \<Rightarrow> int list \<Rightarrow> error + 'a tensor" where
  "view t sizes =
     (let n = int (numel t);
          p = prod_list (filter (\<lambda>s. s \<noteq> - 1) sizes);
          holes = length (filter (\<lambda>s. s = - 1) sizes)
      in if list_ex (\<lambda>s. s < - 1) sizes \<or> 1 < holes then Inl RuntimeError
         else if holes = 1 then
           (if p = 0 \<or> n mod p \<noteq> 0 then Inl RuntimeError
            else Inr (Tensor (map (\<lambda>s. nat (if s = - 1 then n div p else s)) sizes) (data t)))
         else if p \<noteq> n then Inl RuntimeError
         else Inr (Tensor (map nat sizes) (data t)))"

section \<open>Modules and the library\<close>

text \<open>
  A module object is its class with the arguments it was constructed with (\<open>kind\<close>) and
  its parameter tensors by attribute name. The arguments follow the constructor calls in
  \<open>__init__\<close>: \<open>Embedding num dim freeze\<close>, \<open>LSTM input hidden num_layers bidirectional
  dropout\<close>, \<open>Dropout p\<close>, \<open>CRF_L hidden_dim tagset_size\<close>, \<open>CRF_S hidden_dim tagset_size\<close>,
  \<open>hw size num_layers dropout_ratio\<close>, \<open>Linear in_features out_features\<close> and
  \<open>EncoderLayer d_model d_inner n_head d_k d_v dropout\<close>.
\<close>

datatype kind =
    Embedding int int bool
  | LSTM int int int bool real
  | Dropout real
  | CRF_L int int
  | CRF_S int int
  | hw int int real
  | Linear int int
  | EncoderLayer int int int int int real

datatype 'a module = Module (kind: kind) (params: "string \<Rightarrow> 'a tensor option")

type_synonym word_dict = "string \<Rightarrow> int option"

text \<open>
  What \<open>lm_lstm_crf.py\<close> imports and does not define is a parameter of the model: the
  \<open>torch.nn\<close> modules and the modules \<open>model.crf\<close>, \<open>model.utils\<close>, \<open>model.highway\<close> and
  \<open>model.submodel\<close>. \<open>new_params\<close> gives a constructor's initial parameters; \<open>call\<close> is
  the forward pass of a module from one tensor to one tensor (dropout, linear, CRF and
  highway); the other fields are the calls of other signatures and the functions of
  \<open>model.utils\<close>. \<open>'a\<close> is the type of a tensor's numbers, \<open>'g\<close> the state of the
  random generator, \<open>'k\<close> the type of a mask.
\<close>

record ('a, 'g, 'k) env =
  new_params :: "kind \<Rightarrow> ('g, string \<Rightarrow> 'a tensor option) exn"
  get_sinusoid_encoding_table :: "int \<Rightarrow> int \<Rightarrow> int \<Rightarrow> ('g, 'a tensor) exn"
  call :: "'a module \<Rightarrow> 'a tensor \<Rightarrow> ('g, 'a tensor) exn"
  call_embedding :: "'a module \<Rightarrow> int tensor \<Rightarrow> ('g, 'a tensor) exn"
  call_lstm :: "'a module \<Rightarrow> 'a tensor \<Rightarrow> ('g, 'a tensor \<times> 'a tensor \<times> 'a tensor) exn"
  call_enc_layer :: "'a module \<Rightarrow> 'a tensor \<Rightarrow> 'k \<Rightarrow> 'k \<Rightarrow> ('g, 'a tensor \<times> 'a tensor) exn"
  get_attn_key_pad_mask :: "int tensor \<Rightarrow> int tensor \<Rightarrow> word_dict \<Rightarrow> ('g, 'k) exn"
  get_non_pad_mask :: "int tensor \<Rightarrow> word_dict \<Rightarrow> ('g, 'k) exn"
  init_embedding :: "'a tensor \<Rightarrow> ('g, 'a tensor) exn"
  init_lstm :: "'a module \<Rightarrow> ('g, 'a module) exn"
  init_linear :: "'a module \<Rightarrow> ('g, 'a module) exn"
  module_rand_init :: "'a module \<Rightarrow> ('g, 'a module) exn"

definition new_module :: "('a, 'g, 'k) env \<Rightarrow> kind \<Rightarrow> ('g, 'a module) exn" where
  "new_module env k = bnd (new_params env k) (\<lambda>ps. ret (Module k ps))"

text \<open>\<open>nn.Embedding.from_pretrained(embeddings, freeze)\<close>.\<close>

definition from_pretrained :: "'a tensor \<Rightarrow> bool \<Rightarrow> ('g, 'a module) exn" where
  "from_pretrained embeddings freeze =
     (case shape embeddings of
        [rows, cols] \<Rightarrow>
          ret (Module (Embedding (int rows) (int cols) freeze)
                 ((\<lambda>_. None)(''weight'' := Some embeddings)))
      | _ \<Rightarrow> raise AssertionError)"

text \<open>Reading and assigning the attribute \<open>weight\<close> of a module.\<close>

definition get_weight :: "'a module \<Rightarrow> ('g, 'a tensor) exn" where
  "get_weight m = (case params m ''weight'' of None \<Rightarrow> raise AttributeError | Some w \<Rightarrow> ret w)"

definition set_weight :: "'a module \<Rightarrow> 'a tensor \<Rightarrow> 'a module" where
  "set_weight m w = Module (kind m) ((params m)(''weight'' := Some w))"

text \<open>
  \<open>modules[i]\<close> on an \<open>nn.ModuleList\<close>: a negative index counts from the end, an index
  out of range raises \<open>IndexError\<close>.
\<close>

definition getitem :: "'b list \<Rightarrow> int \<Rightarrow> ('s, 'b) exn" where
  "getitem xs i =
     (let n = int (length xs)
      in if - n \<le> i \<and> i < n then ret (xs ! nat (if i < 0 then i + n else i))
         else raise IndexError)"

text \<open>An attribute that \<open>__init__\<close> assigns only under \<open>if_highway\<close>.\<close>

definition getattr :: "'b option \<Rightarrow> ('s, 'b) exn" where
  "getattr a = (case a of None \<Rightarrow> raise AttributeError | Some v \<Rightarrow> ret v)"

section \<open>The class \<open>LM_LSTM_CRF\<close>\<close>

record 'a lm_lstm_crf =
  char_dim :: int
  char_hidden_dim :: int
  char_size :: int
  word_dim :: int
  word_hidden_dim :: int
  word_size :: int
  if_highway :: bool
  word_level_attention :: bool
  char_embeds :: "'a module"
  forw_char_lstm :: "'a module"
  back_char_lstm :: "'a module"
  char_rnn_layers :: int
  word_embeds :: "'a module"
  word_lstm :: "'a module"
  word_rnn_layers :: int
  dropout :: "'a module"
  tagset_size :: int
  crflist :: "'a module list"
  forw2char :: "'a module option"
  back2char :: "'a module option"
  forw2word :: "'a module option"
  back2word :: "'a module option"
  fb2char :: "'a module option"
  char_pre_train_out :: "'a module"
  word_pre_train_out :: "'a module"
  batch_size :: int
  word_seq_length :: int
  position_enc :: "'a module"
  layer_stack :: "'a module list"
  fc :: "'a module"

text \<open>
  \<open>__init__\<close>. The modules are constructed in the order of the source; a parameter whose
  name is also an attribute carries a prime. \<open>range(n)\<close> of a negative \<open>n\<close> is empty.
\<close>

definition init ::
  "('a, 'g, 'k) env \<Rightarrow> int \<Rightarrow> int \<Rightarrow> int \<Rightarrow> int \<Rightarrow> int \<Rightarrow> int \<Rightarrow> int \<Rightarrow> int \<Rightarrow> int \<Rightarrow> real \<Rightarrow> int \<Rightarrow>
   int \<Rightarrow> int \<Rightarrow> int \<Rightarrow> int \<Rightarrow> int \<Rightarrow> bool \<Rightarrow> bool \<Rightarrow> int \<Rightarrow> int \<Rightarrow> bool \<Rightarrow>
   ('g, 'a lm_lstm_crf) exn" where
  "init env tagset_size' char_size' char_dim' char_hidden_dim' char_rnn_layers' embedding_dim
     word_hidden_dim' word_rnn_layers' vocab_size dropout_ratio file_num len_max_seq n_layers
     n_head d_k d_v large_CRF if_highway' in_doc_words highway_layers word_level_attention' =
   bnd (new_module env (Embedding char_size' char_dim' False)) (\<lambda>char_embeds'.
   bnd (new_module env (LSTM char_dim' char_hidden_dim' char_rnn_layers' False dropout_ratio))
     (\<lambda>forw_char_lstm'.
   bnd (new_module env (LSTM char_dim' char_hidden_dim' char_rnn_layers' False dropout_ratio))
     (\<lambda>back_char_lstm'.
   bnd (new_module env (Embedding vocab_size embedding_dim False)) (\<lambda>word_embeds'.
   bnd (new_module env (LSTM (embedding_dim + char_hidden_dim' * 2) (word_hidden_dim' div 2)
          word_rnn_layers' True dropout_ratio)) (\<lambda>word_lstm'.
   bnd (new_module env (Dropout dropout_ratio)) (\<lambda>dropout'.
   bnd (repeat_m (nat file_num)
          (if large_CRF then new_module env (CRF_L word_hidden_dim' tagset_size')
           else new_module env (CRF_S word_hidden_dim' tagset_size'))) (\<lambda>crflist'.
   bnd (if if_highway' then
          bnd (new_module env (hw char_hidden_dim' highway_layers dropout_ratio)) (\<lambda>h1.
          bnd (new_module env (hw char_hidden_dim' highway_layers dropout_ratio)) (\<lambda>h2.
          bnd (new_module env (hw char_hidden_dim' highway_layers dropout_ratio)) (\<lambda>h3.
          bnd (new_module env (hw char_hidden_dim' highway_layers dropout_ratio)) (\<lambda>h4.
          bnd (new_module env (hw (2 * char_hidden_dim') highway_layers dropout_ratio)) (\<lambda>h5.
          ret (Some h1, Some h2, Some h3, Some h4, Some h5))))))
        else ret (None, None, None, None, None))
     (\<lambda>(forw2char', back2char', forw2word', back2word', fb2char').
   bnd (new_module env (Linear char_hidden_dim' char_size')) (\<lambda>char_pre_train_out'.
   bnd (new_module env (Linear char_hidden_dim' in_doc_words)) (\<lambda>word_pre_train_out'.
   bnd (get_sinusoid_encoding_table env (len_max_seq + 1) embedding_dim 0) (\<lambda>table.
   bnd (from_pretrained table True) (\<lambda>position_enc'.
   bnd (repeat_m (nat n_layers)
          (new_module env (EncoderLayer (embedding_dim * 2 + char_hidden_dim' * 2)
             word_hidden_dim' n_head d_k d_v dropout_ratio))) (\<lambda>layer_stack'.
   bnd (new_module env (Linear (embedding_dim * 2 + char_hidden_dim' * 2) word_hidden_dim'))
     (\<lambda>fc'.
   ret \<lparr>char_dim = char_dim', char_hidden_dim = char_hidden_dim', char_size = char_size',
        word_dim = embedding_dim, word_hidden_dim = word_hidden_dim', word_size = vocab_size,
        if_highway = if_highway', word_level_attention = word_level_attention',
        char_embeds = char_embeds', forw_char_lstm = forw_char_lstm',
        back_char_lstm = back_char_lstm', char_rnn_layers = char_rnn_layers',
        word_embeds = word_embeds', word_lstm = word_lstm',
        word_rnn_layers = word_rnn_layers', dropout = dropout',
        tagset_size = tagset_size', crflist = crflist',
        forw2char = forw2char', back2char = back2char', forw2word = forw2word',
        back2word = back2word', fb2char = fb2char',
        char_pre_train_out = char_pre_train_out', word_pre_train_out = word_pre_train_out',
        batch_size = 1, word_seq_length = 1, position_enc = position_enc',
        layer_stack = layer_stack', fc = fc'\<rparr>))))))))))))))"

definition set_batch_size :: "int \<Rightarrow> ('a lm_lstm_crf \<times> 'g, unit) exn" where
  "set_batch_size bsize = modify_self (\<lambda>m. m\<lparr>batch_size := bsize\<rparr>)"

definition set_batch_seq_size :: "'b tensor \<Rightarrow> ('a lm_lstm_crf \<times> 'g, unit) exn" where
  "set_batch_seq_size sentence =
   bnd (lift (size_index (shape sentence) 0)) (\<lambda>tmp0.
   bnd (modify_self (\<lambda>m. m\<lparr>word_seq_length := tmp0\<rparr>)) (\<lambda>_.
   bnd (lift (size_index (shape sentence) 1)) (\<lambda>tmp1.
   modify_self (\<lambda>m. m\<lparr>batch_size := tmp1\<rparr>))))"

text \<open>
  \<open>utils.init_embedding\<close> overwrites the tensor it is given, which is the module's
  \<open>weight\<close>: the model writes the new tensor back.
\<close>

definition init_weight :: "('a, 'g, 'k) env \<Rightarrow> 'a module \<Rightarrow> ('g, 'a module) exn" where
  "init_weight env m =
   bnd (get_weight m) (\<lambda>w. bnd (init_embedding env w) (\<lambda>w'. ret (set_weight m w')))"

text \<open>
  An initialiser applied to the module in an attribute of \<open>self\<close>, in place: \<open>reinit\<close> for
  an attribute that always exists, \<open>reinit_attr\<close> for one that \<open>__init__\<close> may have left
  out, \<open>reinit_crf\<close> for the \<open>i\<close>-th module of \<open>crflist\<close>.
\<close>

definition reinit ::
  "('a module \<Rightarrow> ('g, 'a module) exn) \<Rightarrow> ('a lm_lstm_crf \<Rightarrow> 'a module) \<Rightarrow>
   (('a module \<Rightarrow> 'a module) \<Rightarrow> 'a lm_lstm_crf \<Rightarrow> 'a lm_lstm_crf) \<Rightarrow>
   ('a lm_lstm_crf \<times> 'g, unit) exn" where
  "reinit f field field_update =
   bnd get_self (\<lambda>self. bnd (ext (f (field self))) (\<lambda>m'. modify_self (field_update (\<lambda>_. m'))))"



definition rand_init_embedding :: "('a, 'g, 'k) env \<Rightarrow> ('a lm_lstm_crf \<times> 'g, unit) exn" where
  "rand_init_embedding env = reinit (init_weight env) char_embeds char_embeds_update"

definition load_pretrained_word_embedding ::
  "'a tensor \<Rightarrow> ('a lm_lstm_crf \<times> 'g, unit) exn" where
  "load_pretrained_word_embedding pre_word_embeddings =
   bnd (lift (size_index (shape pre_word_embeddings) 1)) (\<lambda>d.
   bnd get_self (\<lambda>self.
   if d = word_dim self
   then modify_self (\<lambda>m. m\<lparr>word_embeds := set_weight (word_embeds m) pre_word_embeddings\<rparr>)
   else raise AssertionError))"


text \<open>
  The two language-model scorers. The argument \<open>hidden\<close> is never read: the LSTM is
  called on the embeddings alone and the name is rebound to the state it returns.
\<close>

definition word_pre_train_forward ::
  "('a, 'g, 'k) env \<Rightarrow> int tensor \<Rightarrow> int tensor \<Rightarrow> ('a tensor \<times> 'a tensor) option \<Rightarrow>
   ('a lm_lstm_crf \<times> 'g, 'a tensor \<times> 'a tensor \<times> 'a tensor) exn" where
  "word_pre_train_forward env sentence position hidden =
   bnd get_self (\<lambda>self. ext (
   bnd (call_embedding env (char_embeds self) sentence) (\<lambda>embeds.
   bnd (call env (dropout self) embeds) (\<lambda>d_embeds.
   bnd (call_lstm env (forw_char_lstm self) d_embeds) (\<lambda>(lstm_out, hidden').
   bnd (lift (unsqueeze position 2)) (\<lambda>position1.
   bnd (lift (size_index (shape position) 0)) (\<lambda>tmpsize0.
   bnd (lift (size_index (shape position) 1)) (\<lambda>tmpsize1.
   bnd (lift (expand position1 [tmpsize0, tmpsize1, char_hidden_dim self])) (\<lambda>position2.
   bnd (lift (gather0 lstm_out position2)) (\<lambda>select_lstm_out.
   bnd (call env (dropout self) select_lstm_out) (\<lambda>d_select.
   bnd (lift (view d_select [- 1, char_hidden_dim self])) (\<lambda>d_lstm_out.
   bnd (if if_highway self then
          bnd (getattr (forw2word self)) (\<lambda>h.
          bnd (call env h d_lstm_out) (\<lambda>char_out.
          call env (dropout self) char_out))
        else ret d_lstm_out) (\<lambda>d_char_out.
   bnd (call env (word_pre_train_out self) d_char_out) (\<lambda>pre_score.
   ret (pre_score, hidden')))))))))))))))"

definition word_pre_train_backward ::
  "('a, 'g, 'k) env \<Rightarrow> int tensor \<Rightarrow> int tensor \<Rightarrow> ('a tensor \<times> 'a tensor) option \<Rightarrow>
   ('a lm_lstm_crf \<times> 'g, 'a tensor \<times> 'a tensor \<times> 'a tensor) exn" where
  "word_pre_train_backward env sentence position hidden =
   bnd get_self (\<lambda>self. ext (
   bnd (call_embedding env (char_embeds self) sentence) (\<lambda>embeds.
   bnd (call env (dropout self) embeds) (\<lambda>d_embeds.
   bnd (call_lstm env (back_char_lstm self) d_embeds) (\<lambda>(lstm_out, hidden').
   bnd (lift (unsqueeze position 2)) (\<lambda>position1.
   bnd (lift (size_index (shape position) 0)) (\<lambda>tmpsize0.
   bnd (lift (size_index (shape position) 1)) (\<lambda>tmpsize1.
   bnd (lift (expand position1 [tmpsize0, tmpsize1, char_hidden_dim self])) (\<lambda>position2.
   bnd (lift (gather0 lstm_out position2)) (\<lambda>select_lstm_out.
   bnd (call env (dropout self) select_lstm_out) (\<lambda>d_select.
   bnd (lift (view d_select [- 1, char_hidden_dim self])) (\<lambda>d_lstm_out.
   bnd (if if_highway self then
          bnd (getattr (back2word self)) (\<lambda>h.
          bnd (call env h d_lstm_out) (\<lambda>char_out.
          call env (dropout self) char_out))
        else ret d_lstm_out) (\<lambda>d_char_out.
   bnd (call env (word_pre_train_out self) d_char_out) (\<lambda>pre_score.
   ret (pre_score, hidden')))))))))))))))"

text \<open>The loop of \<open>forward\<close> over \<open>layer_stack\<close>.\<close>

fun enc_layers ::
  "('a, 'g, 'k) env \<Rightarrow> 'a module list \<Rightarrow> 'a tensor \<Rightarrow> 'k \<Rightarrow> 'k \<Rightarrow> ('g, 'a tensor) exn" where
  "enc_layers env [] enc_output non_pad_mask slf_attn_mask = ret enc_output"
| "enc_layers env (enc_layer # rest) enc_output non_pad_mask slf_attn_mask =
     bnd (call_enc_layer env enc_layer enc_output non_pad_mask slf_attn_mask)
       (\<lambda>(enc_output', _). enc_layers env rest enc_output' non_pad_mask slf_attn_mask)"

text \<open>
  \<open>forward\<close>. After its first statement \<open>self\<close> is only read. As in the scorers,
  \<open>hidden\<close> is never read.
\<close>

definition forward ::
  "('a, 'g, 'k) env \<Rightarrow> int tensor \<Rightarrow> int tensor \<Rightarrow> int tensor \<Rightarrow> int tensor \<Rightarrow> int tensor \<Rightarrow>
   int tensor \<Rightarrow> word_dict \<Rightarrow> int \<Rightarrow> ('a tensor \<times> 'a tensor) option \<Rightarrow>
   ('a lm_lstm_crf \<times> 'g, 'a tensor) exn" where
  "forward env forw_sentence forw_position back_sentence back_position word_seq word_pos
     word_dict file_no hidden =
   bnd (set_batch_seq_size forw_position) (\<lambda>_.
   bnd get_self (\<lambda>self. ext (
   bnd (call_embedding env (char_embeds self) forw_sentence) (\<lambda>forw_emb.
   bnd (call_embedding env (char_embeds self) back_sentence) (\<lambda>back_emb.
   bnd (call env (dropout self) forw_emb) (\<lambda>d_f_emb.
   bnd (call env (dropout self) back_emb) (\<lambda>d_b_emb.
   bnd (call_lstm env (forw_char_lstm self) d_f_emb) (\<lambda>(forw_lstm_out, _).
   bnd (call_lstm env (back_char_lstm self) d_b_emb) (\<lambda>(back_lstm_out, _).
   bnd (lift (unsqueeze forw_position 2)) (\<lambda>forw_position1.
   bnd (lift (expand forw_position1
          [word_seq_length self, batch_size self, char_hidden_dim self])) (\<lambda>forw_position2.
   bnd (lift (gather0 forw_lstm_out forw_position2)) (\<lambda>select_forw_lstm_out.
   bnd (lift (unsqueeze back_position 2)) (\<lambda>back_position1.
   bnd (lift (expand back_position1
          [word_seq_length self, batch_size self, char_hidden_dim self])) (\<lambda>back_position2.
   bnd (lift (gather0 back_lstm_out back_position2)) (\<lambda>select_back_lstm_out.
   bnd (lift (cat2 [select_forw_lstm_out, select_back_lstm_out])) (\<lambda>fb.
   bnd (call env (dropout self) fb) (\<lambda>fb_lstm_out.
   bnd (if if_highway self then
          bnd (getattr (fb2char self)) (\<lambda>h.
          bnd (call env h fb_lstm_out) (\<lambda>char_out.
          call env (dropout self) char_out))
        else ret fb_lstm_out) (\<lambda>d_char_out.
   bnd (call_embedding env (word_embeds self) word_seq) (\<lambda>word_emb.
   bnd (call env (dropout self) word_emb) (\<lambda>d_word_emb.
   bnd (if word_level_attention self then
          bnd (call_embedding env (position_enc self) word_pos) (\<lambda>word_pos_enc.
          bnd (lift (cat2 [d_word_emb, d_char_out, word_pos_enc])) (\<lambda>combined.
          bnd (lift (permute combined [1, 0, 2])) (\<lambda>enc_output.
          bnd (lift (permute word_seq [1, 0])) (\<lambda>seq_k.
          bnd (lift (permute word_seq [1, 0])) (\<lambda>seq_q.
          bnd (get_attn_key_pad_mask env seq_k seq_q word_dict) (\<lambda>slf_attn_mask.
          bnd (lift (permute word_seq [1, 0])) (\<lambda>seq.
          bnd (get_non_pad_mask env seq word_dict) (\<lambda>non_pad_mask.
          bnd (enc_layers env (layer_stack self) enc_output non_pad_mask slf_attn_mask)
            (\<lambda>enc_output'.
          bnd (call env (fc self) enc_output') (\<lambda>fc_out.
          bnd (getitem (crflist self) file_no) (\<lambda>crf.
          call env crf fc_out)))))))))))
        else
          bnd (lift (cat2 [d_word_emb, d_char_out])) (\<lambda>word_input.
          bnd (call_lstm env (word_lstm self) word_input) (\<lambda>(lstm_out, _).
          bnd (call env (dropout self) lstm_out) (\<lambda>d_lstm_out.
          bnd (getitem (crflist self) file_no) (\<lambda>crf.
          call env crf d_lstm_out))))) (\<lambda>crf_out.
   bnd (lift (view crf_out
          [batch_size self, word_seq_length self, tagset_size self, tagset_size self]))
     (\<lambda>crf_out1.
   lift (permute crf_out1 [1, 0, 2, 3])))))))))))))))))))))))"

section \<open>The stages of the forward pass\<close>

text \<open>
  The specification speaks of the forward pass by its stages: a character-level encoder,
  an optional highway projection, a word-level encoder that is either the attention stack
  or the bidirectional LSTM, and one CRF head per corpus. The definitions of this section
  state each stage on its own, after the spec's words; the theorems below relate them to
  \<open>forward\<close>, \<open>word_pre_train_forward\<close> and \<open>word_pre_train_backward\<close> as translated above.
\<close>

text \<open>The states of a character LSTM at the word boundaries \<open>position\<close>.\<close>

definition select_states ::
  "'a tensor \<Rightarrow> int tensor \<Rightarrow> int list \<Rightarrow> ('g, 'a tensor) exn" where
  "select_states lstm_out position sizes =
   bnd (lift (unsqueeze position 2)) (\<lambda>p1.
   bnd (lift (expand p1 sizes)) (\<lambda>p2.
   lift (gather0 lstm_out p2)))"

text \<open>
  The character-level encoder: both character LSTMs over the embedded and dropped-out
  sentences, their states at the word boundaries, concatenated, with dropout.
\<close>

definition char_lstm_features ::
  "('a, 'g, 'k) env \<Rightarrow> 'a lm_lstm_crf \<Rightarrow> int tensor \<Rightarrow> int tensor \<Rightarrow> int tensor \<Rightarrow> int tensor \<Rightarrow>
   ('g, 'a tensor) exn" where
  "char_lstm_features env self forw_sentence forw_position back_sentence back_position =
   bnd (call_embedding env (char_embeds self) forw_sentence) (\<lambda>forw_emb.
   bnd (call_embedding env (char_embeds self) back_sentence) (\<lambda>back_emb.
   bnd (call env (dropout self) forw_emb) (\<lambda>d_f_emb.
   bnd (call env (dropout self) back_emb) (\<lambda>d_b_emb.
   bnd (call_lstm env (forw_char_lstm self) d_f_emb) (\<lambda>forw.
   bnd (call_lstm env (back_char_lstm self) d_b_emb) (\<lambda>back.
   bnd (select_states (fst forw) forw_position
          [word_seq_length self, batch_size self, char_hidden_dim self]) (\<lambda>select_forw.
   bnd (select_states (fst back) back_position
          [word_seq_length self, batch_size self, char_hidden_dim self]) (\<lambda>select_back.
   bnd (lift (cat2 [select_forw, select_back])) (\<lambda>fb.
   call env (dropout self) fb)))))))))"

text \<open>
  The highway projection held in attribute \<open>block\<close>, followed by dropout, when
  \<open>if_highway\<close> is set; the features as they are otherwise.
\<close>

definition highway_or_id ::
  "('a, 'g, 'k) env \<Rightarrow> 'a lm_lstm_crf \<Rightarrow> ('a lm_lstm_crf \<Rightarrow> 'a module option) \<Rightarrow> 'a tensor \<Rightarrow>
   ('g, 'a tensor) exn" where
  "highway_or_id env self block x =
     (if if_highway self then
        bnd (getattr (block self)) (\<lambda>h.
        bnd (call env h x) (\<lambda>char_out.
        call env (dropout self) char_out))
      else ret x)"

definition word_embedding ::
  "('a, 'g, 'k) env \<Rightarrow> 'a lm_lstm_crf \<Rightarrow> int tensor \<Rightarrow> ('g, 'a tensor) exn" where
  "word_embedding env self word_seq =
   bnd (call_embedding env (word_embeds self) word_seq) (\<lambda>word_emb.
   call env (dropout self) word_emb)"

text \<open>The two masks, from \<open>word_seq\<close> and \<open>word_dict\<close> alone.\<close>

definition attention_masks ::
  "('a, 'g, 'k) env \<Rightarrow> int tensor \<Rightarrow> word_dict \<Rightarrow> ('g, 'k \<times> 'k) exn" where
  "attention_masks env word_seq word_dict =
   bnd (lift (permute word_seq [1, 0])) (\<lambda>seq_k.
   bnd (lift (permute word_seq [1, 0])) (\<lambda>seq_q.
   bnd (get_attn_key_pad_mask env seq_k seq_q word_dict) (\<lambda>slf_attn_mask.
   bnd (lift (permute word_seq [1, 0])) (\<lambda>seq.
   bnd (get_non_pad_mask env seq word_dict) (\<lambda>non_pad_mask.
   ret (slf_attn_mask, non_pad_mask))))))"

text \<open>
  The attention encoder: word embeddings, character features and position encodings
  concatenated, through every layer of \<open>layer_stack\<close> with the two masks, then \<open>fc\<close>.
\<close>

definition attention_encoder ::
  "('a, 'g, 'k) env \<Rightarrow> 'a lm_lstm_crf \<Rightarrow> 'a tensor \<Rightarrow> 'a tensor \<Rightarrow> int tensor \<Rightarrow> int tensor \<Rightarrow>
   word_dict \<Rightarrow> ('g, 'a tensor) exn" where
  "attention_encoder env self d_word_emb d_char_out word_seq word_pos word_dict =
   bnd (call_embedding env (position_enc self) word_pos) (\<lambda>word_pos_enc.
   bnd (lift (cat2 [d_word_emb, d_char_out, word_pos_enc])) (\<lambda>combined.
   bnd (lift (permute combined [1, 0, 2])) (\<lambda>enc_output.
   bnd (attention_masks env word_seq word_dict) (\<lambda>masks.
   bnd (enc_layers env (layer_stack self) enc_output (snd masks) (fst masks)) (\<lambda>enc_output'.
   call env (fc self) enc_output')))))"

text \<open>The recurrent encoder: the bidirectional word LSTM, then dropout.\<close>

definition lstm_encoder ::
  "('a, 'g, 'k) env \<Rightarrow> 'a lm_lstm_crf \<Rightarrow> 'a tensor \<Rightarrow> 'a tensor \<Rightarrow> ('g, 'a tensor) exn" where
  "lstm_encoder env self d_word_emb d_char_out =
   bnd (lift (cat2 [d_word_emb, d_char_out])) (\<lambda>word_input.
   bnd (call_lstm env (word_lstm self) word_input) (\<lambda>out.
   call env (dropout self) (fst out)))"

text \<open>The encoder output that the CRF head receives; the corpus index is no argument.\<close>

definition encoder_output ::
  "('a, 'g, 'k) env \<Rightarrow> 'a lm_lstm_crf \<Rightarrow> int tensor \<Rightarrow> int tensor \<Rightarrow> int tensor \<Rightarrow> int tensor \<Rightarrow>
   int tensor \<Rightarrow> int tensor \<Rightarrow> word_dict \<Rightarrow> ('g, 'a tensor) exn" where
  "encoder_output env self forw_sentence forw_position back_sentence back_position word_seq
     word_pos word_dict =
   bnd (char_lstm_features env self forw_sentence forw_position back_sentence back_position)
     (\<lambda>fb_lstm_out.
   bnd (highway_or_id env self fb2char fb_lstm_out) (\<lambda>d_char_out.
   bnd (word_embedding env self word_seq) (\<lambda>d_word_emb.
   if word_level_attention self
   then attention_encoder env self d_word_emb d_char_out word_seq word_pos word_dict
   else lstm_encoder env self d_word_emb d_char_out)))"

text \<open>The CRF output as \<open>forward\<close> returns it.\<close>

definition crf_reshape :: "'a lm_lstm_crf \<Rightarrow> 'a tensor \<Rightarrow> ('g, 'a tensor) exn" where
  "crf_reshape self crf_out =
   bnd (lift (view crf_out
          [batch_size self, word_seq_length self, tagset_size self, tagset_size self]))
     (\<lambda>crf_out1. lift (permute crf_out1 [1, 0, 2, 3]))"

text \<open>\<open>self\<close> after the first statement of \<open>forward\<close>, for a position tensor of two axes.\<close>

definition with_sizes :: "'a lm_lstm_crf \<Rightarrow> 'b tensor \<Rightarrow> 'a lm_lstm_crf" where
  "with_sizes self t =
     self\<lparr>word_seq_length := int (shape t ! 0), batch_size := int (shape t ! 1)\<rparr>"

text \<open>
  The first half of a language-model scorer over the character LSTM in attribute \<open>lstm\<close>:
  the states of the LSTM at the word boundaries, with dropout, flattened to rows of
  width \<open>char_hidden_dim\<close>; returned with the LSTM's hidden state.
\<close>

definition lm_states ::
  "('a, 'g, 'k) env \<Rightarrow> ('a lm_lstm_crf \<Rightarrow> 'a module) \<Rightarrow> 'a lm_lstm_crf \<Rightarrow> int tensor \<Rightarrow>
   int tensor \<Rightarrow> ('g, 'a tensor \<times> 'a tensor \<times> 'a tensor) exn" where
  "lm_states env lstm self sentence position =
   bnd (call_embedding env (char_embeds self) sentence) (\<lambda>embeds.
   bnd (call env (dropout self) embeds) (\<lambda>d_embeds.
   bnd (call_lstm env (lstm self) d_embeds) (\<lambda>out.
   bnd (lift (unsqueeze position 2)) (\<lambda>position1.
   bnd (lift (size_index (shape position) 0)) (\<lambda>tmpsize0.
   bnd (lift (size_index (shape position) 1)) (\<lambda>tmpsize1.
   bnd (lift (expand position1 [tmpsize0, tmpsize1, char_hidden_dim self])) (\<lambda>position2.
   bnd (lift (gather0 (fst out) position2)) (\<lambda>select_lstm_out.
   bnd (call env (dropout self) select_lstm_out) (\<lambda>d_select.
   bnd (lift (view d_select [- 1, char_hidden_dim self])) (\<lambda>d_lstm_out.
   ret (d_lstm_out, snd out)))))))))))"

text \<open>
  A language-model scorer: these rows through the highway block in attribute \<open>block\<close>
  when \<open>if_highway\<close> is set, projected by \<open>word_pre_train_out\<close>.
\<close>

definition lm_scorer ::
  "('a, 'g, 'k) env \<Rightarrow> ('a lm_lstm_crf \<Rightarrow> 'a module) \<Rightarrow> ('a lm_lstm_crf \<Rightarrow> 'a module option) \<Rightarrow>
   'a lm_lstm_crf \<Rightarrow> int tensor \<Rightarrow> int tensor \<Rightarrow> ('g, 'a tensor \<times> 'a tensor \<times> 'a tensor) exn" where
  "lm_scorer env lstm block self sentence position =
   bnd (lm_states env lstm self sentence position) (\<lambda>states.
   bnd (highway_or_id env self block (fst states)) (\<lambda>d_char_out.
   bnd (call env (word_pre_train_out self) d_char_out) (\<lambda>pre_score.
   ret (pre_score, snd states))))"

text \<open>
  The forward pass from the character features on: the word-level encoder chosen by
  \<open>word_level_attention\<close>, the CRF head of the corpus, the reshaped output.
\<close>

definition from_char_features ::
  "('a, 'g, 'k) env \<Rightarrow> 'a lm_lstm_crf \<Rightarrow> 'a tensor \<Rightarrow> int tensor \<Rightarrow> int tensor \<Rightarrow> word_dict \<Rightarrow>
   int \<Rightarrow> ('g, 'a tensor) exn" where
  "from_char_features env self d_char_out word_seq word_pos word_dict file_no =
   bnd (word_embedding env self word_seq) (\<lambda>d_word_emb.
   bnd (if word_level_attention self
        then attention_encoder env self d_word_emb d_char_out word_seq word_pos word_dict
        else lstm_encoder env self d_word_emb d_char_out) (\<lambda>h.
   bnd (getitem (crflist self) file_no) (\<lambda>crf.
   bnd (call env crf h) (crf_reshape self))))"

section \<open>An instance of the library\<close>

text \<open>
  A small library on which the model runs, for evaluating the definitions at concrete
  inputs. Tensors hold integers, the generator state is a counter that every random draw
  advances, a mask is an integer tensor. The modules check their arguments and the shapes
  of their inputs as the real ones do; their arithmetic is replaced by one that shows
  where a value comes from: an embedding fills the row of an index with the index, and a
  recurrent, linear, highway or CRF module fills its output row with the first feature of
  the input row at the same place.
\<close>

definition zeros :: "nat list \<Rightarrow> int tensor" where
  "zeros sh = Tensor sh (replicate (prod_list sh) 0)"

definition draw :: "(nat \<Rightarrow> 'r) \<Rightarrow> (nat, 'r) exn" where
  "draw f = (\<lambda>g. (Inr (f g), Suc g))"

text \<open>The first feature of every row of a tensor with at least one axis, row by row.\<close>

definition first_features :: "int tensor \<Rightarrow> int list" where
  "first_features x =
     map (\<lambda>r. case drop (r * last (shape x)) (data x) of [] \<Rightarrow> 0 | v # _ \<Rightarrow> v)
       [0..<prod_list (butlast (shape x))]"

definition rows_of_width :: "nat \<Rightarrow> int list \<Rightarrow> int list" where
  "rows_of_width n vs = concat (map (replicate n) vs)"

text \<open>
  \<open>nn.Dropout\<close> in training mode draws from the generator; \<open>nn.Linear\<close>, the highway
  block and the CRF layers (a linear layer to \<open>tagset_size * tagset_size\<close> scores, viewed
  as one matrix per row) refuse an input whose last axis is not their input size.
\<close>

definition ex_call :: "int module \<Rightarrow> int tensor \<Rightarrow> (nat, int tensor) exn" where
  "ex_call m x =
     (case kind m of
        Dropout p \<Rightarrow> draw (\<lambda>_. x)
      | Linear i out \<Rightarrow>
          if shape x = [] \<or> int (last (shape x)) \<noteq> i then raise RuntimeError
          else ret (Tensor (butlast (shape x) @ [nat out])
                      (rows_of_width (nat out) (first_features x)))
      | CRF_L h t \<Rightarrow>
          if shape x = [] \<or> int (last (shape x)) \<noteq> h then raise RuntimeError
          else ret (Tensor [prod_list (butlast (shape x)), nat t, nat t]
                      (rows_of_width (nat t * nat t) (first_features x)))
      | CRF_S h t \<Rightarrow>
          if shape x = [] \<or> int (last (shape x)) \<noteq> h then raise RuntimeError
          else ret (Tensor [prod_list (butlast (shape x)), nat t, nat t]
                      (rows_of_width (nat t * nat t) (first_features x)))
      | hw n l p \<Rightarrow>
          if shape x = [] \<or> int (last (shape x)) \<noteq> n then raise RuntimeError
          else draw (\<lambda>_. x)
      | _ \<Rightarrow> raise RuntimeError)"

text \<open>\<open>nn.Embedding\<close> raises \<open>IndexError\<close> for an index outside its table.\<close>

definition ex_call_embedding :: "int module \<Rightarrow> int tensor \<Rightarrow> (nat, int tensor) exn" where
  "ex_call_embedding m idx =
     (case kind m of
        Embedding n d f \<Rightarrow>
          if list_ex (\<lambda>v. v < 0 \<or> n \<le> v) (data idx) then raise IndexError
          else ret (Tensor (shape idx @ [nat d]) (rows_of_width (nat d) (data idx)))
      | _ \<Rightarrow> raise RuntimeError)"

text \<open>
  \<open>nn.LSTM\<close> takes a sequence of at least one step, batched \<open>(seq, batch, input_size)\<close>
  or not \<open>(seq, input_size)\<close>, and returns its output with the final hidden and cell
  states, of shape \<open>(num_layers * directions, batch, hidden_size)\<close>.
\<close>

definition ex_call_lstm ::
  "int module \<Rightarrow> int tensor \<Rightarrow> (nat, int tensor \<times> int tensor \<times> int tensor) exn" where
  "ex_call_lstm m x =
     (case kind m of
        LSTM i h l b p \<Rightarrow>
          (let dirs = (if b then 2 else 1) in
           case shape x of
             [s, n, f] \<Rightarrow>
               if s = 0 \<or> int f \<noteq> i then raise RuntimeError
               else draw (\<lambda>_. (Tensor [s, n, nat h * dirs]
                                  (rows_of_width (nat h * dirs) (first_features x)),
                                zeros [nat l * dirs, n, nat h], zeros [nat l * dirs, n, nat h]))
           | [s, f] \<Rightarrow>
               if s = 0 \<or> int f \<noteq> i then raise RuntimeError
               else draw (\<lambda>_. (Tensor [s, nat h * dirs]
                                  (rows_of_width (nat h * dirs) (first_features x)),
                                zeros [nat l * dirs, nat h], zeros [nat l * dirs, nat h]))
           | _ \<Rightarrow> raise RuntimeError)
      | _ \<Rightarrow> raise RuntimeError)"

text \<open>
  The masks of \<open>model.utils\<close> for sequences \<open>(batch, len)\<close>: the key-padding mask
  \<open>(batch, len_q, len_k)\<close> is 1 where the key is the padding word, the non-pad mask
  \<open>(batch, len, 1)\<close> is 0 there. The padding word is the entry \<open><pad>\<close> of the dictionary.
\<close>

definition ex_pad :: "word_dict \<Rightarrow> int" where
  "ex_pad d = (case d ''<pad>'' of None \<Rightarrow> 0 | Some p \<Rightarrow> p)"

definition ex_get_attn_key_pad_mask ::
  "int tensor \<Rightarrow> int tensor \<Rightarrow> word_dict \<Rightarrow> (nat, int tensor) exn" where
  "ex_get_attn_key_pad_mask seq_k seq_q d =
     (case shape seq_k of
        [n, len_k] \<Rightarrow>
          (case shape seq_q of
             [n', len_q] \<Rightarrow>
               ret (tabulate [n, len_q, len_k]
                      (\<lambda>idx. if elem seq_k [idx ! 0, idx ! 2] = ex_pad d then 1 else 0))
           | _ \<Rightarrow> raise RuntimeError)
      | _ \<Rightarrow> raise RuntimeError)"

definition ex_get_non_pad_mask :: "int tensor \<Rightarrow> word_dict \<Rightarrow> (nat, int tensor) exn" where
  "ex_get_non_pad_mask seq d =
     (case shape seq of
        [n, len] \<Rightarrow> ret (Tensor [n, len, 1] (map (\<lambda>v. if v = ex_pad d then 0 else 1) (data seq)))
      | _ \<Rightarrow> raise RuntimeError)"

text \<open>
  An encoder layer takes \<open>(batch, len, d_model)\<close> with masks of the shapes above; it adds
  100 to every feature and multiplies each row by its entry of the non-pad mask, and
  returns with it the attention, 0 on the padded keys.
\<close>

definition ex_call_enc_layer ::
  "int module \<Rightarrow> int tensor \<Rightarrow> int tensor \<Rightarrow> int tensor \<Rightarrow> (nat, int tensor \<times> int tensor) exn"
  where
  "ex_call_enc_layer m x non_pad_mask slf_attn_mask =
     (case kind m of
        EncoderLayer d_model d_inner n_head d_k d_v p \<Rightarrow>
          (case shape x of
             [n, len, d] \<Rightarrow>
               if int d \<noteq> d_model \<or> shape non_pad_mask \<noteq> [n, len, 1]
                  \<or> shape slf_attn_mask \<noteq> [n, len, len]
               then raise RuntimeError
               else draw (\<lambda>_.
                 (tabulate [n, len, d]
                    (\<lambda>idx. (elem x idx + 100) * elem non_pad_mask [idx ! 0, idx ! 1, 0]),
                  Tensor [n, len, len] (map (\<lambda>v. 1 - v) (data slf_attn_mask))))
           | _ \<Rightarrow> raise RuntimeError)
      | _ \<Rightarrow> raise RuntimeError)"

text \<open>
  The constructors: \<open>nn.LSTM\<close> and \<open>nn.Dropout\<close> raise \<open>ValueError\<close> for a hidden size or
  a number of layers that is not positive and for a dropout probability outside
  \<open>[0, 1]\<close>; a negative dimension raises \<open>RuntimeError\<close> when the parameter tensors are
  allocated. The initial parameters are drawn from the generator.
\<close>

definition ex_new_params :: "kind \<Rightarrow> (nat, string \<Rightarrow> int tensor option) exn" where
  "ex_new_params k =
     (if (case k of
            LSTM i h l b p \<Rightarrow> h \<le> 0 \<or> l \<le> 0 \<or> p < 0 \<or> 1 < p
          | Dropout p \<Rightarrow> p < 0 \<or> 1 < p
          | hw n l p \<Rightarrow> p < 0 \<or> 1 < p
          | EncoderLayer d_model d_inner n_head d_k d_v p \<Rightarrow> p < 0 \<or> 1 < p
          | _ \<Rightarrow> False)
      then raise ValueError
      else if (case k of
                 Embedding n d f \<Rightarrow> n < 0 \<or> d < 0
               | LSTM i h l b p \<Rightarrow> i < 0
               | CRF_L h t \<Rightarrow> h < 0 \<or> t < 0
               | CRF_S h t \<Rightarrow> h < 0 \<or> t < 0
               | hw n l p \<Rightarrow> n < 0
               | Linear i out \<Rightarrow> i < 0 \<or> out < 0
               | EncoderLayer d_model d_inner n_head d_k d_v p \<Rightarrow>
                   d_model < 0 \<or> d_inner < 0 \<or> n_head < 0 \<or> d_k < 0 \<or> d_v < 0
               | _ \<Rightarrow> False)
      then raise RuntimeError
      else draw (\<lambda>g. (\<lambda>_. None)(''weight'' := Some (Tensor [1, 1] [int g]))))"

definition ex_env :: "(int, nat, int tensor) env" where
  "ex_env =
     \<lparr>new_params = ex_new_params,
      get_sinusoid_encoding_table = (\<lambda>n d pad. ret (zeros [nat n, nat d])),
      call = ex_call,
      call_embedding = ex_call_embedding,
      call_lstm = ex_call_lstm,
      call_enc_layer = ex_call_enc_layer,
      get_attn_key_pad_mask = ex_get_attn_key_pad_mask,
      get_non_pad_mask = ex_get_non_pad_mask,
      init_embedding = (\<lambda>w. draw (\<lambda>g. Tensor (shape w) (map (\<lambda>_. int g) (data w)))),
      init_lstm = (\<lambda>m. draw (\<lambda>g. Module (kind m) (\<lambda>_. Some (Tensor [1] [int g])))),
      init_linear = (\<lambda>m. draw (\<lambda>g. Module (kind m) (\<lambda>_. Some (Tensor [1] [int g])))),
      module_rand_init = (\<lambda>m. draw (\<lambda>g. Module (kind m) (\<lambda>_. Some (Tensor [1] [int g]))))\<rparr>"

text \<open>
  A model as \<open>__init__\<close> builds it for two corpora, a tag set of size 2, character and
  word dimensions 1 and 2; \<open>ex_model_hw\<close> has highway layers and the attention encoder.
\<close>

definition ex_init :: "bool \<Rightarrow> bool \<Rightarrow> (nat, int lm_lstm_crf) exn" where
  "ex_init highway attention =
     init ex_env 2 5 1 1 1 2 2 1 7 0 2 4 1 8 64 64 True highway 3 1 attention"

definition ex_module :: "kind \<Rightarrow> int \<Rightarrow> int module" where
  "ex_module k n = Module k ((\<lambda>_. None)(''weight'' := Some (Tensor [1, 1] [n])))"

definition ex_model :: "int lm_lstm_crf" where
  "ex_model =
     \<lparr>char_dim = 1, char_hidden_dim = 1, char_size = 5,
      word_dim = 2, word_hidden_dim = 2, word_size = 7,
      if_highway = False, word_level_attention = False,
      char_embeds = ex_module (Embedding 5 1 False) 0,
      forw_char_lstm = ex_module (LSTM 1 1 1 False 0) 1,
      back_char_lstm = ex_module (LSTM 1 1 1 False 0) 2,
      char_rnn_layers = 1,
      word_embeds = ex_module (Embedding 7 2 False) 3,
      word_lstm = ex_module (LSTM 4 1 1 True 0) 4,
      word_rnn_layers = 1,
      dropout = ex_module (Dropout 0) 5,
      tagset_size = 2,
      crflist = [ex_module (CRF_L 2 2) 6, ex_module (CRF_L 2 2) 7],
      forw2char = None, back2char = None, forw2word = None, back2word = None,
      fb2char = None,
      char_pre_train_out = ex_module (Linear 1 5) 8,
      word_pre_train_out = ex_module (Linear 1 3) 9,
      batch_size = 1, word_seq_length = 1,
      position_enc = Module (Embedding 5 2 True) ((\<lambda>_. None)(''weight'' := Some (zeros [5, 2]))),
      layer_stack = [ex_module (EncoderLayer 6 2 8 64 64 0) 10],
      fc = ex_module (Linear 6 2) 11\<rparr>"

definition ex_model_hw :: "int lm_lstm_crf" where
  "ex_model_hw =
     ex_model
       \<lparr>if_highway := True, word_level_attention := True,
        forw2char := Some (ex_module (hw 1 1 0) 8),
        back2char := Some (ex_module (hw 1 1 0) 9),
        forw2word := Some (ex_module (hw 1 1 0) 10),
        back2word := Some (ex_module (hw 1 1 0) 11),
        fb2char := Some (ex_module (hw 2 1 0) 12),
        char_pre_train_out := ex_module (Linear 1 5) 13,
        word_pre_train_out := ex_module (Linear 1 3) 14,
        layer_stack := [ex_module (EncoderLayer 6 2 8 64 64 0) 15],
        fc := ex_module (Linear 6 2) 16\<rparr>"

text \<open>
  Inputs for two sentences of three words over four characters: the characters, the
  places of the word boundaries among them, the words and their positions in the
  sentence; a dictionary whose padding word is word 6, the last word of the second
  sentence.
\<close>

definition ex_sentence :: "int tensor" where
  "ex_sentence = Tensor [4, 2] [0, 1, 2, 0, 1, 2, 3, 4]"

definition ex_position :: "int tensor" where
  "ex_position = Tensor [3, 2] [0, 1, 2, 0, 1, 2]"

definition ex_word_seq :: "int tensor" where
  "ex_word_seq = Tensor [3, 2] [1, 2, 3, 4, 5, 6]"

definition ex_word_pos :: "int tensor" where
  "ex_word_pos = Tensor [3, 2] [1, 1, 2, 2, 3, 0]"

definition ex_word_dict :: word_dict where
  "ex_word_dict = (\<lambda>w. if w = ''<pad>'' then Some 6 else None)"

section \<open>Running a computation\<close>

text \<open>The monad's operations applied to a state, as rewrite rules for evaluation.\<close>

lemma bnd_app:
  "bnd c f s = (case c s of (Inl e, s') \<Rightarrow> (Inl e, s') | (Inr x, s') \<Rightarrow> f x s')"
  by (simp add: bnd_def)

lemma ret_app: "ret x s = (Inr x, s)"
  by (simp add: ret_def)

lemma raise_app: "raise e s = (Inl e, s)"
  by (simp add: raise_def)

lemma lift_app: "lift r s = (r, s)"
  by (simp add: lift_def)

lemma draw_app: "draw h g = (Inr (h g), Suc g)"
  by (simp add: draw_def)

lemma get_self_app: "get_self (m, g) = (Inr m, (m, g))"
  by (simp add: get_self_def)

lemma modify_self_app: "modify_self u (m, g) = (Inr (), (u m, g))"
  by (simp add: modify_self_def)

lemma ext_app: "ext c (m, g) = (case c g of (r, g') \<Rightarrow> (r, (m, g')))"
  by (simp add: ext_def)

lemmas run = bnd_app ret_app raise_app lift_app draw_app get_self_app modify_self_app ext_app

lemma bnd_assoc: "bnd (bnd c f) h = bnd c (\<lambda>x. bnd (f x) h)"
  by (auto simp: bnd_def fun_eq_iff split: prod.splits sum.splits)

lemma bnd_ret: "bnd (ret x) f = f x"
  by (simp add: bnd_def ret_def)

lemma bnd_if: "bnd (if b then c else d) f = (if b then bnd c f else bnd d f)"
  by simp

text \<open>What a successful bind went through, and a bind whose first part fails.\<close>

lemma bnd_Inr_D:
  assumes "bnd c f s = (Inr y, s')"
  shows "\<exists>x s1. c s = (Inr x, s1) \<and> f x s1 = (Inr y, s')"
  using assms by (auto simp: bnd_def split: prod.splits sum.splits)

lemma bnd_cong_run:
  assumes "\<And>x s1. c s = (Inr x, s1) \<Longrightarrow> f x s1 = f' x s1"
  shows "bnd c f s = bnd c f' s"
  using assms by (auto simp: bnd_def split: prod.splits sum.splits)

lemma ext_self: "fst (snd (ext c (m, g))) = m"
  by (simp add: ext_def split: prod.splits)

text \<open>The two example models are what \<open>__init__\<close> returns on the example library.\<close>

lemma ex_init_plain: "ex_init False False 0 = (Inr ex_model, 12)"
  by (simp add: ex_init_def init_def new_module_def ex_env_def ex_new_params_def run
      from_pretrained_def zeros_def ex_model_def ex_module_def numeral_2_eq_2)

lemma ex_init_hw: "ex_init True True 0 = (Inr ex_model_hw, 17)"
  by (simp add: ex_init_def init_def new_module_def ex_env_def ex_new_params_def run
      from_pretrained_def zeros_def ex_model_def ex_model_hw_def ex_module_def numeral_2_eq_2)

section \<open>Loading pre-trained word embeddings\<close>

text \<open>
  C8. For a tensor with at least two dimensions, \<open>load_pretrained_word_embedding\<close> raises
  \<open>AssertionError\<close> exactly when the tensor's second dimension differs from \<open>word_dim\<close>
  (the constructor's \<open>embedding_dim\<close>), and then leaves the model as it was. Otherwise it
  succeeds, whatever the first dimension and \<open>word_size\<close> are: \<open>word_embeds.weight\<close> becomes
  the given tensor, and nothing else of the model or of the generator state changes.
\<close>

theorem load_pretrained_word_embedding_spec:
  assumes "2 \<le> length (shape pre)"
  shows "(fst (load_pretrained_word_embedding pre (m, g)) = Inl AssertionError
            \<longleftrightarrow> int (shape pre ! 1) \<noteq> word_dim m)
       \<and> (int (shape pre ! 1) \<noteq> word_dim m \<longrightarrow>
            load_pretrained_word_embedding pre (m, g) = (Inl AssertionError, (m, g)))
       \<and> (int (shape pre ! 1) = word_dim m \<longrightarrow>
            load_pretrained_word_embedding pre (m, g)
              = (Inr (), (m\<lparr>word_embeds :=
                    Module (kind (word_embeds m))
                      ((params (word_embeds m))(''weight'' := Some pre))\<rparr>, g)))"
  using assms
  by (simp add: load_pretrained_word_embedding_def size_index_def bnd_def lift_def get_self_def
      modify_self_def raise_def set_weight_def)

text \<open>
  On the example model (\<open>word_size = 7\<close>, \<open>word_dim = 2\<close>) a table of shape \<open>(5, 2)\<close> is
  accepted and a table of shape \<open>(7, 3)\<close> is refused.
\<close>

theorem load_pretrained_word_embedding_spec_witness:
  "2 \<le> length (shape (zeros [5, 2]))
   \<and> load_pretrained_word_embedding (zeros [5, 2]) (ex_model, 0 :: nat)
       = (Inr (), (ex_model\<lparr>word_embeds :=
             Module (Embedding 7 2 False)
               ((\<lambda>_. None)(''weight'' := Some (zeros [5, 2])))\<rparr>, 0))
   \<and> load_pretrained_word_embedding (zeros [7, 3]) (ex_model, 0 :: nat)
       = (Inl AssertionError, (ex_model, 0))"
  using load_pretrained_word_embedding_spec [of "zeros [5, 2]" ex_model "0 :: nat"]
        load_pretrained_word_embedding_spec [of "zeros [7, 3]" ex_model "0 :: nat"]
  by (simp add: zeros_def ex_model_def ex_module_def)

section \<open>The forward pass by stages\<close>

lemma forward_stages:
  "forward env forw_sentence forw_position back_sentence back_position word_seq word_pos
     word_dict file_no hidden =
   bnd (set_batch_seq_size forw_position) (\<lambda>_.
   bnd get_self (\<lambda>self. ext (
   bnd (encoder_output env self forw_sentence forw_position back_sentence back_position
          word_seq word_pos word_dict) (\<lambda>h.
   bnd (getitem (crflist self) file_no) (\<lambda>crf.
   bnd (call env crf h) (crf_reshape self))))))"
  by (simp add: forward_def encoder_output_def char_lstm_features_def select_states_def
      highway_or_id_def word_embedding_def attention_encoder_def attention_masks_def
      lstm_encoder_def crf_reshape_def[abs_def] bnd_assoc bnd_ret bnd_if split_def
      cong: if_cong)

lemma set_batch_seq_size_app:
  assumes "2 \<le> length (shape t)"
  shows "set_batch_seq_size t (m, g) = (Inr (), (with_sizes m t, g))"
proof -
  from assms have "1 < length (shape t)"
    by linarith
  moreover from assms have "shape t \<noteq> []"
    by (cases "shape t") simp_all
  ultimately show ?thesis
    by (simp add: set_batch_seq_size_def size_index_def with_sizes_def run)
qed

lemma set_batch_seq_size_state:
  "\<exists>a b. snd (set_batch_seq_size t (m, g)) = (m\<lparr>word_seq_length := a, batch_size := b\<rparr>, g)"
proof (cases "2 \<le> length (shape t)")
  case True
  then show ?thesis
    by (auto simp: set_batch_seq_size_app with_sizes_def)
next
  case False
  show ?thesis
  proof (cases "shape t = []")
    case True
    have "snd (set_batch_seq_size t (m, g))
            = (m\<lparr>word_seq_length := word_seq_length m, batch_size := batch_size m\<rparr>, g)"
      using True by (simp add: set_batch_seq_size_def size_index_def run)
    then show ?thesis by blast
  next
    case nonempty: False
    with False have "length (shape t) = 1"
      by (cases "shape t") (auto simp: Suc_le_eq)
    then have "snd (set_batch_seq_size t (m, g))
            = (m\<lparr>word_seq_length := int (shape t ! 0), batch_size := batch_size m\<rparr>, g)"
      by (simp add: set_batch_seq_size_def size_index_def run)
    then show ?thesis by blast
  qed
qed

lemma forward_run:
  assumes "2 \<le> length (shape forw_position)"
  shows "forward env forw_sentence forw_position back_sentence back_position word_seq word_pos
           word_dict file_no hidden (m, g) =
         ext (bnd (encoder_output env (with_sizes m forw_position) forw_sentence forw_position
                     back_sentence back_position word_seq word_pos word_dict) (\<lambda>h.
              bnd (getitem (crflist m) file_no) (\<lambda>crf.
              bnd (call env crf h) (crf_reshape (with_sizes m forw_position)))))
           (with_sizes m forw_position, g)"
proof -
  have crfs: "crflist (with_sizes m forw_position) = crflist m"
    by (simp add: with_sizes_def)
  show ?thesis
    unfolding forward_stages
    by (simp add: bnd_app [where c = "set_batch_seq_size forw_position"]
        bnd_app [where c = get_self] set_batch_seq_size_app [OF assms] get_self_app crfs)
qed

section \<open>Batch bookkeeping\<close>

text \<open>
  C9. \<open>forward\<close> begins with \<open>set_batch_seq_size(forw_position)\<close>. For a position tensor
  of (at least) two axes, the model after \<open>forward\<close> is the model before it with
  \<open>word_seq_length\<close> set to the first and \<open>batch_size\<close> to the second dimension of
  \<open>forw_position\<close>, whether the rest of \<open>forward\<close> returns or raises; this holds from any
  model, in particular right after \<open>set_batch_size\<close> or \<open>set_batch_seq_size\<close> (returning
  or raising) stored other values.
\<close>

theorem forward_overwrites_sizes:
  assumes "2 \<le> length (shape forw_position)"
  shows "fst (snd (forward env forw_sentence forw_position back_sentence back_position
                     word_seq word_pos word_dict file_no hidden (m, g)))
           = m\<lparr>word_seq_length := int (shape forw_position ! 0),
               batch_size := int (shape forw_position ! 1)\<rparr>
       \<and> fst (snd (forward env forw_sentence forw_position back_sentence back_position
                     word_seq word_pos word_dict file_no hidden
                     (snd (set_batch_size bsize (m, g)))))
           = m\<lparr>word_seq_length := int (shape forw_position ! 0),
               batch_size := int (shape forw_position ! 1)\<rparr>
       \<and> fst (snd (forward env forw_sentence forw_position back_sentence back_position
                     word_seq word_pos word_dict file_no hidden
                     (snd (set_batch_seq_size sentence (m, g)))))
           = m\<lparr>word_seq_length := int (shape forw_position ! 0),
               batch_size := int (shape forw_position ! 1)\<rparr>"
proof -
  have run: "fst (snd (forward env forw_sentence forw_position back_sentence back_position
                     word_seq word_pos word_dict file_no hidden (m', g')))
           = with_sizes m' forw_position" for m' :: "'a lm_lstm_crf" and g' :: 'b
    by (simp add: forward_run [OF assms] ext_self)
  obtain a b where
    "snd (set_batch_seq_size sentence (m, g)) = (m\<lparr>word_seq_length := a, batch_size := b\<rparr>, g)"
    using set_batch_seq_size_state [of sentence m g] by blast
  then show ?thesis
    by (simp add: run with_sizes_def set_batch_size_def modify_self_app)
qed

text \<open>
  On the example model, whose fields are both 1 after construction, a position tensor of
  shape \<open>(3, 2)\<close> leaves \<open>word_seq_length = 3\<close> and \<open>batch_size = 2\<close>.
\<close>

theorem forward_overwrites_sizes_witness:
  "2 \<le> length (shape ex_position)
   \<and> fst (snd (forward ex_env ex_sentence ex_position ex_sentence ex_position ex_word_seq
                  ex_word_seq (\<lambda>_. None) 1 None (ex_model, 0)))
       = ex_model\<lparr>word_seq_length := 3, batch_size := 2\<rparr>
   \<and> fst (snd (forward ex_env ex_sentence ex_position ex_sentence ex_position ex_word_seq
                  ex_word_seq (\<lambda>_. None) 1 None (snd (set_batch_size 10 (ex_model, 0)))))
       = ex_model\<lparr>word_seq_length := 3, batch_size := 2\<rparr>"
  using forward_overwrites_sizes [of ex_position ex_env ex_sentence ex_sentence ex_position
          ex_word_seq ex_word_seq "\<lambda>_. None" 1 None ex_model 0 10 ex_position]
  by (simp add: ex_position_def)

section \<open>What the constructor builds\<close>

lemma repeat_m_length:
  assumes "repeat_m n c g = (Inr xs, g')"
  shows "length xs = n"
  using assms
proof (induction n arbitrary: g g' xs)
  case 0
  then show ?case by (simp add: ret_app)
next
  case (Suc n)
  from Suc.prems have "bnd c (\<lambda>x. bnd (repeat_m n c) (\<lambda>xs. ret (x # xs))) g = (Inr xs, g')"
    by simp
  from bnd_Inr_D [OF this] obtain x g1
    where rest: "bnd (repeat_m n c) (\<lambda>xs. ret (x # xs)) g1 = (Inr xs, g')"
    by blast
  from bnd_Inr_D [OF rest] obtain ys g2
    where ys: "repeat_m n c g1 = (Inr ys, g2)" and "ret (x # ys) g2 = (Inr xs, g')"
    by blast
  then have "xs = x # ys"
    by (simp add: ret_app)
  with Suc.IH [OF ys] show ?case by simp
qed

lemma repeat_m_elems:
  assumes "repeat_m n c g = (Inr xs, g')" and "x \<in> set xs"
  shows "\<exists>ga gb. c ga = (Inr x, gb)"
  using assms
proof (induction n arbitrary: g g' xs)
  case 0
  then show ?case by (simp add: ret_app)
next
  case (Suc n)
  from Suc.prems(1)
  have "bnd c (\<lambda>x. bnd (repeat_m n c) (\<lambda>xs. ret (x # xs))) g = (Inr xs, g')"
    by simp
  from bnd_Inr_D [OF this] obtain y g1 where y: "c g = (Inr y, g1)"
    and rest: "bnd (repeat_m n c) (\<lambda>xs. ret (y # xs)) g1 = (Inr xs, g')"
    by blast
  from bnd_Inr_D [OF rest] obtain ys g2
    where ys: "repeat_m n c g1 = (Inr ys, g2)" and "ret (y # ys) g2 = (Inr xs, g')"
    by blast
  then have "xs = y # ys"
    by (simp add: ret_app)
  with Suc.prems(2) have "x = y \<or> x \<in> set ys" by auto
  then show ?case
    using y Suc.IH [OF ys] by blast
qed

lemma new_module_kind:
  assumes "new_module env k g = (Inr x, g')"
  shows "kind x = k"
proof -
  from assms have "bnd (new_params env k) (\<lambda>ps. ret (Module k ps)) g = (Inr x, g')"
    by (simp add: new_module_def)
  from bnd_Inr_D [OF this] show ?thesis
    by (auto simp: ret_app)
qed

text \<open>Every step that a returning \<open>__init__\<close> went through, and the fields it stored.\<close>

lemma init_D:
  assumes "init env tagset_size' char_size' char_dim' char_hidden_dim' char_rnn_layers'
             embedding_dim word_hidden_dim' word_rnn_layers' vocab_size dropout_ratio file_num
             len_max_seq n_layers n_head d_k d_v large_CRF if_highway' in_doc_words
             highway_layers word_level_attention' g0 = (Inr m, g1)"
  shows "\<exists>s1 s2 s3 s4 s5 s6 s7 s8 s9 s10 s11 s12 s13 table.
     new_module env (Embedding char_size' char_dim' False) g0 = (Inr (char_embeds m), s1)
   \<and> new_module env (LSTM char_dim' char_hidden_dim' char_rnn_layers' False dropout_ratio) s1
       = (Inr (forw_char_lstm m), s2)
   \<and> new_module env (LSTM char_dim' char_hidden_dim' char_rnn_layers' False dropout_ratio) s2
       = (Inr (back_char_lstm m), s3)
   \<and> new_module env (Embedding vocab_size embedding_dim False) s3 = (Inr (word_embeds m), s4)
   \<and> new_module env (LSTM (embedding_dim + char_hidden_dim' * 2) (word_hidden_dim' div 2)
          word_rnn_layers' True dropout_ratio) s4 = (Inr (word_lstm m), s5)
   \<and> new_module env (Dropout dropout_ratio) s5 = (Inr (dropout m), s6)
   \<and> repeat_m (nat file_num)
          (if large_CRF then new_module env (CRF_L word_hidden_dim' tagset_size')
           else new_module env (CRF_S word_hidden_dim' tagset_size')) s6
       = (Inr (crflist m), s7)
   \<and> (if if_highway' then
          bnd (new_module env (hw char_hidden_dim' highway_layers dropout_ratio)) (\<lambda>h1.
          bnd (new_module env (hw char_hidden_dim' highway_layers dropout_ratio)) (\<lambda>h2.
          bnd (new_module env (hw char_hidden_dim' highway_layers dropout_ratio)) (\<lambda>h3.
          bnd (new_module env (hw char_hidden_dim' highway_layers dropout_ratio)) (\<lambda>h4.
          bnd (new_module env (hw (2 * char_hidden_dim') highway_layers dropout_ratio)) (\<lambda>h5.
          ret (Some h1, Some h2, Some h3, Some h4, Some h5))))))
        else ret (None, None, None, None, None)) s7
       = (Inr (forw2char m, back2char m, forw2word m, back2word m, fb2char m), s8)
   \<and> new_module env (Linear char_hidden_dim' char_size') s8 = (Inr (char_pre_train_out m), s9)
   \<and> new_module env (Linear char_hidden_dim' in_doc_words) s9
       = (Inr (word_pre_train_out m), s10)
   \<and> get_sinusoid_encoding_table env (len_max_seq + 1) embedding_dim 0 s10 = (Inr table, s11)
   \<and> from_pretrained table True s11 = (Inr (position_enc m), s12)
   \<and> repeat_m (nat n_layers)
          (new_module env (EncoderLayer (embedding_dim * 2 + char_hidden_dim' * 2)
             word_hidden_dim' n_head d_k d_v dropout_ratio)) s12
       = (Inr (layer_stack m), s13)
   \<and> new_module env (Linear (embedding_dim * 2 + char_hidden_dim' * 2) word_hidden_dim') s13
       = (Inr (fc m), g1)
   \<and> char_dim m = char_dim' \<and> char_hidden_dim m = char_hidden_dim'
   \<and> char_size m = char_size' \<and> word_dim m = embedding_dim
   \<and> word_hidden_dim m = word_hidden_dim' \<and> word_size m = vocab_size
   \<and> if_highway m = if_highway' \<and> word_level_attention m = word_level_attention'
   \<and> char_rnn_layers m = char_rnn_layers' \<and> word_rnn_layers m = word_rnn_layers'
   \<and> tagset_size m = tagset_size' \<and> batch_size m = 1 \<and> word_seq_length m = 1"
  using assms unfolding init_def
  apply -
  apply (drule bnd_Inr_D, elim exE conjE)+
  apply (simp only: split_paired_all prod.case)
  apply (drule bnd_Inr_D, elim exE conjE)+
  apply (auto simp: ret_app)
  done

lemma getitem_in_range:
  assumes "0 \<le> i" and "i < int (length xs)"
  shows "getitem xs i = ret (xs ! nat i)"
  using assms by (simp add: getitem_def)

lemma encoder_output_crflist:
  "encoder_output env (self\<lparr>crflist := heads\<rparr>) forw_sentence forw_position back_sentence
     back_position word_seq word_pos word_dict
   = encoder_output env self forw_sentence forw_position back_sentence back_position word_seq
       word_pos word_dict"
  by (simp add: encoder_output_def char_lstm_features_def highway_or_id_def word_embedding_def
      attention_encoder_def lstm_encoder_def cong: if_cong)

section \<open>One CRF head per corpus\<close>

text \<open>
  C1. A model that \<open>__init__\<close> returns for the corpus count \<open>file_num\<close> has exactly
  \<open>file_num\<close> modules in \<open>crflist\<close>. For a corpus index \<open>0 \<le> file_no < file_num\<close>,
  \<open>forward\<close> computes the encoder output, which has no corpus index among its arguments,
  applies to it the module \<open>crflist[file_no]\<close>, and reshapes the result. The encoder
  output does not depend on the content of \<open>crflist\<close> either.
\<close>

theorem forward_applies_crf_of_corpus:
  assumes "init env tagset_size' char_size' char_dim' char_hidden_dim' char_rnn_layers'
             embedding_dim word_hidden_dim' word_rnn_layers' vocab_size dropout_ratio file_num
             len_max_seq n_layers n_head d_k d_v large_CRF if_highway' in_doc_words
             highway_layers word_level_attention' g0 = (Inr m, g1)"
    and "0 \<le> file_no" and "file_no < file_num"
    and "2 \<le> length (shape forw_position)"
  shows "int (length (crflist m)) = file_num
       \<and> forward env forw_sentence forw_position back_sentence back_position word_seq word_pos
           word_dict file_no hidden (m, g)
         = ext (bnd (encoder_output env (with_sizes m forw_position) forw_sentence forw_position
                       back_sentence back_position word_seq word_pos word_dict) (\<lambda>h.
                bnd (call env (crflist m ! nat file_no) h)
                  (crf_reshape (with_sizes m forw_position))))
             (with_sizes m forw_position, g)
       \<and> encoder_output env (self\<lparr>crflist := heads\<rparr>) forw_sentence forw_position
           back_sentence back_position word_seq word_pos word_dict
         = encoder_output env self forw_sentence forw_position back_sentence back_position
             word_seq word_pos word_dict"
proof -
  from init_D [OF assms(1)] obtain ga gb where
    "repeat_m (nat file_num)
       (if large_CRF then new_module env (CRF_L word_hidden_dim' tagset_size')
        else new_module env (CRF_S word_hidden_dim' tagset_size')) ga
     = (Inr (crflist m), gb)"
    by blast
  then have "length (crflist m) = nat file_num"
    by (rule repeat_m_length)
  with assms(2,3) have len: "int (length (crflist m)) = file_num"
    by simp
  with assms(2,3) show ?thesis
    by (simp add: getitem_in_range forward_run [OF assms(4)] bnd_ret encoder_output_crflist)
qed

text \<open>
  The example model is built for two corpora; with \<open>file_no = 1\<close> the forward pass goes
  through its second CRF head.
\<close>

theorem forward_applies_crf_of_corpus_witness:
  "ex_init False False 0 = (Inr ex_model, 12)
   \<and> length (crflist ex_model) = 2
   \<and> forward ex_env ex_sentence ex_position ex_sentence ex_position ex_word_seq ex_word_seq
       (\<lambda>_. None) 1 None (ex_model, 0)
     = ext (bnd (encoder_output ex_env (with_sizes ex_model ex_position) ex_sentence ex_position
                   ex_sentence ex_position ex_word_seq ex_word_seq (\<lambda>_. None)) (\<lambda>h.
            bnd (call ex_env (ex_module (CRF_L 2 2) 7) h)
              (crf_reshape (with_sizes ex_model ex_position))))
         (with_sizes ex_model ex_position, 0)"
  using forward_applies_crf_of_corpus [OF ex_init_plain [unfolded ex_init_def],
          of 1 ex_position ex_sentence ex_sentence ex_position ex_word_seq ex_word_seq
          "\<lambda>_. None" None 0]
  by (simp add: ex_init_plain ex_position_def) (simp add: ex_model_def)


section \<open>Indices and elements\<close>

text \<open>
  An index \<open>idx\<close> is within a shape \<open>sh\<close> when \<open>list_all2 (<) idx sh\<close>. Within a shape,
  \<open>ravel\<close> and \<open>unravel\<close> are inverse to each other, so \<open>tabulate sh f\<close> has the element
  \<open>f idx\<close> at every index \<open>idx\<close> within \<open>sh\<close>, and only these elements.
\<close>

lemma ravel_less:
  "list_all2 (<) idx sh \<Longrightarrow> ravel sh idx < prod_list sh"
proof (induction sh arbitrary: idx)
  case Nil
  then show ?case by simp
next
  case (Cons d ds)
  then obtain i js where idx: "idx = i # js" and i: "i < d" and js: "list_all2 (<) js ds"
    by (auto simp: list_all2_Cons2)
  from Cons.IH [OF js] have "i * prod_list ds + ravel ds js < Suc i * prod_list ds"
    by simp
  also from i have "\<dots> \<le> d * prod_list ds"
    by (intro mult_le_mono1) simp
  finally show ?case
    by (simp add: idx)
qed

lemma unravel_ravel:
  "list_all2 (<) idx sh \<Longrightarrow> unravel sh (ravel sh idx) = idx"
proof (induction sh arbitrary: idx)
  case Nil
  then show ?case by simp
next
  case (Cons d ds)
  then obtain i js where idx: "idx = i # js" and js: "list_all2 (<) js ds"
    by (auto simp: list_all2_Cons2)
  from ravel_less [OF js] Cons.IH [OF js] show ?case
    by (simp add: idx)
qed

lemma unravel_within:
  "n < prod_list sh \<Longrightarrow> list_all2 (<) (unravel sh n) sh"
proof (induction sh arbitrary: n)
  case Nil
  then show ?case by simp
next
  case (Cons d ds)
  then have pos: "0 < prod_list ds"
    by (cases "prod_list ds") simp_all
  with Cons.prems have "n div prod_list ds < d"
    by (simp add: less_mult_imp_div_less)
  moreover from pos have "n mod prod_list ds < prod_list ds"
    by simp
  ultimately show ?case
    using Cons.IH by simp
qed

lemma ravel_unravel:
  "n < prod_list sh \<Longrightarrow> ravel sh (unravel sh n) = n"
proof (induction sh arbitrary: n)
  case Nil
  then show ?case by simp
next
  case (Cons d ds)
  then have pos: "0 < prod_list ds"
    by (cases "prod_list ds") simp_all
  then have "n mod prod_list ds < prod_list ds"
    by simp
  from Cons.IH [OF this] show ?case
    by simp
qed

lemma elem_tabulate:
  assumes "list_all2 (<) idx sh"
  shows "elem (tabulate sh f) idx = f idx"
  using ravel_less [OF assms] unravel_ravel [OF assms]
  by (simp add: elem_def tabulate_def)

lemma tabulate_cong:
  assumes "\<And>idx. list_all2 (<) idx sh \<Longrightarrow> f idx = f' idx"
  shows "tabulate sh f = tabulate sh f'"
  using assms unravel_within by (simp add: tabulate_def)

lemma tabulate_empty:
  assumes "prod_list sh = 0"
  shows "tabulate sh f = Tensor sh []"
  using assms by (simp add: tabulate_def)

lemma within_3:
  "list_all2 (<) idx [a, b, c] \<longleftrightarrow> (\<exists>i j k. idx = [i, j, k] \<and> i < a \<and> j < b \<and> k < c)"
  by (auto simp: list_all2_Cons2)

lemma within_4:
  "list_all2 (<) idx [a, b, c, d]
   \<longleftrightarrow> (\<exists>i j k l. idx = [i, j, k, l] \<and> i < a \<and> j < b \<and> k < c \<and> l < d)"
  by (auto simp: list_all2_Cons2)

lemma permute_1023:
  assumes "length (shape v) = 4"
  shows "permute v [1, 0, 2, 3]
         = Inr (tabulate [shape v ! 1, shape v ! 0, shape v ! 2, shape v ! 3]
                  (\<lambda>idx. elem v [idx ! 1, idx ! 0, idx ! 2, idx ! 3]))"
proof -
  have "[0..<4] = [0, 1, 2, 3 :: nat]"
    by code_simp
  with assms show ?thesis
    by (simp add: permute_def numeral_2_eq_2 numeral_3_eq_3)
qed

lemma view_4:
  assumes "0 \<le> b" and "0 \<le> s"
  shows "view c [b, s, t, t]
         = (if 0 \<le> t \<and> int (numel c) = b * s * t * t
            then Inr (Tensor [nat b, nat s, nat t, nat t] (data c)) else Inl RuntimeError)"
proof -
  consider "t < - 1" | "t = - 1" | "0 \<le> t" by linarith
  then show ?thesis
  proof cases
    case 1
    then show ?thesis by (simp add: view_def)
  next
    case 2
    with assms show ?thesis by (simp add: view_def)
  next
    case 3
    with assms show ?thesis by (auto simp: view_def Let_def mult.assoc)
  qed
qed

lemma shape_tabulate: "shape (tabulate sh f) = sh"
  by (simp add: tabulate_def)

lemma crf_reshape_app:
  "crf_reshape (with_sizes m forw_position) c g =
     ((if 0 \<le> tagset_size m
          \<and> int (numel c)
              = int (shape forw_position ! 1) * int (shape forw_position ! 0)
                  * tagset_size m * tagset_size m
       then Inr (tabulate [shape forw_position ! 0, shape forw_position ! 1,
                           nat (tagset_size m), nat (tagset_size m)]
                   (\<lambda>idx. elem (Tensor [shape forw_position ! 1, shape forw_position ! 0,
                                         nat (tagset_size m), nat (tagset_size m)] (data c))
                            [idx ! 1, idx ! 0, idx ! 2, idx ! 3]))
       else Inl RuntimeError), g)"
proof -
  let ?v = "Tensor [shape forw_position ! 1, shape forw_position ! 0,
                    nat (tagset_size m), nat (tagset_size m)] (data c)"
  have p: "permute ?v [1, 0, 2, 3]
           = Inr (tabulate [shape forw_position ! 0, shape forw_position ! 1,
                            nat (tagset_size m), nat (tagset_size m)]
                    (\<lambda>idx. elem ?v [idx ! 1, idx ! 0, idx ! 2, idx ! 3]))"
    using permute_1023 [of ?v] by simp
  have unfold: "crf_reshape (with_sizes m forw_position) c g
        = (case view c [int (shape forw_position ! 1), int (shape forw_position ! 0),
                        tagset_size m, tagset_size m] of
             Inl e \<Rightarrow> (Inl e, g)
           | Inr crf_out1 \<Rightarrow> (permute crf_out1 [1, 0, 2, 3], g))"
    by (simp add: crf_reshape_def with_sizes_def run split: sum.splits)
  have v: "view c [int (shape forw_position ! 1), int (shape forw_position ! 0),
                   tagset_size m, tagset_size m]
           = (if 0 \<le> tagset_size m
                 \<and> int (numel c)
                     = int (shape forw_position ! 1) * int (shape forw_position ! 0)
                         * tagset_size m * tagset_size m
              then Inr ?v else Inl RuntimeError)"
    by (simp add: view_4)
  show ?thesis
    unfolding unfold v by (simp add: p del: One_nat_def)
qed

lemma getitem_Inr:
  assumes "getitem xs i s = (Inr x, s')"
  shows "x \<in> set xs \<and> s' = s"
  using assms by (auto simp: getitem_def Let_def run split: if_splits)

lemma ext_Inr_D:
  assumes "ext c (m, g) = (Inr y, s')"
  shows "\<exists>g'. c g = (Inr y, g') \<and> s' = (m, g')"
  using assms by (auto simp: ext_def split: prod.splits)

lemma forward_needs_two_axes:
  assumes "\<not> 2 \<le> length (shape forw_position)"
  shows "fst (forward env forw_sentence forw_position back_sentence back_position word_seq
                word_pos word_dict file_no hidden (m, g)) = Inl IndexError"
proof -
  have "fst (set_batch_seq_size forw_position (m, g)) = Inl IndexError"
  proof (cases "shape forw_position")
    case Nil
    then show ?thesis
      by (simp add: set_batch_seq_size_def size_index_def run)
  next
    case (Cons a rest)
    with assms have "rest = []" by (cases rest) simp_all
    with Cons show ?thesis
      by (simp add: set_batch_seq_size_def size_index_def run)
  qed
  then show ?thesis
    unfolding forward_stages
    by (cases "set_batch_seq_size forw_position (m, g)")
       (simp add: bnd_app [where c = "set_batch_seq_size forw_position"])
qed

section \<open>The shape of the output\<close>

text \<open>
  Whenever \<open>forward\<close> returns a tensor, the tensor has the shape
  \<open>(word_seq_len, batch_size, tagset_size, tagset_size)\<close>, where the first two are the
  dimensions of \<open>forw_position\<close>: it is the output of a CRF head of \<open>crflist\<close>, viewed
  as \<open>(batch_size, word_seq_len, tagset_size, tagset_size)\<close>, with its first two axes
  exchanged. And \<open>forward\<close> does return such a tensor when the encoder and the head of
  the corpus return and the head's output has
  \<open>batch_size * word_seq_len * tagset_size * tagset_size\<close> elements.
\<close>

lemma forward_returns_shape:
  "(forward env forw_sentence forw_position back_sentence back_position word_seq word_pos
      word_dict file_no hidden (m, g) = (Inr out, s')
    \<longrightarrow> shape out = [shape forw_position ! 0, shape forw_position ! 1,
                      nat (tagset_size m), nat (tagset_size m)]
      \<and> (\<exists>crf h ga gb crf_out v.
            crf \<in> set (crflist m) \<and> call env crf h ga = (Inr crf_out, gb)
          \<and> view crf_out [int (shape forw_position ! 1), int (shape forw_position ! 0),
                            tagset_size m, tagset_size m] = Inr v
          \<and> permute v [1, 0, 2, 3] = Inr out))
 \<and> (2 \<le> length (shape forw_position)
    \<and> encoder_output env (with_sizes m forw_position) forw_sentence forw_position back_sentence
        back_position word_seq word_pos word_dict g = (Inr h', g1)
    \<and> 0 \<le> file_no \<and> file_no < int (length (crflist m))
    \<and> call env (crflist m ! nat file_no) h' g1 = (Inr c, g2)
    \<and> 0 \<le> tagset_size m
    \<and> int (numel c) = int (shape forw_position ! 1) * int (shape forw_position ! 0)
                         * tagset_size m * tagset_size m
    \<longrightarrow> (\<exists>out'. forward env forw_sentence forw_position back_sentence back_position word_seq
                   word_pos word_dict file_no hidden (m, g)
                 = (Inr out', (with_sizes m forw_position, g2))
               \<and> shape out' = [shape forw_position ! 0, shape forw_position ! 1,
                                nat (tagset_size m), nat (tagset_size m)]))"
proof (intro conjI impI)
  assume returns: "forward env forw_sentence forw_position back_sentence back_position word_seq
      word_pos word_dict file_no hidden (m, g) = (Inr out, s')"
  have two: "2 \<le> length (shape forw_position)"
    using forward_needs_two_axes [of forw_position env forw_sentence back_sentence back_position
        word_seq word_pos word_dict file_no hidden m g] returns
    by auto
  from ext_Inr_D [OF returns [unfolded forward_run [OF two]]] obtain g' where
    "bnd (encoder_output env (with_sizes m forw_position) forw_sentence forw_position
            back_sentence back_position word_seq word_pos word_dict) (\<lambda>h.
          bnd (getitem (crflist m) file_no) (\<lambda>crf.
          bnd (call env crf h) (crf_reshape (with_sizes m forw_position)))) g = (Inr out, g')"
    by blast
  from bnd_Inr_D [OF this] obtain h ga where
    "bnd (getitem (crflist m) file_no) (\<lambda>crf.
       bnd (call env crf h) (crf_reshape (with_sizes m forw_position))) ga = (Inr out, g')"
    by blast
  from bnd_Inr_D [OF this] obtain crf gb where
    crf: "getitem (crflist m) file_no ga = (Inr crf, gb)"
    and "bnd (call env crf h) (crf_reshape (with_sizes m forw_position)) gb = (Inr out, g')"
    by blast
  from bnd_Inr_D [OF this(2)] obtain crf_out gc where
    head: "call env crf h gb = (Inr crf_out, gc)"
    and reshape: "crf_reshape (with_sizes m forw_position) crf_out gc = (Inr out, g')"
    by blast
  let ?v = "Tensor [shape forw_position ! 1, shape forw_position ! 0,
                    nat (tagset_size m), nat (tagset_size m)] (data crf_out)"
  from reshape have ok: "0 \<le> tagset_size m
      \<and> int (numel crf_out) = int (shape forw_position ! 1) * int (shape forw_position ! 0)
                               * tagset_size m * tagset_size m"
    and out: "out = tabulate [shape forw_position ! 0, shape forw_position ! 1,
                              nat (tagset_size m), nat (tagset_size m)]
                      (\<lambda>idx. elem ?v [idx ! 1, idx ! 0, idx ! 2, idx ! 3])"
    by (auto simp: crf_reshape_app split: if_splits)
  from ok have "view crf_out [int (shape forw_position ! 1), int (shape forw_position ! 0),
                              tagset_size m, tagset_size m] = Inr ?v"
    by (simp add: view_4)
  moreover have "permute ?v [1, 0, 2, 3] = Inr out"
    using permute_1023 [of ?v] by (simp add: out)
  moreover have "crf \<in> set (crflist m)"
    using getitem_Inr [OF crf] by simp
  ultimately show "\<exists>crf h ga gb crf_out v.
            crf \<in> set (crflist m) \<and> call env crf h ga = (Inr crf_out, gb)
          \<and> view crf_out [int (shape forw_position ! 1), int (shape forw_position ! 0),
                            tagset_size m, tagset_size m] = Inr v
          \<and> permute v [1, 0, 2, 3] = Inr out"
    using head by blast
  show "shape out = [shape forw_position ! 0, shape forw_position ! 1,
                     nat (tagset_size m), nat (tagset_size m)]"
    by (simp add: out shape_tabulate)
next
  assume a: "2 \<le> length (shape forw_position)
    \<and> encoder_output env (with_sizes m forw_position) forw_sentence forw_position back_sentence
        back_position word_seq word_pos word_dict g = (Inr h', g1)
    \<and> 0 \<le> file_no \<and> file_no < int (length (crflist m))
    \<and> call env (crflist m ! nat file_no) h' g1 = (Inr c, g2)
    \<and> 0 \<le> tagset_size m
    \<and> int (numel c) = int (shape forw_position ! 1) * int (shape forw_position ! 0)
                         * tagset_size m * tagset_size m"
  then have two: "2 \<le> length (shape forw_position)"
    by simp
  from a show "\<exists>out'. forward env forw_sentence forw_position back_sentence back_position word_seq
                   word_pos word_dict file_no hidden (m, g)
                 = (Inr out', (with_sizes m forw_position, g2))
               \<and> shape out' = [shape forw_position ! 0, shape forw_position ! 1,
                                nat (tagset_size m), nat (tagset_size m)]"
    by (simp add: forward_run [OF two] ext_app bnd_app getitem_in_range ret_app crf_reshape_app
        shape_tabulate)
qed


text \<open>
  Where an element of the returned tensor comes from. The head's output is read in
  row-major order as \<open>(batch_size, word_seq_len, tagset_size, tagset_size)\<close> and the first
  two axes are exchanged: the matrix at \<open>[s, b]\<close> of the result is the matrix number
  \<open>b * word_seq_len + s\<close> of the head's output.
\<close>

lemma crf_reshape_slot:
  assumes "crf_reshape (with_sizes m forw_position) c g = (Inr out, g')"
    and "s < shape forw_position ! 0" and "b < shape forw_position ! 1"
    and "i < nat (tagset_size m)" and "j < nat (tagset_size m)"
  shows "elem out [s, b, i, j]
         = data c ! (((b * (shape forw_position ! 0) + s) * nat (tagset_size m) + i)
                       * nat (tagset_size m) + j)"
proof -
  let ?v = "Tensor [shape forw_position ! 1, shape forw_position ! 0,
                    nat (tagset_size m), nat (tagset_size m)] (data c)"
  from assms(1) have out: "out = tabulate [shape forw_position ! 0, shape forw_position ! 1,
                              nat (tagset_size m), nat (tagset_size m)]
                      (\<lambda>idx. elem ?v [idx ! 1, idx ! 0, idx ! 2, idx ! 3])"
    by (auto simp: crf_reshape_app split: if_splits)
  have "list_all2 (<) [s, b, i, j] [shape forw_position ! 0, shape forw_position ! 1,
                              nat (tagset_size m), nat (tagset_size m)]"
    using assms(2-5) by simp
  then have "elem out [s, b, i, j] = elem ?v [b, s, i, j]"
    unfolding out by (subst elem_tabulate) simp_all
  also have "\<dots> = data c ! (((b * (shape forw_position ! 0) + s) * nat (tagset_size m) + i)
                       * nat (tagset_size m) + j)"
    by (simp add: elem_def algebra_simps)
  finally show ?thesis .
qed

text \<open>
  C2. The tensor that \<open>forward\<close> returns has the shape
  \<open>(word_seq_len, batch_size, tagset_size, tagset_size)\<close>, but on the LSTM branch it does
  not hold at \<open>[s, b]\<close> the potentials of position \<open>s\<close> of sentence \<open>b\<close>. The example
  library shows where a value comes from: the word at position \<open>s\<close> of sentence \<open>b\<close> is
  \<open>1 + 2 * s + b\<close>, the encoder output has this number in the row of \<open>[s, b]\<close>, and the
  head fills the matrix of a row with the number in the row. On the LSTM branch the
  head receives the rows in the order \<open>(position, sentence)\<close>, as the word LSTM returns
  them, and \<open>forward\<close> reads its output as \<open>(batch_size, word_seq_len)\<close>: the matrix at
  \<open>[0, 1]\<close>, the first word of the second sentence, which is word 2, is the matrix of
  word 4, the second word of the second sentence, and only the first and the last matrix
  are in their place. On the attention branch, whose encoder input is permuted to
  \<open>(sentence, position)\<close>, every matrix is in its place: the matrix at \<open>[s, b]\<close> is
  filled with 100, which the encoder layer adds, plus the word at \<open>[s, b]\<close>.
\<close>

theorem forward_lstm_branch_misplaces_potentials:
  "ex_word_seq = Tensor [3, 2] [1, 2, 3, 4, 5, 6]
   \<and> encoder_output ex_env (with_sizes ex_model ex_position) ex_sentence ex_position ex_sentence
       ex_position ex_word_seq ex_word_pos (\<lambda>_. None) 0
     = (Inr (Tensor [3, 2, 2] [1, 1, 2, 2, 3, 3, 4, 4, 5, 5, 6, 6]), 8)
   \<and> call ex_env (crflist ex_model ! 1) (Tensor [3, 2, 2] [1, 1, 2, 2, 3, 3, 4, 4, 5, 5, 6, 6]) 8
     = (Inr (Tensor [6, 2, 2]
          [1, 1, 1, 1, 2, 2, 2, 2, 3, 3, 3, 3, 4, 4, 4, 4, 5, 5, 5, 5, 6, 6, 6, 6]), 8)
   \<and> fst (forward ex_env ex_sentence ex_position ex_sentence ex_position ex_word_seq ex_word_pos
            (\<lambda>_. None) 1 None (ex_model, 0))
     = Inr (Tensor [3, 2, 2, 2]
         [1, 1, 1, 1, 4, 4, 4, 4, 2, 2, 2, 2, 5, 5, 5, 5, 3, 3, 3, 3, 6, 6, 6, 6])
   \<and> elem ex_word_seq [0, 1] = 2
   \<and> elem (Tensor [3, 2, 2, 2]
         [1, 1, 1, 1, 4, 4, 4, 4, 2, 2, 2, 2, 5, 5, 5, 5, 3, 3, 3, 3, 6, 6, 6, 6 :: int])
        [0, 1, 0, 0] = 4
   \<and> elem ex_word_seq [1, 1] = 4
   \<and> fst (forward ex_env ex_sentence ex_position ex_sentence ex_position ex_word_seq ex_word_pos
            (\<lambda>_. None) 1 None (ex_model_hw, 0))
     = Inr (Tensor [3, 2, 2, 2]
         [101, 101, 101, 101, 102, 102, 102, 102, 103, 103, 103, 103,
          104, 104, 104, 104, 105, 105, 105, 105, 106, 106, 106, 106])"
proof (intro conjI)
  show "ex_word_seq = Tensor [3, 2] [1, 2, 3, 4, 5, 6]"
    by (simp add: ex_word_seq_def)
  show "encoder_output ex_env (with_sizes ex_model ex_position) ex_sentence ex_position ex_sentence
       ex_position ex_word_seq ex_word_pos (\<lambda>_. None) 0
     = (Inr (Tensor [3, 2, 2] [1, 1, 2, 2, 3, 3, 4, 4, 5, 5, 6, 6]), 8)"
    by code_simp
  show "call ex_env (crflist ex_model ! 1) (Tensor [3, 2, 2] [1, 1, 2, 2, 3, 3, 4, 4, 5, 5, 6, 6]) 8
     = (Inr (Tensor [6, 2, 2]
          [1, 1, 1, 1, 2, 2, 2, 2, 3, 3, 3, 3, 4, 4, 4, 4, 5, 5, 5, 5, 6, 6, 6, 6]), 8)"
    by code_simp
  show "fst (forward ex_env ex_sentence ex_position ex_sentence ex_position ex_word_seq ex_word_pos
            (\<lambda>_. None) 1 None (ex_model, 0))
     = Inr (Tensor [3, 2, 2, 2]
         [1, 1, 1, 1, 4, 4, 4, 4, 2, 2, 2, 2, 5, 5, 5, 5, 3, 3, 3, 3, 6, 6, 6, 6])"
    by code_simp
  show "elem ex_word_seq [0, 1] = 2"
    by code_simp
  show "elem (Tensor [3, 2, 2, 2]
         [1, 1, 1, 1, 4, 4, 4, 4, 2, 2, 2, 2, 5, 5, 5, 5, 3, 3, 3, 3, 6, 6, 6, 6 :: int])
        [0, 1, 0, 0] = 4"
    by code_simp
  show "elem ex_word_seq [1, 1] = 4"
    by code_simp
  show "fst (forward ex_env ex_sentence ex_position ex_sentence ex_position ex_word_seq ex_word_pos
            (\<lambda>_. None) 1 None (ex_model_hw, 0))
     = Inr (Tensor [3, 2, 2, 2]
         [101, 101, 101, 101, 102, 102, 102, 102, 103, 103, 103, 103,
          104, 104, 104, 104, 105, 105, 105, 105, 106, 106, 106, 106])"
    by code_simp
qed
section \<open>The word-level encoder\<close>

lemma ext_result:
  "fst (ext c (m, g)) = fst (c g) \<and> snd (snd (ext c (m, g))) = snd (c g)"
  by (simp add: ext_def split: prod.splits)

lemma with_sizes_fields:
  "word_level_attention (with_sizes m t) = word_level_attention m"
  "if_highway (with_sizes m t) = if_highway m"
  "crflist (with_sizes m t) = crflist m"
  "tagset_size (with_sizes m t) = tagset_size m"
  by (simp_all add: with_sizes_def)

lemma forward_from_features:
  assumes "2 \<le> length (shape forw_position)"
  shows "forward env forw_sentence forw_position back_sentence back_position word_seq word_pos
           word_dict file_no hidden (m, g) =
         ext (bnd (char_lstm_features env (with_sizes m forw_position) forw_sentence
                     forw_position back_sentence back_position) (\<lambda>fb_lstm_out.
              bnd (highway_or_id env (with_sizes m forw_position) fb2char fb_lstm_out)
                (\<lambda>d_char_out.
              from_char_features env (with_sizes m forw_position) d_char_out word_seq word_pos
                word_dict file_no)))
           (with_sizes m forw_position, g)"
  by (simp add: forward_run [OF assms] encoder_output_def from_char_features_def bnd_assoc
      bnd_if with_sizes_fields cong: if_cong)

lemma encoder_output_lstm_frame:
  assumes "\<not> word_level_attention self"
  shows "encoder_output env (self\<lparr>position_enc := p, layer_stack := l, fc := f\<rparr>) forw_sentence
           forw_position back_sentence back_position word_seq word_pos word_dict
         = encoder_output env self forw_sentence forw_position back_sentence back_position
             word_seq word_pos word_dict"
  using assms
  by (simp add: encoder_output_def char_lstm_features_def highway_or_id_def word_embedding_def
      lstm_encoder_def cong: if_cong)

lemma encoder_output_attention_frame:
  assumes "word_level_attention self"
  shows "encoder_output env (self\<lparr>word_lstm := w\<rparr>) forw_sentence
           forw_position back_sentence back_position word_seq word_pos word_dict
         = encoder_output env self forw_sentence forw_position back_sentence back_position
             word_seq word_pos word_dict"
  using assms
  by (simp add: encoder_output_def char_lstm_features_def highway_or_id_def word_embedding_def
      attention_encoder_def cong: if_cong)

lemma forward_result:
  assumes "2 \<le> length (shape forw_position)"
  shows "fst (forward env forw_sentence forw_position back_sentence back_position word_seq
                word_pos word_dict file_no hidden (m, g))
         = fst (bnd (encoder_output env (with_sizes m forw_position) forw_sentence forw_position
                       back_sentence back_position word_seq word_pos word_dict) (\<lambda>h.
                bnd (getitem (crflist m) file_no) (\<lambda>crf.
                bnd (call env crf h) (crf_reshape (with_sizes m forw_position)))) g)"
    and "snd (snd (forward env forw_sentence forw_position back_sentence back_position word_seq
                word_pos word_dict file_no hidden (m, g)))
         = snd (bnd (encoder_output env (with_sizes m forw_position) forw_sentence forw_position
                       back_sentence back_position word_seq word_pos word_dict) (\<lambda>h.
                bnd (getitem (crflist m) file_no) (\<lambda>crf.
                bnd (call env crf h) (crf_reshape (with_sizes m forw_position)))) g)"
  by (simp_all add: forward_run [OF assms] ext_result)

lemma crf_reshape_cong:
  assumes "batch_size a = batch_size b" and "word_seq_length a = word_seq_length b"
    and "tagset_size a = tagset_size b"
  shows "crf_reshape a = crf_reshape b"
  using assms by (simp add: crf_reshape_def [abs_def])


lemma bnd_ret_right: "bnd c ret = c"
  by (auto simp: bnd_def ret_def fun_eq_iff split: prod.splits sum.splits)

lemma bnd_lift_Inr: "bnd (lift (Inr v)) f = f v"
  by (simp add: bnd_def lift_def)

lemma bnd_lift_Inl: "bnd (lift (Inl e)) f = lift (Inl e)"
  by (simp add: bnd_def lift_def)

text \<open>
  The source permutes \<open>word_seq\<close> three times, for the keys, the queries and the non-pad
  mask; it is one tensor.
\<close>

lemma attention_masks_once:
  "attention_masks env word_seq word_dict
   = bnd (lift (permute word_seq [1, 0])) (\<lambda>seq.
     bnd (get_attn_key_pad_mask env seq seq word_dict) (\<lambda>slf_attn_mask.
     bnd (get_non_pad_mask env seq word_dict) (\<lambda>non_pad_mask.
     ret (slf_attn_mask, non_pad_mask))))"
  unfolding attention_masks_def
  by (cases "permute word_seq [1, 0]") (simp_all add: bnd_lift_Inr bnd_lift_Inl)

text \<open>The forward pass on each branch, in the calls of the library.\<close>

lemma forward_attention_run:
  assumes "2 \<le> length (shape forw_position)" and "word_level_attention m"
  shows
   "forward env forw_sentence forw_position back_sentence back_position word_seq word_pos
      word_dict file_no hidden (m, g)
    = ext (bnd (char_lstm_features env (with_sizes m forw_position) forw_sentence
                  forw_position back_sentence back_position) (\<lambda>fb_lstm_out.
           bnd (highway_or_id env (with_sizes m forw_position) fb2char fb_lstm_out)
             (\<lambda>d_char_out.
           bnd (call_embedding env (word_embeds m) word_seq) (\<lambda>word_emb.
           bnd (call env (dropout m) word_emb) (\<lambda>d_word_emb.
           bnd (call_embedding env (position_enc m) word_pos) (\<lambda>word_pos_enc.
           bnd (lift (cat2 [d_word_emb, d_char_out, word_pos_enc])) (\<lambda>combined.
           bnd (lift (permute combined [1, 0, 2])) (\<lambda>enc_output.
           bnd (lift (permute word_seq [1, 0])) (\<lambda>seq.
           bnd (get_attn_key_pad_mask env seq seq word_dict) (\<lambda>slf_attn_mask.
           bnd (get_non_pad_mask env seq word_dict) (\<lambda>non_pad_mask.
           bnd (enc_layers env (layer_stack m) enc_output non_pad_mask slf_attn_mask)
             (\<lambda>enc_output'.
           bnd (call env (fc m) enc_output') (\<lambda>fc_out.
           bnd (getitem (crflist m) file_no) (\<lambda>crf.
           bnd (call env crf fc_out) (crf_reshape (with_sizes m forw_position))))))))))))))))
        (with_sizes m forw_position, g)"
proof -
  have fields: "position_enc (with_sizes m forw_position) = position_enc m"
    "layer_stack (with_sizes m forw_position) = layer_stack m"
    "fc (with_sizes m forw_position) = fc m"
    "word_embeds (with_sizes m forw_position) = word_embeds m"
    "dropout (with_sizes m forw_position) = dropout m"
    by (simp_all add: with_sizes_def)
  show ?thesis
    using assms(2)
    by (simp add: forward_from_features [OF assms(1)] from_char_features_def with_sizes_fields
        attention_encoder_def word_embedding_def attention_masks_once fields bnd_assoc bnd_ret)
qed

lemma forward_lstm_run:
  assumes "2 \<le> length (shape forw_position)" and "\<not> word_level_attention m"
  shows
   "forward env forw_sentence forw_position back_sentence back_position word_seq word_pos
      word_dict file_no hidden (m, g)
    = ext (bnd (char_lstm_features env (with_sizes m forw_position) forw_sentence
                  forw_position back_sentence back_position) (\<lambda>fb_lstm_out.
           bnd (highway_or_id env (with_sizes m forw_position) fb2char fb_lstm_out)
             (\<lambda>d_char_out.
           bnd (call_embedding env (word_embeds m) word_seq) (\<lambda>word_emb.
           bnd (call env (dropout m) word_emb) (\<lambda>d_word_emb.
           bnd (lift (cat2 [d_word_emb, d_char_out])) (\<lambda>word_input.
           bnd (call_lstm env (word_lstm m) word_input) (\<lambda>out.
           bnd (call env (dropout m) (fst out)) (\<lambda>d_lstm_out.
           bnd (getitem (crflist m) file_no) (\<lambda>crf.
           bnd (call env crf d_lstm_out) (crf_reshape (with_sizes m forw_position)))))))))))
        (with_sizes m forw_position, g)"
proof -
  have fields: "word_lstm (with_sizes m forw_position) = word_lstm m"
    "word_embeds (with_sizes m forw_position) = word_embeds m"
    "dropout (with_sizes m forw_position) = dropout m"
    by (simp_all add: with_sizes_def)
  show ?thesis
    using assms(2)
    by (simp add: forward_from_features [OF assms(1)] from_char_features_def with_sizes_fields
        lstm_encoder_def word_embedding_def fields bnd_assoc)
qed

text \<open>
  C3. With \<open>word_level_attention\<close> set, \<open>forward\<close> computes the word-level representation
  from the word embeddings (with dropout), the character features and the position
  encodings that \<open>position_enc\<close> gives for \<open>word_pos\<close>: it concatenates the three along the
  feature axis, exchanges the first two axes, passes the result through every layer of
  \<open>layer_stack\<close> in order, each layer on the output of the one before it, and then through
  \<open>fc\<close>; the word LSTM is not used: replacing it changes neither the result nor the
  generator state. With \<open>word_level_attention\<close> unset, it concatenates the word embeddings
  and the character features and passes them through the word LSTM, with dropout;
  \<open>position_enc\<close>, \<open>layer_stack\<close> and \<open>fc\<close> are not used. The concatenation of tensors of
  three axes has, at every place of the first two axes, the features of the first tensor
  followed by those of the next. A model from \<open>__init__\<close> has \<open>n_layers\<close> encoder layers,
  a bidirectional word LSTM, and the table of \<open>get_sinusoid_encoding_table\<close> as the frozen
  weight of \<open>position_enc\<close>.
\<close>

theorem forward_word_level_branch:
  assumes "2 \<le> length (shape forw_position)"
  shows
   "(word_level_attention m \<longrightarrow>
       forward env forw_sentence forw_position back_sentence back_position word_seq word_pos
         word_dict file_no hidden (m, g)
       = ext (bnd (char_lstm_features env (with_sizes m forw_position) forw_sentence
                     forw_position back_sentence back_position) (\<lambda>fb_lstm_out.
              bnd (highway_or_id env (with_sizes m forw_position) fb2char fb_lstm_out)
                (\<lambda>d_char_out.
              bnd (call_embedding env (word_embeds m) word_seq) (\<lambda>word_emb.
              bnd (call env (dropout m) word_emb) (\<lambda>d_word_emb.
              bnd (call_embedding env (position_enc m) word_pos) (\<lambda>word_pos_enc.
              bnd (lift (cat2 [d_word_emb, d_char_out, word_pos_enc])) (\<lambda>combined.
              bnd (lift (permute combined [1, 0, 2])) (\<lambda>enc_output.
              bnd (lift (permute word_seq [1, 0])) (\<lambda>seq.
              bnd (get_attn_key_pad_mask env seq seq word_dict) (\<lambda>slf_attn_mask.
              bnd (get_non_pad_mask env seq word_dict) (\<lambda>non_pad_mask.
              bnd (fold (\<lambda>layer acc. bnd acc (\<lambda>x.
                           bnd (call_enc_layer env layer x non_pad_mask slf_attn_mask)
                             (\<lambda>r. ret (fst r))))
                     (layer_stack m) (ret enc_output)) (\<lambda>enc_output'.
              bnd (call env (fc m) enc_output') (\<lambda>fc_out.
              bnd (getitem (crflist m) file_no) (\<lambda>crf.
              bnd (call env crf fc_out) (crf_reshape (with_sizes m forw_position))))))))))))))))
           (with_sizes m forw_position, g)
     \<and> fst (forward env forw_sentence forw_position back_sentence back_position word_seq
              word_pos word_dict file_no hidden (m\<lparr>word_lstm := w\<rparr>, g))
       = fst (forward env forw_sentence forw_position back_sentence back_position word_seq
                word_pos word_dict file_no hidden (m, g))
     \<and> snd (snd (forward env forw_sentence forw_position back_sentence back_position word_seq
                   word_pos word_dict file_no hidden (m\<lparr>word_lstm := w\<rparr>, g)))
       = snd (snd (forward env forw_sentence forw_position back_sentence back_position word_seq
                     word_pos word_dict file_no hidden (m, g))))
  \<and> (\<not> word_level_attention m \<longrightarrow>
       forward env forw_sentence forw_position back_sentence back_position word_seq word_pos
         word_dict file_no hidden (m, g)
       = ext (bnd (char_lstm_features env (with_sizes m forw_position) forw_sentence
                     forw_position back_sentence back_position) (\<lambda>fb_lstm_out.
              bnd (highway_or_id env (with_sizes m forw_position) fb2char fb_lstm_out)
                (\<lambda>d_char_out.
              bnd (call_embedding env (word_embeds m) word_seq) (\<lambda>word_emb.
              bnd (call env (dropout m) word_emb) (\<lambda>d_word_emb.
              bnd (lift (cat2 [d_word_emb, d_char_out])) (\<lambda>word_input.
              bnd (call_lstm env (word_lstm m) word_input) (\<lambda>out.
              bnd (call env (dropout m) (fst out)) (\<lambda>d_lstm_out.
              bnd (getitem (crflist m) file_no) (\<lambda>crf.
              bnd (call env crf d_lstm_out) (crf_reshape (with_sizes m forw_position)))))))))))
           (with_sizes m forw_position, g)
     \<and> fst (forward env forw_sentence forw_position back_sentence back_position word_seq
              word_pos word_dict file_no hidden
              (m\<lparr>position_enc := p', layer_stack := l, fc := f\<rparr>, g))
       = fst (forward env forw_sentence forw_position back_sentence back_position word_seq
                word_pos word_dict file_no hidden (m, g))
     \<and> snd (snd (forward env forw_sentence forw_position back_sentence back_position word_seq
                   word_pos word_dict file_no hidden
                   (m\<lparr>position_enc := p', layer_stack := l, fc := f\<rparr>, g)))
       = snd (snd (forward env forw_sentence forw_position back_sentence back_position word_seq
                     word_pos word_dict file_no hidden (m, g))))
  \<and> (shape a = [p, q, da] \<and> shape b = [p, q, db] \<and> shape c = [p, q, dc] \<longrightarrow>
     cat2 [a, b, c]
       = Inr (tabulate [p, q, da + db + dc]
                (\<lambda>idx. if idx ! 2 < da then elem a idx
                        else if idx ! 2 < da + db then elem b [idx ! 0, idx ! 1, idx ! 2 - da]
                        else elem c [idx ! 0, idx ! 1, idx ! 2 - (da + db)])))
  \<and> (shape a = [p, q, da] \<and> shape b = [p, q, db] \<longrightarrow>
     cat2 [a, b]
       = Inr (tabulate [p, q, da + db]
                (\<lambda>idx. if idx ! 2 < da then elem a idx
                        else elem b [idx ! 0, idx ! 1, idx ! 2 - da])))
  \<and> (init env tagset_size' char_size' char_dim' char_hidden_dim' char_rnn_layers'
        embedding_dim word_hidden_dim' word_rnn_layers' vocab_size dropout_ratio file_num
        len_max_seq n_layers n_head d_k d_v large_CRF if_highway' in_doc_words
        highway_layers word_level_attention' g0 = (Inr m, g1) \<longrightarrow>
       length (layer_stack m) = nat n_layers
     \<and> list_all (\<lambda>layer. kind layer = EncoderLayer (embedding_dim * 2 + char_hidden_dim' * 2)
                                        word_hidden_dim' n_head d_k d_v dropout_ratio)
         (layer_stack m)
     \<and> kind (fc m) = Linear (embedding_dim * 2 + char_hidden_dim' * 2) word_hidden_dim'
     \<and> kind (word_lstm m)
       = LSTM (embedding_dim + char_hidden_dim' * 2) (word_hidden_dim' div 2) word_rnn_layers'
           True dropout_ratio
     \<and> (\<exists>table ga gb rows cols.
           get_sinusoid_encoding_table env (len_max_seq + 1) embedding_dim 0 ga
             = (Inr table, gb)
         \<and> position_enc m
             = Module (Embedding rows cols True) ((\<lambda>_. None)(''weight'' := Some table))))"
proof (intro conjI impI)
  assume att: "word_level_attention m"
  show "forward env forw_sentence forw_position back_sentence back_position word_seq word_pos
         word_dict file_no hidden (m, g)
       = ext (bnd (char_lstm_features env (with_sizes m forw_position) forw_sentence
                     forw_position back_sentence back_position) (\<lambda>fb_lstm_out.
              bnd (highway_or_id env (with_sizes m forw_position) fb2char fb_lstm_out)
                (\<lambda>d_char_out.
              bnd (call_embedding env (word_embeds m) word_seq) (\<lambda>word_emb.
              bnd (call env (dropout m) word_emb) (\<lambda>d_word_emb.
              bnd (call_embedding env (position_enc m) word_pos) (\<lambda>word_pos_enc.
              bnd (lift (cat2 [d_word_emb, d_char_out, word_pos_enc])) (\<lambda>combined.
              bnd (lift (permute combined [1, 0, 2])) (\<lambda>enc_output.
              bnd (lift (permute word_seq [1, 0])) (\<lambda>seq.
              bnd (get_attn_key_pad_mask env seq seq word_dict) (\<lambda>slf_attn_mask.
              bnd (get_non_pad_mask env seq word_dict) (\<lambda>non_pad_mask.
              bnd (fold (\<lambda>layer acc. bnd acc (\<lambda>x.
                           bnd (call_enc_layer env layer x non_pad_mask slf_attn_mask)
                             (\<lambda>r. ret (fst r))))
                     (layer_stack m) (ret enc_output)) (\<lambda>enc_output'.
              bnd (call env (fc m) enc_output') (\<lambda>fc_out.
              bnd (getitem (crflist m) file_no) (\<lambda>crf.
              bnd (call env crf fc_out) (crf_reshape (with_sizes m forw_position))))))))))))))))
           (with_sizes m forw_position, g)"
  proof -
    have from_acc: "bnd acc (\<lambda>x. enc_layers env layers x npm slf)
        = fold (\<lambda>layer acc. bnd acc (\<lambda>x.
                  bnd (call_enc_layer env layer x npm slf) (\<lambda>r. ret (fst r))))
            layers acc" for acc layers npm slf
    proof (induction layers arbitrary: acc)
      case Nil
      show ?case
        by (simp add: bnd_ret_right)
    next
      case (Cons layer rest)
      show ?case
        by (simp add: Cons.IH [symmetric] bnd_assoc bnd_ret split_def)
    qed
    have every_layer: "enc_layers env layers x npm slf
        = fold (\<lambda>layer acc. bnd acc (\<lambda>x.
                  bnd (call_enc_layer env layer x npm slf) (\<lambda>r. ret (fst r))))
            layers (ret x)" for layers x npm slf
      using from_acc [of "ret x" layers npm slf] by (simp add: bnd_ret)
    show ?thesis
      by (simp add: forward_attention_run [OF assms att] every_layer)
  qed
  have sizes: "with_sizes (m\<lparr>word_lstm := w\<rparr>) forw_position
               = (with_sizes m forw_position)\<lparr>word_lstm := w\<rparr>"
    by (simp add: with_sizes_def)
  have reshape: "crf_reshape ((with_sizes m forw_position)\<lparr>word_lstm := w\<rparr>)
                 = (crf_reshape (with_sizes m forw_position)
                    :: 'a tensor \<Rightarrow> ('b, 'a tensor) exn)"
    by (rule crf_reshape_cong) simp_all
  show "fst (forward env forw_sentence forw_position back_sentence back_position word_seq
              word_pos word_dict file_no hidden (m\<lparr>word_lstm := w\<rparr>, g))
       = fst (forward env forw_sentence forw_position back_sentence back_position word_seq
                word_pos word_dict file_no hidden (m, g))"
    using att
    by (simp add: forward_result [OF assms] sizes reshape encoder_output_attention_frame
        with_sizes_fields)
  show "snd (snd (forward env forw_sentence forw_position back_sentence back_position word_seq
                   word_pos word_dict file_no hidden (m\<lparr>word_lstm := w\<rparr>, g)))
       = snd (snd (forward env forw_sentence forw_position back_sentence back_position word_seq
                     word_pos word_dict file_no hidden (m, g)))"
    using att
    by (simp add: forward_result [OF assms] sizes reshape encoder_output_attention_frame
        with_sizes_fields)
next
  assume rec: "\<not> word_level_attention m"
  show "forward env forw_sentence forw_position back_sentence back_position word_seq word_pos
         word_dict file_no hidden (m, g)
       = ext (bnd (char_lstm_features env (with_sizes m forw_position) forw_sentence
                     forw_position back_sentence back_position) (\<lambda>fb_lstm_out.
              bnd (highway_or_id env (with_sizes m forw_position) fb2char fb_lstm_out)
                (\<lambda>d_char_out.
              bnd (call_embedding env (word_embeds m) word_seq) (\<lambda>word_emb.
              bnd (call env (dropout m) word_emb) (\<lambda>d_word_emb.
              bnd (lift (cat2 [d_word_emb, d_char_out])) (\<lambda>word_input.
              bnd (call_lstm env (word_lstm m) word_input) (\<lambda>out.
              bnd (call env (dropout m) (fst out)) (\<lambda>d_lstm_out.
              bnd (getitem (crflist m) file_no) (\<lambda>crf.
              bnd (call env crf d_lstm_out) (crf_reshape (with_sizes m forw_position)))))))))))
           (with_sizes m forw_position, g)"
    by (rule forward_lstm_run [OF assms rec])
  have sizes: "with_sizes (m\<lparr>position_enc := p', layer_stack := l, fc := f\<rparr>) forw_position
               = (with_sizes m forw_position)\<lparr>position_enc := p', layer_stack := l, fc := f\<rparr>"
    by (simp add: with_sizes_def)
  have reshape:
    "crf_reshape ((with_sizes m forw_position)\<lparr>position_enc := p', layer_stack := l, fc := f\<rparr>)
     = (crf_reshape (with_sizes m forw_position) :: 'a tensor \<Rightarrow> ('b, 'a tensor) exn)"
    by (rule crf_reshape_cong) simp_all
  show "fst (forward env forw_sentence forw_position back_sentence back_position word_seq
              word_pos word_dict file_no hidden
              (m\<lparr>position_enc := p', layer_stack := l, fc := f\<rparr>, g))
       = fst (forward env forw_sentence forw_position back_sentence back_position word_seq
                word_pos word_dict file_no hidden (m, g))"
    using rec
    by (simp add: forward_result [OF assms] sizes reshape encoder_output_lstm_frame
        with_sizes_fields)
  show "snd (snd (forward env forw_sentence forw_position back_sentence back_position word_seq
                   word_pos word_dict file_no hidden
                   (m\<lparr>position_enc := p', layer_stack := l, fc := f\<rparr>, g)))
       = snd (snd (forward env forw_sentence forw_position back_sentence back_position word_seq
                     word_pos word_dict file_no hidden (m, g)))"
    using rec
    by (simp add: forward_result [OF assms] sizes reshape encoder_output_lstm_frame
        with_sizes_fields)
next
  assume "shape a = [p, q, da] \<and> shape b = [p, q, db] \<and> shape c = [p, q, dc]"
  then show "cat2 [a, b, c]
       = Inr (tabulate [p, q, da + db + dc]
                (\<lambda>idx. if idx ! 2 < da then elem a idx
                        else if idx ! 2 < da + db then elem b [idx ! 0, idx ! 1, idx ! 2 - da]
                        else elem c [idx ! 0, idx ! 1, idx ! 2 - (da + db)]))"
  proof (elim conjE)
    assume sh: "shape a = [p, q, da]" "shape b = [p, q, db]" "shape c = [p, q, dc]"
    have "tabulate [p, q, da + db + dc] (cat_at a [b, c])
          = tabulate [p, q, da + db + dc]
              (\<lambda>idx. if idx ! 2 < da then elem a idx
                      else if idx ! 2 < da + db then elem b [idx ! 0, idx ! 1, idx ! 2 - da]
                      else elem c [idx ! 0, idx ! 1, idx ! 2 - (da + db)])"
      by (rule tabulate_cong) (auto simp: within_3 sh)
    with sh show ?thesis
      by (simp add: cat2_def add.assoc)
  qed
next
  assume "shape a = [p, q, da] \<and> shape b = [p, q, db]"
  then show "cat2 [a, b]
       = Inr (tabulate [p, q, da + db]
                (\<lambda>idx. if idx ! 2 < da then elem a idx
                        else elem b [idx ! 0, idx ! 1, idx ! 2 - da]))"
  proof (elim conjE)
    assume sh: "shape a = [p, q, da]" "shape b = [p, q, db]"
    have "tabulate [p, q, da + db] (cat_at a [b])
          = tabulate [p, q, da + db]
              (\<lambda>idx. if idx ! 2 < da then elem a idx
                      else elem b [idx ! 0, idx ! 1, idx ! 2 - da])"
      by (rule tabulate_cong) (auto simp: within_3 sh)
    with sh show ?thesis
      by (simp add: cat2_def)
  qed
next
  assume built: "init env tagset_size' char_size' char_dim' char_hidden_dim' char_rnn_layers'
        embedding_dim word_hidden_dim' word_rnn_layers' vocab_size dropout_ratio file_num
        len_max_seq n_layers n_head d_k d_v large_CRF if_highway' in_doc_words
        highway_layers word_level_attention' g0 = (Inr m, g1)"
  from init_D [OF built] obtain s4 s5 s10 s11 s12 s13 table where
    lstm: "new_module env (LSTM (embedding_dim + char_hidden_dim' * 2) (word_hidden_dim' div 2)
             word_rnn_layers' True dropout_ratio) s4 = (Inr (word_lstm m), s5)"
    and table: "get_sinusoid_encoding_table env (len_max_seq + 1) embedding_dim 0 s10
            = (Inr table, s11)"
    and pos: "from_pretrained table True s11 = (Inr (position_enc m), s12)"
    and layers: "repeat_m (nat n_layers)
          (new_module env (EncoderLayer (embedding_dim * 2 + char_hidden_dim' * 2)
             word_hidden_dim' n_head d_k d_v dropout_ratio)) s12
       = (Inr (layer_stack m), s13)"
    and fc: "new_module env (Linear (embedding_dim * 2 + char_hidden_dim' * 2) word_hidden_dim')
               s13 = (Inr (fc m), g1)"
    by blast
  show "length (layer_stack m) = nat n_layers"
    using layers by (rule repeat_m_length)
  show "list_all (\<lambda>layer. kind layer = EncoderLayer (embedding_dim * 2 + char_hidden_dim' * 2)
                                        word_hidden_dim' n_head d_k d_v dropout_ratio)
         (layer_stack m)"
    using repeat_m_elems [OF layers] new_module_kind
    by (fastforce simp: list_all_iff)
  show "kind (fc m) = Linear (embedding_dim * 2 + char_hidden_dim' * 2) word_hidden_dim'"
    using fc by (rule new_module_kind)
  show "kind (word_lstm m)
       = LSTM (embedding_dim + char_hidden_dim' * 2) (word_hidden_dim' div 2) word_rnn_layers'
           True dropout_ratio"
    using lstm by (rule new_module_kind)
  from pos have "\<exists>rows cols.
      Module (Embedding rows cols True) ((\<lambda>_. None)(''weight'' := Some table)) = position_enc m"
    by (auto simp: from_pretrained_def run split: list.splits)
  then obtain rows cols where
    "position_enc m = Module (Embedding rows cols True) ((\<lambda>_. None)(''weight'' := Some table))"
    by metis
  with table show "\<exists>table ga gb rows cols.
           get_sinusoid_encoding_table env (len_max_seq + 1) embedding_dim 0 ga
             = (Inr table, gb)
         \<and> position_enc m
             = Module (Embedding rows cols True) ((\<lambda>_. None)(''weight'' := Some table))"
    by blast
qed

text \<open>
  On the example model with attention, which \<open>__init__\<close> built with one layer, the forward
  pass for the example sentences returns, at \<open>[s, b]\<close>, the matrix filled with the word at
  \<open>[s, b]\<close> plus the 100 that the layer adds, and 0 for the padding word 6; with a stack of
  two layers it is plus 200. The result is the same when the word LSTM is replaced. On
  the example model without attention the result is the same when the position table,
  the layer stack and \<open>fc\<close> are replaced.
\<close>

theorem forward_word_level_branch_witness:
  "2 \<le> length (shape ex_position)
   \<and> word_level_attention ex_model_hw
   \<and> fst (forward ex_env ex_sentence ex_position ex_sentence ex_position ex_word_seq
            ex_word_pos ex_word_dict 1 None (ex_model_hw, 0))
     = Inr (Tensor [3, 2, 2, 2]
         [101, 101, 101, 101, 102, 102, 102, 102, 103, 103, 103, 103,
          104, 104, 104, 104, 105, 105, 105, 105, 0, 0, 0, 0])
   \<and> fst (forward ex_env ex_sentence ex_position ex_sentence ex_position ex_word_seq
            ex_word_pos ex_word_dict 1 None
            (ex_model_hw\<lparr>layer_stack := [ex_module (EncoderLayer 6 2 8 64 64 0) 15,
                                          ex_module (EncoderLayer 6 2 8 64 64 0) 16]\<rparr>, 0))
     = Inr (Tensor [3, 2, 2, 2]
         [201, 201, 201, 201, 202, 202, 202, 202, 203, 203, 203, 203,
          204, 204, 204, 204, 205, 205, 205, 205, 0, 0, 0, 0])
   \<and> fst (forward ex_env ex_sentence ex_position ex_sentence ex_position ex_word_seq
            ex_word_pos ex_word_dict 1 None
            (ex_model_hw\<lparr>word_lstm := ex_module (Linear 1 1) 0\<rparr>, 0))
     = fst (forward ex_env ex_sentence ex_position ex_sentence ex_position ex_word_seq
              ex_word_pos ex_word_dict 1 None (ex_model_hw, 0))
   \<and> \<not> word_level_attention ex_model
   \<and> fst (forward ex_env ex_sentence ex_position ex_sentence ex_position ex_word_seq
            ex_word_pos ex_word_dict 1 None (ex_model, 0))
     = Inr (Tensor [3, 2, 2, 2]
         [1, 1, 1, 1, 4, 4, 4, 4, 2, 2, 2, 2, 5, 5, 5, 5, 3, 3, 3, 3, 6, 6, 6, 6])
   \<and> fst (forward ex_env ex_sentence ex_position ex_sentence ex_position ex_word_seq
            ex_word_pos ex_word_dict 1 None
            (ex_model\<lparr>position_enc := ex_module (Embedding 1 1 False) 0, layer_stack := [],
                      fc := ex_module (Linear 1 1) 0\<rparr>, 0))
     = fst (forward ex_env ex_sentence ex_position ex_sentence ex_position ex_word_seq
              ex_word_pos ex_word_dict 1 None (ex_model, 0))
   \<and> cat2 [Tensor [2, 1, 1] [1, 2], Tensor [2, 1, 2] [3, 4, 5, 6], Tensor [2, 1, 1] [7, 8 :: int]]
     = Inr (Tensor [2, 1, 4] [1, 3, 4, 7, 2, 5, 6, 8])
   \<and> cat2 [Tensor [2, 1, 1] [1, 2], Tensor [2, 1, 2] [3, 4, 5, 6 :: int]]
     = Inr (Tensor [2, 1, 3] [1, 3, 4, 2, 5, 6])
   \<and> ex_init True True 0 = (Inr ex_model_hw, 17)
   \<and> length (layer_stack ex_model_hw) = 1
   \<and> kind (word_lstm ex_model_hw) = LSTM 4 1 1 True 0"
proof -
  have two: "2 \<le> length (shape ex_position)"
    by (simp add: ex_position_def)
  have plain: "\<not> word_level_attention ex_model"
    by (simp add: ex_model_def)
  have att: "word_level_attention ex_model_hw"
    by (simp add: ex_model_hw_def)
  let ?two_layers = "ex_model_hw\<lparr>layer_stack := [ex_module (EncoderLayer 6 2 8 64 64 0) 15,
                                                   ex_module (EncoderLayer 6 2 8 64 64 0) 16]\<rparr>"
  note a = forward_word_level_branch [OF two,
      where m = ex_model and env = ex_env and forw_sentence = ex_sentence
        and back_sentence = ex_sentence and back_position = ex_position
        and word_seq = ex_word_seq and word_pos = ex_word_pos and word_dict = ex_word_dict
        and file_no = 1 and hidden = None and g = 0
        and p' = "ex_module (Embedding 1 1 False) 0" and l = "[]"
        and f = "ex_module (Linear 1 1) 0"]
  note b = forward_word_level_branch [OF two,
      where m = ex_model_hw and env = ex_env and forw_sentence = ex_sentence
        and back_sentence = ex_sentence and back_position = ex_position
        and word_seq = ex_word_seq and word_pos = ex_word_pos and word_dict = ex_word_dict
        and file_no = 1 and hidden = None and g = 0
        and w = "ex_module (Linear 1 1) 0"]
  have v1: "fst (forward ex_env ex_sentence ex_position ex_sentence ex_position ex_word_seq
            ex_word_pos ex_word_dict 1 None (ex_model_hw, 0))
     = Inr (Tensor [3, 2, 2, 2]
         [101, 101, 101, 101, 102, 102, 102, 102, 103, 103, 103, 103,
          104, 104, 104, 104, 105, 105, 105, 105, 0, 0, 0, 0])"
    by code_simp
  have v2: "fst (forward ex_env ex_sentence ex_position ex_sentence ex_position ex_word_seq
            ex_word_pos ex_word_dict 1 None (?two_layers, 0))
     = Inr (Tensor [3, 2, 2, 2]
         [201, 201, 201, 201, 202, 202, 202, 202, 203, 203, 203, 203,
          204, 204, 204, 204, 205, 205, 205, 205, 0, 0, 0, 0])"
    by code_simp
  have v3: "fst (forward ex_env ex_sentence ex_position ex_sentence ex_position ex_word_seq
            ex_word_pos ex_word_dict 1 None (ex_model, 0))
     = Inr (Tensor [3, 2, 2, 2]
         [1, 1, 1, 1, 4, 4, 4, 4, 2, 2, 2, 2, 5, 5, 5, 5, 3, 3, 3, 3, 6, 6, 6, 6])"
    by code_simp
  from a [THEN conjunct2, THEN conjunct1, THEN mp, OF plain, THEN conjunct2, THEN conjunct1]
  have i1:
    "fst (forward ex_env ex_sentence ex_position ex_sentence ex_position ex_word_seq
            ex_word_pos ex_word_dict 1 None
            (ex_model\<lparr>position_enc := ex_module (Embedding 1 1 False) 0, layer_stack := [],
                      fc := ex_module (Linear 1 1) 0\<rparr>, 0))
     = fst (forward ex_env ex_sentence ex_position ex_sentence ex_position ex_word_seq
              ex_word_pos ex_word_dict 1 None (ex_model, 0))"
    .
  from b [THEN conjunct1, THEN mp, OF att, THEN conjunct2, THEN conjunct1]
  have i2:
    "fst (forward ex_env ex_sentence ex_position ex_sentence ex_position ex_word_seq
            ex_word_pos ex_word_dict 1 None
            (ex_model_hw\<lparr>word_lstm := ex_module (Linear 1 1) 0\<rparr>, 0))
     = fst (forward ex_env ex_sentence ex_position ex_sentence ex_position ex_word_seq
              ex_word_pos ex_word_dict 1 None (ex_model_hw, 0))"
    .
  have "shape (Tensor [2, 1, 1] [1, 2 :: int]) = [2, 1, 1]
        \<and> shape (Tensor [2, 1, 2] [3, 4, 5, 6 :: int]) = [2, 1, 2]
        \<and> shape (Tensor [2, 1, 1] [7, 8 :: int]) = [2, 1, 1]"
    by simp
  from b [THEN conjunct2, THEN conjunct2, THEN conjunct1, THEN mp, OF this]
  have c3: "cat2 [Tensor [2, 1, 1] [1, 2], Tensor [2, 1, 2] [3, 4, 5, 6],
                  Tensor [2, 1, 1] [7, 8 :: int]]
            = Inr (Tensor [2, 1, 4] [1, 3, 4, 7, 2, 5, 6, 8])"
    by code_simp
  have "shape (Tensor [2, 1, 1] [1, 2 :: int]) = [2, 1, 1]
        \<and> shape (Tensor [2, 1, 2] [3, 4, 5, 6 :: int]) = [2, 1, 2]"
    by simp
  from b [THEN conjunct2, THEN conjunct2, THEN conjunct2, THEN conjunct1, THEN mp, OF this]
  have c2: "cat2 [Tensor [2, 1, 1] [1, 2], Tensor [2, 1, 2] [3, 4, 5, 6 :: int]]
            = Inr (Tensor [2, 1, 3] [1, 3, 4, 2, 5, 6])"
    by code_simp
  note built = b [THEN conjunct2, THEN conjunct2, THEN conjunct2, THEN conjunct2, THEN mp,
      OF ex_init_hw [unfolded ex_init_def]]
  from built [THEN conjunct1] have len: "length (layer_stack ex_model_hw) = 1"
    by simp
  from built [THEN conjunct2, THEN conjunct2, THEN conjunct2, THEN conjunct1]
  have lstm: "kind (word_lstm ex_model_hw) = LSTM 4 1 1 True 0"
    by simp
  from two att plain v1 v2 v3 i1 i2 c3 c2 ex_init_hw len lstm show ?thesis
    by (intro conjI)
qed
section \<open>The attention masks\<close>

lemma enc_layers_cong:
  assumes "\<And>layer x. f' layer x non_pad_mask slf_attn_mask
                       = call_enc_layer env layer x non_pad_mask slf_attn_mask"
  shows "enc_layers (env\<lparr>call_enc_layer := f'\<rparr>) layers x non_pad_mask slf_attn_mask
         = enc_layers env layers x non_pad_mask slf_attn_mask"
  by (induction layers arbitrary: x) (simp_all add: assms)

lemma attention_encoder_cong:
  assumes "\<And>slf npm ga gb layer x.
             attention_masks env word_seq word_dict ga = (Inr (slf, npm), gb)
             \<Longrightarrow> f' layer x npm slf = call_enc_layer env layer x npm slf"
  shows "attention_encoder (env\<lparr>call_enc_layer := f'\<rparr>) self d_word_emb d_char_out word_seq
           word_pos word_dict s
         = attention_encoder env self d_word_emb d_char_out word_seq word_pos word_dict s"
proof -
  have masks: "attention_masks (env\<lparr>call_enc_layer := f'\<rparr>) word_seq word_dict
               = attention_masks env word_seq word_dict"
    by (simp add: attention_masks_def)
  show ?thesis
    unfolding attention_encoder_def masks
    apply simp
    apply (rule bnd_cong_run)+
    subgoal for word_pos_enc s1 combined s2 enc_output s3 masks s4
      using assms [of s3 "fst masks" "snd masks" s4]
      by (simp add: enc_layers_cong)
    done
qed

lemma encoder_output_cong:
  assumes "\<And>slf npm ga gb layer x.
             attention_masks env word_seq word_dict ga = (Inr (slf, npm), gb)
             \<Longrightarrow> f' layer x npm slf = call_enc_layer env layer x npm slf"
  shows "encoder_output (env\<lparr>call_enc_layer := f'\<rparr>) self forw_sentence forw_position
           back_sentence back_position word_seq word_pos word_dict
         = encoder_output env self forw_sentence forw_position back_sentence back_position
             word_seq word_pos word_dict"
proof -
  have "attention_encoder (env\<lparr>call_enc_layer := f'\<rparr>) self d_word_emb d_char_out word_seq
          word_pos word_dict
        = attention_encoder env self d_word_emb d_char_out word_seq word_pos word_dict"
    for d_word_emb d_char_out
    by (rule ext) (rule attention_encoder_cong [OF assms])
  then show ?thesis
    by (simp add: encoder_output_def char_lstm_features_def highway_or_id_def
        word_embedding_def lstm_encoder_def cong: if_cong)
qed


text \<open>
  A run of the loop that returns, layer by layer: \<open>xs\<close> are the input and the outputs of
  the layers, \<open>gs\<close> the generator states between them.
\<close>

lemma enc_layers_chain:
  "enc_layers env layers x non_pad_mask slf_attn_mask ga = (Inr y, gb)
   \<longleftrightarrow> (\<exists>xs gs. length xs = Suc (length layers) \<and> length gs = Suc (length layers)
         \<and> xs ! 0 = x \<and> gs ! 0 = ga \<and> xs ! length layers = y \<and> gs ! length layers = gb
         \<and> (\<forall>i < length layers. \<exists>attn.
               call_enc_layer env (layers ! i) (xs ! i) non_pad_mask slf_attn_mask (gs ! i)
               = (Inr (xs ! Suc i, attn), gs ! Suc i)))"
proof (induction layers arbitrary: x ga)
  case Nil
  show ?case
  proof
    assume "enc_layers env [] x non_pad_mask slf_attn_mask ga = (Inr y, gb)"
    then have "y = x" and "gb = ga"
      by (simp_all add: ret_app)
    then have "length [x] = Suc (length ([] :: 'a module list))
         \<and> length [ga] = Suc (length ([] :: 'a module list))
         \<and> [x] ! 0 = x \<and> [ga] ! 0 = ga \<and> [x] ! length ([] :: 'a module list) = y
         \<and> [ga] ! length ([] :: 'a module list) = gb"
      by simp
    then show "\<exists>xs gs. length xs = Suc (length ([] :: 'a module list))
         \<and> length gs = Suc (length ([] :: 'a module list))
         \<and> xs ! 0 = x \<and> gs ! 0 = ga \<and> xs ! length ([] :: 'a module list) = y
         \<and> gs ! length ([] :: 'a module list) = gb
         \<and> (\<forall>i < length ([] :: 'a module list). \<exists>attn.
               call_enc_layer env ([] ! i) (xs ! i) non_pad_mask slf_attn_mask (gs ! i)
               = (Inr (xs ! Suc i, attn), gs ! Suc i))"
      by (intro exI [of _ "[x]"] exI [of _ "[ga]"]) simp
  next
    assume "\<exists>xs gs. length xs = Suc (length ([] :: 'a module list))
         \<and> length gs = Suc (length ([] :: 'a module list))
         \<and> xs ! 0 = x \<and> gs ! 0 = ga \<and> xs ! length ([] :: 'a module list) = y
         \<and> gs ! length ([] :: 'a module list) = gb
         \<and> (\<forall>i < length ([] :: 'a module list). \<exists>attn.
               call_enc_layer env ([] ! i) (xs ! i) non_pad_mask slf_attn_mask (gs ! i)
               = (Inr (xs ! Suc i, attn), gs ! Suc i))"
    then show "enc_layers env [] x non_pad_mask slf_attn_mask ga = (Inr y, gb)"
      by (auto simp: ret_app)
  qed
next
  case (Cons layer rest)
  show ?case
  proof
    assume "enc_layers env (layer # rest) x non_pad_mask slf_attn_mask ga = (Inr y, gb)"
    then have "bnd (call_enc_layer env layer x non_pad_mask slf_attn_mask)
                 (\<lambda>r. enc_layers env rest (fst r) non_pad_mask slf_attn_mask) ga = (Inr y, gb)"
      by (simp add: split_def)
    from bnd_Inr_D [OF this] obtain r g1 where
      first: "call_enc_layer env layer x non_pad_mask slf_attn_mask ga = (Inr r, g1)"
      and "enc_layers env rest (fst r) non_pad_mask slf_attn_mask g1 = (Inr y, gb)"
      by blast
    with Cons.IH [of "fst r" g1] obtain xs gs where
      len: "length xs = Suc (length rest)" "length gs = Suc (length rest)"
      and ends: "xs ! 0 = fst r" "gs ! 0 = g1" "xs ! length rest = y" "gs ! length rest = gb"
      and steps: "\<forall>i < length rest. \<exists>attn.
               call_enc_layer env (rest ! i) (xs ! i) non_pad_mask slf_attn_mask (gs ! i)
               = (Inr (xs ! Suc i, attn), gs ! Suc i)"
      by blast
    have "\<exists>attn. call_enc_layer env ((layer # rest) ! i) ((x # xs) ! i) non_pad_mask
                    slf_attn_mask ((ga # gs) ! i)
                  = (Inr ((x # xs) ! Suc i, attn), (ga # gs) ! Suc i)"
      if "i < length (layer # rest)" for i
    proof (cases i)
      case 0
      with first ends show ?thesis
        by (cases r) auto
    next
      case (Suc j)
      with that steps show ?thesis
        by simp
    qed
    with len ends show "\<exists>xs gs. length xs = Suc (length (layer # rest))
         \<and> length gs = Suc (length (layer # rest))
         \<and> xs ! 0 = x \<and> gs ! 0 = ga \<and> xs ! length (layer # rest) = y
         \<and> gs ! length (layer # rest) = gb
         \<and> (\<forall>i < length (layer # rest). \<exists>attn.
               call_enc_layer env ((layer # rest) ! i) (xs ! i) non_pad_mask slf_attn_mask
                 (gs ! i)
               = (Inr (xs ! Suc i, attn), gs ! Suc i))"
      by (intro exI [of _ "x # xs"] exI [of _ "ga # gs"]) simp
  next
    assume "\<exists>xs gs. length xs = Suc (length (layer # rest))
         \<and> length gs = Suc (length (layer # rest))
         \<and> xs ! 0 = x \<and> gs ! 0 = ga \<and> xs ! length (layer # rest) = y
         \<and> gs ! length (layer # rest) = gb
         \<and> (\<forall>i < length (layer # rest). \<exists>attn.
               call_enc_layer env ((layer # rest) ! i) (xs ! i) non_pad_mask slf_attn_mask
                 (gs ! i)
               = (Inr (xs ! Suc i, attn), gs ! Suc i))"
    then obtain xs gs where
      len: "length xs = Suc (Suc (length rest))" "length gs = Suc (Suc (length rest))"
      and ends: "xs ! 0 = x" "gs ! 0 = ga" "xs ! Suc (length rest) = y"
        "gs ! Suc (length rest) = gb"
      and steps: "\<And>i. i < Suc (length rest) \<Longrightarrow> \<exists>attn.
               call_enc_layer env ((layer # rest) ! i) (xs ! i) non_pad_mask slf_attn_mask
                 (gs ! i)
               = (Inr (xs ! Suc i, attn), gs ! Suc i)"
      by auto
    from len obtain x0 xs' where xs: "xs = x0 # xs'"
      by (cases xs) simp_all
    from len obtain g0 gs' where gs: "gs = g0 # gs'"
      by (cases gs) simp_all
    from steps [of 0] ends obtain attn where
      first: "call_enc_layer env layer x non_pad_mask slf_attn_mask ga
              = (Inr (xs' ! 0, attn), gs' ! 0)"
      by (auto simp: xs gs)
    have "\<exists>attn. call_enc_layer env (rest ! i) (xs' ! i) non_pad_mask slf_attn_mask (gs' ! i)
                  = (Inr (xs' ! Suc i, attn), gs' ! Suc i)"
      if "i < length rest" for i
      using steps [of "Suc i"] that by (simp add: xs gs)
    with len ends have "\<exists>xs gs. length xs = Suc (length rest) \<and> length gs = Suc (length rest)
         \<and> xs ! 0 = xs' ! 0 \<and> gs ! 0 = gs' ! 0 \<and> xs ! length rest = y
         \<and> gs ! length rest = gb
         \<and> (\<forall>i < length rest. \<exists>attn.
               call_enc_layer env (rest ! i) (xs ! i) non_pad_mask slf_attn_mask (gs ! i)
               = (Inr (xs ! Suc i, attn), gs ! Suc i))"
      by (intro exI [of _ xs'] exI [of _ gs']) (simp add: xs gs)
    then have "enc_layers env rest (xs' ! 0) non_pad_mask slf_attn_mask (gs' ! 0) = (Inr y, gb)"
      by (simp only: Cons.IH)
    with first show "enc_layers env (layer # rest) x non_pad_mask slf_attn_mask ga = (Inr y, gb)"
      by (simp add: bnd_app)
  qed
qed

lemma attention_masks_D:
  assumes "attention_masks env word_seq word_dict ga = (Inr (slf_attn_mask, non_pad_mask), gb)"
  shows "\<exists>seq g1. permute word_seq [1, 0] = Inr seq
           \<and> get_attn_key_pad_mask env seq seq word_dict ga = (Inr slf_attn_mask, g1)
           \<and> get_non_pad_mask env seq word_dict g1 = (Inr non_pad_mask, gb)"
proof -
  from bnd_Inr_D [OF assms [unfolded attention_masks_once]] obtain seq s1 where
    seq: "lift (permute word_seq [1, 0]) ga = (Inr seq, s1)"
    and "bnd (get_attn_key_pad_mask env seq seq word_dict) (\<lambda>slf_attn_mask.
         bnd (get_non_pad_mask env seq word_dict) (\<lambda>non_pad_mask.
         ret (slf_attn_mask, non_pad_mask))) s1 = (Inr (slf_attn_mask, non_pad_mask), gb)"
    by blast
  from bnd_Inr_D [OF this(2)] obtain slf g1 where
    slf: "get_attn_key_pad_mask env seq seq word_dict s1 = (Inr slf, g1)"
    and "bnd (get_non_pad_mask env seq word_dict) (\<lambda>non_pad_mask.
         ret (slf, non_pad_mask)) g1 = (Inr (slf_attn_mask, non_pad_mask), gb)"
    by blast
  from bnd_Inr_D [OF this(2)] obtain npm g2 where
    npm: "get_non_pad_mask env seq word_dict g1 = (Inr npm, g2)"
    and "ret (slf, npm) g2 = (Inr (slf_attn_mask, non_pad_mask), gb)"
    by blast
  then have "slf = slf_attn_mask" "npm = non_pad_mask" "g2 = gb"
    by (simp_all add: ret_app)
  with seq slf npm show ?thesis
    by (auto simp: lift_app)
qed

text \<open>
  C5. With \<open>word_level_attention\<close> set, \<open>forward\<close> computes the key-padding mask and the
  non-pad mask from \<open>word_seq\<close> (with its two axes exchanged) and \<open>word_dict\<close> alone, after
  the inputs of the attention stack are combined and before its first layer, and enters
  the loop over \<open>layer_stack\<close> with them. The loop calls every layer of the stack, in
  order, on the output of the layer before it and with these same two masks: it is a
  fold over the list; on a stack of one layer it is one call; and a run of the loop
  returns exactly when every layer, from the first to the last, returns on the output of
  the one before it with the two masks. So an encoder-layer function that agrees with the
  library's on the masks so computed, and differs on any other mask, gives the same
  forward pass.
\<close>

theorem forward_masks_fixed:
  assumes "2 \<le> length (shape forw_position)" and "word_level_attention m"
  shows
   "forward env forw_sentence forw_position back_sentence back_position word_seq word_pos
      word_dict file_no hidden (m, g)
    = ext (bnd (char_lstm_features env (with_sizes m forw_position) forw_sentence
                  forw_position back_sentence back_position) (\<lambda>fb_lstm_out.
           bnd (highway_or_id env (with_sizes m forw_position) fb2char fb_lstm_out)
             (\<lambda>d_char_out.
           bnd (call_embedding env (word_embeds m) word_seq) (\<lambda>word_emb.
           bnd (call env (dropout m) word_emb) (\<lambda>d_word_emb.
           bnd (call_embedding env (position_enc m) word_pos) (\<lambda>word_pos_enc.
           bnd (lift (cat2 [d_word_emb, d_char_out, word_pos_enc])) (\<lambda>combined.
           bnd (lift (permute combined [1, 0, 2])) (\<lambda>enc_output.
           bnd (lift (permute word_seq [1, 0])) (\<lambda>seq.
           bnd (get_attn_key_pad_mask env seq seq word_dict) (\<lambda>slf_attn_mask.
           bnd (get_non_pad_mask env seq word_dict) (\<lambda>non_pad_mask.
           bnd (enc_layers env (layer_stack m) enc_output non_pad_mask slf_attn_mask)
             (\<lambda>enc_output'.
           bnd (call env (fc m) enc_output') (\<lambda>fc_out.
           bnd (getitem (crflist m) file_no) (\<lambda>crf.
           bnd (call env crf fc_out) (crf_reshape (with_sizes m forw_position))))))))))))))))
        (with_sizes m forw_position, g)
  \<and> enc_layers env layers x npm slf
    = fold (\<lambda>layer acc. bnd acc (\<lambda>x.
              bnd (call_enc_layer env layer x npm slf) (\<lambda>r. ret (fst r))))
        layers (ret x)
  \<and> enc_layers env [layer] x npm slf
    = bnd (call_enc_layer env layer x npm slf) (\<lambda>r. ret (fst r))
  \<and> (enc_layers env layers x npm slf ga = (Inr y, gb)
     \<longleftrightarrow> (\<exists>xs gs. length xs = Suc (length layers) \<and> length gs = Suc (length layers)
           \<and> xs ! 0 = x \<and> gs ! 0 = ga \<and> xs ! length layers = y \<and> gs ! length layers = gb
           \<and> (\<forall>i < length layers. \<exists>attn.
                 call_enc_layer env (layers ! i) (xs ! i) npm slf (gs ! i)
                 = (Inr (xs ! Suc i, attn), gs ! Suc i))))
  \<and> ((\<forall>seq slf' npm' g1 g2 g3 layer x'.
         permute word_seq [1, 0] = Inr seq
         \<and> get_attn_key_pad_mask env seq seq word_dict g1 = (Inr slf', g2)
         \<and> get_non_pad_mask env seq word_dict g2 = (Inr npm', g3)
         \<longrightarrow> f' layer x' npm' slf' = call_enc_layer env layer x' npm' slf')
      \<longrightarrow> forward (env\<lparr>call_enc_layer := f'\<rparr>) forw_sentence forw_position back_sentence
            back_position word_seq word_pos word_dict file_no hidden (m, g)
          = forward env forw_sentence forw_position back_sentence back_position word_seq
              word_pos word_dict file_no hidden (m, g))"
proof (intro conjI impI)
  show "forward env forw_sentence forw_position back_sentence back_position word_seq word_pos
      word_dict file_no hidden (m, g)
    = ext (bnd (char_lstm_features env (with_sizes m forw_position) forw_sentence
                  forw_position back_sentence back_position) (\<lambda>fb_lstm_out.
           bnd (highway_or_id env (with_sizes m forw_position) fb2char fb_lstm_out)
             (\<lambda>d_char_out.
           bnd (call_embedding env (word_embeds m) word_seq) (\<lambda>word_emb.
           bnd (call env (dropout m) word_emb) (\<lambda>d_word_emb.
           bnd (call_embedding env (position_enc m) word_pos) (\<lambda>word_pos_enc.
           bnd (lift (cat2 [d_word_emb, d_char_out, word_pos_enc])) (\<lambda>combined.
           bnd (lift (permute combined [1, 0, 2])) (\<lambda>enc_output.
           bnd (lift (permute word_seq [1, 0])) (\<lambda>seq.
           bnd (get_attn_key_pad_mask env seq seq word_dict) (\<lambda>slf_attn_mask.
           bnd (get_non_pad_mask env seq word_dict) (\<lambda>non_pad_mask.
           bnd (enc_layers env (layer_stack m) enc_output non_pad_mask slf_attn_mask)
             (\<lambda>enc_output'.
           bnd (call env (fc m) enc_output') (\<lambda>fc_out.
           bnd (getitem (crflist m) file_no) (\<lambda>crf.
           bnd (call env crf fc_out) (crf_reshape (with_sizes m forw_position))))))))))))))))
        (with_sizes m forw_position, g)"
    by (rule forward_attention_run [OF assms])
  show "enc_layers env layers x npm slf
    = fold (\<lambda>layer acc. bnd acc (\<lambda>x.
              bnd (call_enc_layer env layer x npm slf) (\<lambda>r. ret (fst r))))
        layers (ret x)"
  proof -
    have from_acc: "bnd acc (\<lambda>x. enc_layers env layers x npm slf)
        = fold (\<lambda>layer acc. bnd acc (\<lambda>x.
                  bnd (call_enc_layer env layer x npm slf) (\<lambda>r. ret (fst r))))
            layers acc" for acc
    proof (induction layers arbitrary: acc)
      case Nil
      show ?case
        by (simp add: bnd_ret_right)
    next
      case (Cons layer rest)
      show ?case
        by (simp add: Cons.IH [symmetric] bnd_assoc bnd_ret split_def)
    qed
    from from_acc [of "ret x"] show ?thesis
      by (simp add: bnd_ret)
  qed
  show "enc_layers env [layer] x npm slf
    = bnd (call_enc_layer env layer x npm slf) (\<lambda>r. ret (fst r))"
    by (simp add: split_def bnd_ret_right)
  show "(enc_layers env layers x npm slf ga = (Inr y, gb)
     \<longleftrightarrow> (\<exists>xs gs. length xs = Suc (length layers) \<and> length gs = Suc (length layers)
           \<and> xs ! 0 = x \<and> gs ! 0 = ga \<and> xs ! length layers = y \<and> gs ! length layers = gb
           \<and> (\<forall>i < length layers. \<exists>attn.
                 call_enc_layer env (layers ! i) (xs ! i) npm slf (gs ! i)
                 = (Inr (xs ! Suc i, attn), gs ! Suc i))))"
    by (rule enc_layers_chain)
next
  assume agree: "\<forall>seq slf' npm' g1 g2 g3 layer x'.
         permute word_seq [1, 0] = Inr seq
         \<and> get_attn_key_pad_mask env seq seq word_dict g1 = (Inr slf', g2)
         \<and> get_non_pad_mask env seq word_dict g2 = (Inr npm', g3)
         \<longrightarrow> f' layer x' npm' slf' = call_enc_layer env layer x' npm' slf'"
  have "f' layer x' npm' slf' = call_enc_layer env layer x' npm' slf'"
    if "attention_masks env word_seq word_dict ga' = (Inr (slf', npm'), gb')"
    for slf' npm' ga' gb' layer x'
    using attention_masks_D [OF that] agree by blast
  then show "forward (env\<lparr>call_enc_layer := f'\<rparr>) forw_sentence forw_position back_sentence
            back_position word_seq word_pos word_dict file_no hidden (m, g)
          = forward env forw_sentence forw_position back_sentence back_position word_seq
              word_pos word_dict file_no hidden (m, g)"
    by (simp add: forward_run [OF assms(1)] encoder_output_cong)
qed

text \<open>
  On the example model with attention and the dictionary whose padding word is word 6,
  the masks mark the last word of the second sentence; the forward pass is the same with
  an encoder-layer function that raises on any other masks, and it returns 0 for the
  padded word. A stack of two example layers on two rows, the second one padded, returns
  exactly because the first layer returns on the input and the second on its output,
  both with the masks given.
\<close>

theorem forward_masks_fixed_witness:
  "2 \<le> length (shape ex_position) \<and> word_level_attention ex_model_hw
   \<and> permute ex_word_seq [1, 0] = Inr (Tensor [2, 3] [1, 3, 5, 2, 4, 6])
   \<and> get_attn_key_pad_mask ex_env (Tensor [2, 3] [1, 3, 5, 2, 4, 6])
       (Tensor [2, 3] [1, 3, 5, 2, 4, 6]) ex_word_dict 8
     = (Inr (Tensor [2, 3, 3] [0, 0, 0, 0, 0, 0, 0, 0, 0, 0, 0, 1, 0, 0, 1, 0, 0, 1]), 8)
   \<and> get_non_pad_mask ex_env (Tensor [2, 3] [1, 3, 5, 2, 4, 6]) ex_word_dict 8
     = (Inr (Tensor [2, 3, 1] [1, 1, 1, 1, 1, 0]), 8)
   \<and> forward
       (ex_env\<lparr>call_enc_layer :=
          (\<lambda>layer x npm slf.
             if npm = Tensor [2, 3, 1] [1, 1, 1, 1, 1, 0]
                \<and> slf = Tensor [2, 3, 3] [0, 0, 0, 0, 0, 0, 0, 0, 0, 0, 0, 1, 0, 0, 1, 0, 0, 1]
             then call_enc_layer ex_env layer x npm slf else raise RuntimeError)\<rparr>)
       ex_sentence ex_position ex_sentence ex_position ex_word_seq ex_word_pos ex_word_dict 1
       None (ex_model_hw, 0)
     = forward ex_env ex_sentence ex_position ex_sentence ex_position ex_word_seq ex_word_pos
         ex_word_dict 1 None (ex_model_hw, 0)
   \<and> fst (forward ex_env ex_sentence ex_position ex_sentence ex_position ex_word_seq
            ex_word_pos ex_word_dict 1 None (ex_model_hw, 0))
     = Inr (Tensor [3, 2, 2, 2]
         [101, 101, 101, 101, 102, 102, 102, 102, 103, 103, 103, 103,
          104, 104, 104, 104, 105, 105, 105, 105, 0, 0, 0, 0])
   \<and> enc_layers ex_env
       [ex_module (EncoderLayer 1 2 8 64 64 0) 0, ex_module (EncoderLayer 1 2 8 64 64 0) 1]
       (Tensor [1, 2, 1] [5, 7]) (Tensor [1, 2, 1] [1, 0]) (Tensor [1, 2, 2] [0, 1, 0, 1]) 0
     = (Inr (Tensor [1, 2, 1] [205, 0]), 2)"
proof -
  have two: "2 \<le> length (shape ex_position)"
    by (simp add: ex_position_def)
  have att: "word_level_attention ex_model_hw"
    by (simp add: ex_model_hw_def)
  let ?seq = "Tensor [2, 3] [1, 3, 5, 2, 4, 6 :: int]"
  let ?slf = "Tensor [2, 3, 3] [0, 0, 0, 0, 0, 0, 0, 0, 0, 0, 0, 1, 0, 0, 1, 0, 0, 1 :: int]"
  let ?npm = "Tensor [2, 3, 1] [1, 1, 1, 1, 1, 0 :: int]"
  let ?f = "\<lambda>layer x npm slf.
             if npm = ?npm \<and> slf = ?slf
             then call_enc_layer ex_env layer x npm slf else raise RuntimeError"
  have seq: "permute ex_word_seq [1, 0] = Inr ?seq"
    by code_simp
  have slf: "get_attn_key_pad_mask ex_env ?seq ?seq ex_word_dict ga = (Inr ?slf, ga)" for ga
  proof -
    have "tabulate [2, 3, 3] (\<lambda>idx. if elem ?seq [idx ! 0, idx ! 2] = ex_pad ex_word_dict
                                       then 1 else 0) = ?slf"
      by code_simp
    then show ?thesis
      by (simp add: ex_env_def ex_get_attn_key_pad_mask_def ret_app)
  qed
  have npm: "get_non_pad_mask ex_env ?seq ex_word_dict ga = (Inr ?npm, ga)" for ga
  proof -
    have "map (\<lambda>v. if v = ex_pad ex_word_dict then 0 else 1) [1, 3, 5, 2, 4, 6] = [1, 1, 1, 1, 1, 0 :: int]"
      by code_simp
    then show ?thesis
      by (simp add: ex_env_def ex_get_non_pad_mask_def ret_app)
  qed
  note facts = forward_masks_fixed [OF two att,
      where env = ex_env and forw_sentence = ex_sentence
        and back_sentence = ex_sentence and back_position = ex_position
        and word_seq = ex_word_seq and word_pos = ex_word_pos and word_dict = ex_word_dict
        and file_no = 1 and hidden = None and g = 0 and f' = ?f
        and layers = "[ex_module (EncoderLayer 1 2 8 64 64 0) 0,
                       ex_module (EncoderLayer 1 2 8 64 64 0) 1]"
        and x = "Tensor [1, 2, 1] [5, 7]" and npm = "Tensor [1, 2, 1] [1, 0]"
        and slf = "Tensor [1, 2, 2] [0, 1, 0, 1]" and ga = 0
        and y = "Tensor [1, 2, 1] [205, 0]" and gb = 2]
  have agree: "\<forall>seq slf' npm' g1 g2 g3 layer x'.
         permute ex_word_seq [1, 0] = Inr seq
         \<and> get_attn_key_pad_mask ex_env seq seq ex_word_dict g1 = (Inr slf', g2)
         \<and> get_non_pad_mask ex_env seq ex_word_dict g2 = (Inr npm', g3)
         \<longrightarrow> ?f layer x' npm' slf' = call_enc_layer ex_env layer x' npm' slf'"
  proof (intro allI impI, elim conjE)
    fix seq slf' npm' g1 g2 g3 layer x'
    assume "permute ex_word_seq [1, 0] = Inr seq"
      and s: "get_attn_key_pad_mask ex_env seq seq ex_word_dict g1 = (Inr slf', g2)"
      and n: "get_non_pad_mask ex_env seq ex_word_dict g2 = (Inr npm', g3)"
    with seq have "seq = ?seq"
      by simp
    with s n slf [of g1] npm [of g2] have "slf' = ?slf" and "npm' = ?npm"
      by simp_all
    then show "?f layer x' npm' slf' = call_enc_layer ex_env layer x' npm' slf'"
      by simp
  qed
  from facts [THEN conjunct2, THEN conjunct2, THEN conjunct2, THEN conjunct2, THEN mp, OF agree]
  have same: "forward (ex_env\<lparr>call_enc_layer := ?f\<rparr>)
       ex_sentence ex_position ex_sentence ex_position ex_word_seq ex_word_pos ex_word_dict 1
       None (ex_model_hw, 0)
     = forward ex_env ex_sentence ex_position ex_sentence ex_position ex_word_seq ex_word_pos
         ex_word_dict 1 None (ex_model_hw, 0)"
    .
  have val: "fst (forward ex_env ex_sentence ex_position ex_sentence ex_position ex_word_seq
            ex_word_pos ex_word_dict 1 None (ex_model_hw, 0))
     = Inr (Tensor [3, 2, 2, 2]
         [101, 101, 101, 101, 102, 102, 102, 102, 103, 103, 103, 103,
          104, 104, 104, 104, 105, 105, 105, 105, 0, 0, 0, 0])"
    by code_simp
  let ?l0 = "ex_module (EncoderLayer 1 2 8 64 64 0) 0"
  let ?l1 = "ex_module (EncoderLayer 1 2 8 64 64 0) 1"
  have step0: "call_enc_layer ex_env ?l0 (Tensor [1, 2, 1] [5, 7]) (Tensor [1, 2, 1] [1, 0])
                 (Tensor [1, 2, 2] [0, 1, 0, 1]) 0
               = (Inr (Tensor [1, 2, 1] [105, 0], Tensor [1, 2, 2] [1, 0, 1, 0]), 1)"
    by code_simp
  have step1: "call_enc_layer ex_env ?l1 (Tensor [1, 2, 1] [105, 0]) (Tensor [1, 2, 1] [1, 0])
                 (Tensor [1, 2, 2] [0, 1, 0, 1]) 1
               = (Inr (Tensor [1, 2, 1] [205, 0], Tensor [1, 2, 2] [1, 0, 1, 0]), 2)"
    by code_simp
  let ?xs = "[Tensor [1, 2, 1] [5, 7], Tensor [1, 2, 1] [105, 0], Tensor [1, 2, 1] [205, 0 :: int]]"
  let ?gs = "[0, 1, 2 :: nat]"
  have "\<forall>i < length [?l0, ?l1]. \<exists>attn.
          call_enc_layer ex_env ([?l0, ?l1] ! i) (?xs ! i) (Tensor [1, 2, 1] [1, 0])
            (Tensor [1, 2, 2] [0, 1, 0, 1]) (?gs ! i)
          = (Inr (?xs ! Suc i, attn), ?gs ! Suc i)"
    using step0 step1 by (auto simp: less_Suc_eq)
  then have "\<exists>xs gs. length xs = Suc (length [?l0, ?l1]) \<and> length gs = Suc (length [?l0, ?l1])
           \<and> xs ! 0 = Tensor [1, 2, 1] [5, 7] \<and> gs ! 0 = 0
           \<and> xs ! length [?l0, ?l1] = Tensor [1, 2, 1] [205, 0]
           \<and> gs ! length [?l0, ?l1] = 2
           \<and> (\<forall>i < length [?l0, ?l1]. \<exists>attn.
                 call_enc_layer ex_env ([?l0, ?l1] ! i) (xs ! i) (Tensor [1, 2, 1] [1, 0])
                   (Tensor [1, 2, 2] [0, 1, 0, 1]) (gs ! i)
                 = (Inr (xs ! Suc i, attn), gs ! Suc i))"
    by (intro exI [of _ ?xs] exI [of _ ?gs]) simp
  with facts [THEN conjunct2, THEN conjunct2, THEN conjunct2, THEN conjunct1]
  have chain: "enc_layers ex_env [?l0, ?l1] (Tensor [1, 2, 1] [5, 7]) (Tensor [1, 2, 1] [1, 0])
                 (Tensor [1, 2, 2] [0, 1, 0, 1]) 0
               = (Inr (Tensor [1, 2, 1] [205, 0]), 2)"
    by blast
  from two att seq slf [of 8] npm [of 8] same val chain show ?thesis
    by (intro conjI)
qed
section \<open>The highway projections\<close>

lemma word_pre_train_forward_run:
  "word_pre_train_forward env sentence position hidden (m, g)
   = ext (lm_scorer env forw_char_lstm forw2word m sentence position) (m, g)"
  by (simp add: word_pre_train_forward_def lm_scorer_def lm_states_def highway_or_id_def
      split_def bnd_assoc bnd_ret bnd_if bnd_app [where c = get_self] get_self_app
      cong: if_cong)

lemma word_pre_train_backward_run:
  "word_pre_train_backward env sentence position hidden (m, g)
   = ext (lm_scorer env back_char_lstm back2word m sentence position) (m, g)"
  by (simp add: word_pre_train_backward_def lm_scorer_def lm_states_def highway_or_id_def
      split_def bnd_assoc bnd_ret bnd_if bnd_app [where c = get_self] get_self_app
      cong: if_cong)







section \<open>The language-model scorers\<close>

lemma lift_Inr_D:
  assumes "lift r s = (Inr x, s')"
  shows "r = Inr x \<and> s' = s"
  using assms by (simp add: lift_def)

lemma size_index_Inr_D:
  assumes "size_index tmp i = Inr d"
  shows "d = int (tmp ! i)"
  using assms by (simp add: size_index_def split: if_splits)


text \<open>
  \<open>view(-1, w)\<close> returns only for a positive width \<open>w\<close>, and then it is the same elements
  in rows of that width.
\<close>

lemma view_rows:
  assumes "view t [- 1, w] = Inr rows"
  shows "0 < w \<and> shape rows = [numel t div nat w, nat w] \<and> data rows = data t"
proof -
  consider "w < - 1" | "w = - 1" | "w = 0" | "0 < w"
    by linarith
  then show ?thesis
  proof cases
    case 1
    with assms show ?thesis by (simp add: view_def)
  next
    case 2
    with assms show ?thesis by (simp add: view_def)
  next
    case 3
    with assms show ?thesis by (simp add: view_def)
  next
    case 4
    with assms have "rows = Tensor [nat (int (numel t) div w), nat w] (data t)"
      by (auto simp: view_def Let_def split: if_splits)
    moreover from 4 have "nat (int (numel t) div w) = numel t div nat w"
      by (simp add: nat_div_distrib)
    ultimately show ?thesis
      using 4 by simp
  qed
qed

text \<open>
  The states at the word boundaries. \<open>position\<close> has the two axes \<open>(words, batch)\<close>; it is
  given a third axis, repeated along it \<open>width\<close> times, and \<open>torch.gather\<close> along axis 0
  takes, for the word \<open>w\<close> of sentence \<open>b\<close>, the state of the LSTM at the character
  \<open>position[w, b]\<close> of that sentence.
\<close>

lemma gather_positions:
  assumes unsq: "unsqueeze position 2 = Inr position1"
    and exp: "expand position1 [int (shape position ! 0), int (shape position ! 1), width]
              = Inr position2"
    and gath: "gather0 lstm_out position2 = Inr select"
    and two: "2 \<le> length (shape position)" and width: "0 \<le> width"
  shows "length (shape position) = 2"
    and "select = tabulate [shape position ! 0, shape position ! 1, nat width]
                    (\<lambda>idx. elem lstm_out [nat (elem position [idx ! 0, idx ! 1]),
                                            idx ! 1, idx ! 2])"
proof -
  from unsq have p1: "position1 = Tensor (take 2 (shape position) @ [1] @ drop 2 (shape position))
                                    (data position)"
    by (simp add: unsqueeze_def split: if_splits)
  from exp have "length (shape position1) \<le> 3"
    by (auto simp: expand_def Let_def split: if_splits)
  with p1 two show len: "length (shape position) = 2"
    by simp
  then obtain W B where sh: "shape position = [W, B]"
    by (cases "shape position"; cases "tl (shape position)") auto
  let ?p1 = "Tensor [W, B, 1] (data position)"
  from p1 sh have p1': "position1 = ?p1"
    by simp
  let ?ix = "\<lambda>idx. elem ?p1 (map2 (\<lambda>d i. if d = 1 then 0 else i) [W, B, 1] idx)"
  from exp width have p2: "position2 = tabulate [W, B, nat width] ?ix"
    unfolding p1' sh by (auto simp: expand_def Let_def split: if_splits)
  have at_pos: "elem position2 idx = elem position [idx ! 0, idx ! 1]"
    if "list_all2 (<) idx [W, B, nat width]" for idx
  proof -
    from that obtain i j k where idx: "idx = [i, j, k]" and "i < W" "j < B"
      by (auto simp: within_3)
    then have "?ix idx = elem position [i, j]"
      by (auto simp: elem_def sh)
    with that show ?thesis
      by (simp add: p2 elem_tabulate idx)
  qed
  let ?goal = "tabulate [W, B, nat width]
                 (\<lambda>idx. elem lstm_out [nat (elem position [idx ! 0, idx ! 1]), idx ! 1, idx ! 2])"
  have shape2: "shape position2 = [W, B, nat width]"
    by (simp add: p2 shape_tabulate)
  have "select = ?goal"
  proof (cases "numel position2 = 0")
    case True
    with gath have "select = Tensor [W, B, nat width] []"
      by (simp add: gather0_def Let_def shape2)
    moreover from True have "prod_list [W, B, nat width] = 0"
      by (simp add: numel_def shape2)
    ultimately show ?thesis
      by (simp only: tabulate_empty)
  next
    case False
    have ind: "at_least_one_axis position2 = position2"
      by (simp add: at_least_one_axis_def shape2)
    from False gath have same: "length (shape (at_least_one_axis lstm_out)) = 3"
      by (auto simp: gather0_def Let_def ind shape2 split: if_splits)
    then have inp: "at_least_one_axis lstm_out = lstm_out"
      by (auto simp: at_least_one_axis_def split: if_splits)
    from False gath have "select = Tensor [W, B, nat width]
        (data (tabulate [W, B, nat width]
                 (\<lambda>idx. elem lstm_out (nat (elem position2 idx) # tl idx))))"
      by (auto simp: gather0_def Let_def ind inp shape2 split: if_splits)
    also have "\<dots> = tabulate [W, B, nat width]
                 (\<lambda>idx. elem lstm_out (nat (elem position2 idx) # tl idx))"
      by (simp add: tabulate_def)
    also have "\<dots> = ?goal"
    proof (rule tabulate_cong)
      fix idx
      assume within: "list_all2 (<) idx [W, B, nat width]"
      then obtain i j k where "idx = [i, j, k]"
        by (auto simp: within_3)
      with at_pos [OF within]
      show "elem lstm_out (nat (elem position2 idx) # tl idx)
            = elem lstm_out [nat (elem position [idx ! 0, idx ! 1]), idx ! 1, idx ! 2]"
        by simp
    qed
    finally show ?thesis .
  qed
  then show "select = tabulate [shape position ! 0, shape position ! 1, nat width]
                    (\<lambda>idx. elem lstm_out [nat (elem position [idx ! 0, idx ! 1]),
                                            idx ! 1, idx ! 2])"
    by (simp add: sh)
qed

text \<open>What a returning scorer went through, step by step.\<close>

lemma size_index_two:
  assumes "size_index tmp 1 = Inr d"
  shows "2 \<le> length tmp"
  using assms by (simp add: size_index_def split: if_splits)

lemma lm_states_D:
  assumes "lm_states env lstm self sentence position g = (Inr (rows, hid), g4)"
  shows "\<exists>embeds g1 d_embeds g2 lstm_out g3 position1 position2 select_lstm_out d_select.
           call_embedding env (char_embeds self) sentence g = (Inr embeds, g1)
         \<and> call env (dropout self) embeds g1 = (Inr d_embeds, g2)
         \<and> call_lstm env (lstm self) d_embeds g2 = (Inr (lstm_out, hid), g3)
         \<and> unsqueeze position 2 = Inr position1
         \<and> 2 \<le> length (shape position)
         \<and> expand position1 [int (shape position ! 0), int (shape position ! 1),
                               char_hidden_dim self] = Inr position2
         \<and> gather0 lstm_out position2 = Inr select_lstm_out
         \<and> call env (dropout self) select_lstm_out g3 = (Inr d_select, g4)
         \<and> view d_select [- 1, char_hidden_dim self] = Inr rows"
proof -
  from bnd_Inr_D [OF assms [unfolded lm_states_def]] obtain embeds g1 where
    e: "call_embedding env (char_embeds self) sentence g = (Inr embeds, g1)"
    and r: "bnd (call env (dropout self) embeds) (\<lambda>d_embeds.
       bnd (call_lstm env (lstm self) d_embeds) (\<lambda>out.
       bnd (lift (unsqueeze position 2)) (\<lambda>position1.
       bnd (lift (size_index (shape position) 0)) (\<lambda>tmpsize0.
       bnd (lift (size_index (shape position) 1)) (\<lambda>tmpsize1.
       bnd (lift (expand position1 [tmpsize0, tmpsize1, char_hidden_dim self])) (\<lambda>position2.
       bnd (lift (gather0 (fst out) position2)) (\<lambda>select_lstm_out.
       bnd (call env (dropout self) select_lstm_out) (\<lambda>d_select.
       bnd (lift (view d_select [- 1, char_hidden_dim self])) (\<lambda>d_lstm_out.
       ret (d_lstm_out, snd out)))))))))) g1 = (Inr (rows, hid), g4)"
    by blast
  from bnd_Inr_D [OF r] obtain d_embeds g2 where
    d: "call env (dropout self) embeds g1 = (Inr d_embeds, g2)"
    and r: "bnd (call_lstm env (lstm self) d_embeds) (\<lambda>out.
       bnd (lift (unsqueeze position 2)) (\<lambda>position1.
       bnd (lift (size_index (shape position) 0)) (\<lambda>tmpsize0.
       bnd (lift (size_index (shape position) 1)) (\<lambda>tmpsize1.
       bnd (lift (expand position1 [tmpsize0, tmpsize1, char_hidden_dim self])) (\<lambda>position2.
       bnd (lift (gather0 (fst out) position2)) (\<lambda>select_lstm_out.
       bnd (call env (dropout self) select_lstm_out) (\<lambda>d_select.
       bnd (lift (view d_select [- 1, char_hidden_dim self])) (\<lambda>d_lstm_out.
       ret (d_lstm_out, snd out))))))))) g2 = (Inr (rows, hid), g4)"
    by blast
  from bnd_Inr_D [OF r] obtain out g3 where
    l: "call_lstm env (lstm self) d_embeds g2 = (Inr out, g3)"
    and r: "bnd (lift (unsqueeze position 2)) (\<lambda>position1.
       bnd (lift (size_index (shape position) 0)) (\<lambda>tmpsize0.
       bnd (lift (size_index (shape position) 1)) (\<lambda>tmpsize1.
       bnd (lift (expand position1 [tmpsize0, tmpsize1, char_hidden_dim self])) (\<lambda>position2.
       bnd (lift (gather0 (fst out) position2)) (\<lambda>select_lstm_out.
       bnd (call env (dropout self) select_lstm_out) (\<lambda>d_select.
       bnd (lift (view d_select [- 1, char_hidden_dim self])) (\<lambda>d_lstm_out.
       ret (d_lstm_out, snd out)))))))) g3 = (Inr (rows, hid), g4)"
    by blast
  from bnd_Inr_D [OF r] obtain position1 s1 where
    "lift (unsqueeze position 2) g3 = (Inr position1, s1)"
    and r: "bnd (lift (size_index (shape position) 0)) (\<lambda>tmpsize0.
       bnd (lift (size_index (shape position) 1)) (\<lambda>tmpsize1.
       bnd (lift (expand position1 [tmpsize0, tmpsize1, char_hidden_dim self])) (\<lambda>position2.
       bnd (lift (gather0 (fst out) position2)) (\<lambda>select_lstm_out.
       bnd (call env (dropout self) select_lstm_out) (\<lambda>d_select.
       bnd (lift (view d_select [- 1, char_hidden_dim self])) (\<lambda>d_lstm_out.
       ret (d_lstm_out, snd out))))))) s1 = (Inr (rows, hid), g4)"
    by blast
  from lift_Inr_D [OF this(1)] have u: "unsqueeze position 2 = Inr position1" and "s1 = g3"
    by simp_all
  from bnd_Inr_D [OF r [unfolded \<open>s1 = g3\<close>]] obtain tmpsize0 s2 where
    "lift (size_index (shape position) 0) g3 = (Inr tmpsize0, s2)"
    and r: "bnd (lift (size_index (shape position) 1)) (\<lambda>tmpsize1.
       bnd (lift (expand position1 [tmpsize0, tmpsize1, char_hidden_dim self])) (\<lambda>position2.
       bnd (lift (gather0 (fst out) position2)) (\<lambda>select_lstm_out.
       bnd (call env (dropout self) select_lstm_out) (\<lambda>d_select.
       bnd (lift (view d_select [- 1, char_hidden_dim self])) (\<lambda>d_lstm_out.
       ret (d_lstm_out, snd out)))))) s2 = (Inr (rows, hid), g4)"
    by blast
  from lift_Inr_D [OF this(1)] have t0: "size_index (shape position) 0 = Inr tmpsize0"
    and "s2 = g3"
    by simp_all
  from bnd_Inr_D [OF r [unfolded \<open>s2 = g3\<close>]] obtain tmpsize1 s3 where
    "lift (size_index (shape position) 1) g3 = (Inr tmpsize1, s3)"
    and r: "bnd (lift (expand position1 [tmpsize0, tmpsize1, char_hidden_dim self])) (\<lambda>position2.
       bnd (lift (gather0 (fst out) position2)) (\<lambda>select_lstm_out.
       bnd (call env (dropout self) select_lstm_out) (\<lambda>d_select.
       bnd (lift (view d_select [- 1, char_hidden_dim self])) (\<lambda>d_lstm_out.
       ret (d_lstm_out, snd out))))) s3 = (Inr (rows, hid), g4)"
    by blast
  from lift_Inr_D [OF this(1)] have t1: "size_index (shape position) 1 = Inr tmpsize1"
    and "s3 = g3"
    by simp_all
  from bnd_Inr_D [OF r [unfolded \<open>s3 = g3\<close>]] obtain position2 s4 where
    "lift (expand position1 [tmpsize0, tmpsize1, char_hidden_dim self]) g3 = (Inr position2, s4)"
    and r: "bnd (lift (gather0 (fst out) position2)) (\<lambda>select_lstm_out.
       bnd (call env (dropout self) select_lstm_out) (\<lambda>d_select.
       bnd (lift (view d_select [- 1, char_hidden_dim self])) (\<lambda>d_lstm_out.
       ret (d_lstm_out, snd out)))) s4 = (Inr (rows, hid), g4)"
    by blast
  from lift_Inr_D [OF this(1)]
  have x: "expand position1 [tmpsize0, tmpsize1, char_hidden_dim self] = Inr position2"
    and "s4 = g3"
    by simp_all
  from bnd_Inr_D [OF r [unfolded \<open>s4 = g3\<close>]] obtain select_lstm_out s5 where
    "lift (gather0 (fst out) position2) g3 = (Inr select_lstm_out, s5)"
    and r: "bnd (call env (dropout self) select_lstm_out) (\<lambda>d_select.
       bnd (lift (view d_select [- 1, char_hidden_dim self])) (\<lambda>d_lstm_out.
       ret (d_lstm_out, snd out))) s5 = (Inr (rows, hid), g4)"
    by blast
  from lift_Inr_D [OF this(1)] have ga: "gather0 (fst out) position2 = Inr select_lstm_out"
    and "s5 = g3"
    by simp_all
  from bnd_Inr_D [OF r [unfolded \<open>s5 = g3\<close>]] obtain d_select s6 where
    dr: "call env (dropout self) select_lstm_out g3 = (Inr d_select, s6)"
    and r: "bnd (lift (view d_select [- 1, char_hidden_dim self])) (\<lambda>d_lstm_out.
       ret (d_lstm_out, snd out)) s6 = (Inr (rows, hid), g4)"
    by blast
  from bnd_Inr_D [OF r] obtain d_lstm_out s7 where
    "lift (view d_select [- 1, char_hidden_dim self]) s6 = (Inr d_lstm_out, s7)"
    and "ret (d_lstm_out, snd out) s7 = (Inr (rows, hid), g4)"
    by blast
  with lift_Inr_D [OF this(1)]
  have v: "view d_select [- 1, char_hidden_dim self] = Inr rows"
    and "snd out = hid" and "s6 = g4"
    by (simp_all add: ret_app)
  then have out: "out = (fst out, hid)"
    by (metis prod.collapse)
  from l out have l': "call_lstm env (lstm self) d_embeds g2 = (Inr (fst out, hid), g3)"
    by simp
  from x size_index_Inr_D [OF t0] size_index_Inr_D [OF t1]
  have x': "expand position1 [int (shape position ! 0), int (shape position ! 1),
                               char_hidden_dim self] = Inr position2"
    by simp
  from e d l' u size_index_two [OF t1] x' ga dr [unfolded \<open>s6 = g4\<close>] v
  show ?thesis
    by blast
qed

lemma lm_scorer_chain:
  assumes "lm_scorer env lstm block self sentence position g = (Inr (score, hid), g')"
  shows "\<exists>embeds g1 d_embeds g2 lstm_out g3 d_select g4 rows d_char_out g5.
           call_embedding env (char_embeds self) sentence g = (Inr embeds, g1)
         \<and> call env (dropout self) embeds g1 = (Inr d_embeds, g2)
         \<and> call_lstm env (lstm self) d_embeds g2 = (Inr (lstm_out, hid), g3)
         \<and> length (shape position) = 2 \<and> 0 < char_hidden_dim self
         \<and> call env (dropout self)
             (tabulate [shape position ! 0, shape position ! 1, nat (char_hidden_dim self)]
                (\<lambda>idx. elem lstm_out [nat (elem position [idx ! 0, idx ! 1]),
                                        idx ! 1, idx ! 2])) g3
           = (Inr d_select, g4)
         \<and> view d_select [- 1, char_hidden_dim self] = Inr rows
         \<and> shape rows = [numel d_select div nat (char_hidden_dim self),
                          nat (char_hidden_dim self)]
         \<and> data rows = data d_select
         \<and> highway_or_id env self block rows g4 = (Inr d_char_out, g5)
         \<and> call env (word_pre_train_out self) d_char_out g5 = (Inr score, g')"
proof -
  from bnd_Inr_D [OF assms [unfolded lm_scorer_def]] obtain states g4 where
    states: "lm_states env lstm self sentence position g = (Inr states, g4)"
    and rest: "bnd (highway_or_id env self block (fst states)) (\<lambda>d_char_out.
               bnd (call env (word_pre_train_out self) d_char_out) (\<lambda>pre_score.
               ret (pre_score, snd states))) g4 = (Inr (score, hid), g')"
    by blast
  from bnd_Inr_D [OF rest] obtain d_char_out g5 where
    hw: "highway_or_id env self block (fst states) g4 = (Inr d_char_out, g5)"
    and "bnd (call env (word_pre_train_out self) d_char_out) (\<lambda>pre_score.
           ret (pre_score, snd states)) g5 = (Inr (score, hid), g')"
    by blast
  from bnd_Inr_D [OF this(2)] obtain pre_score g6 where
    proj: "call env (word_pre_train_out self) d_char_out g5 = (Inr pre_score, g6)"
    and "ret (pre_score, snd states) g6 = (Inr (score, hid), g')"
    by blast
  then have eqs: "pre_score = score" "snd states = hid" "g6 = g'"
    by (simp_all add: ret_app)
  then have "states = (fst states, hid)"
    by (metis prod.collapse)
  with states have "lm_states env lstm self sentence position g = (Inr (fst states, hid), g4)"
    by simp
  from lm_states_D [OF this] obtain embeds g1 d_embeds g2 lstm_out g3 position1 position2
      select_lstm_out d_select where
    steps: "call_embedding env (char_embeds self) sentence g = (Inr embeds, g1)"
      "call env (dropout self) embeds g1 = (Inr d_embeds, g2)"
      "call_lstm env (lstm self) d_embeds g2 = (Inr (lstm_out, hid), g3)"
    and unsq: "unsqueeze position 2 = Inr position1"
    and two: "2 \<le> length (shape position)"
    and exp: "expand position1 [int (shape position ! 0), int (shape position ! 1),
                               char_hidden_dim self] = Inr position2"
    and gath: "gather0 lstm_out position2 = Inr select_lstm_out"
    and drop: "call env (dropout self) select_lstm_out g3 = (Inr d_select, g4)"
    and view: "view d_select [- 1, char_hidden_dim self] = Inr (fst states)"
    by blast
  from view_rows [OF view] have width: "0 < char_hidden_dim self"
    and rows: "shape (fst states) = [numel d_select div nat (char_hidden_dim self),
                                     nat (char_hidden_dim self)]"
      "data (fst states) = data d_select"
    by simp_all
  from width have "0 \<le> char_hidden_dim self"
    by simp
  note sel = gather_positions [OF unsq exp gath two this]
  from steps sel(1) width drop [unfolded sel(2)] view rows hw proj [unfolded eqs]
  show ?thesis
    by blast
qed

lemma scorer_width:
  assumes lin: "\<forall>i out ps x ga y gb.
            call env (Module (Linear i out) ps) x ga = (Inr y, gb)
            \<longrightarrow> shape y \<noteq> [] \<and> last (shape y) = nat out"
    and kind: "kind (word_pre_train_out m) = Linear i in_doc_words"
    and run: "ext (lm_scorer env lstm block m sentence position) (m, g) = (Inr (score, hid), st')"
  shows "last (shape score) = nat in_doc_words"
proof -
  from ext_Inr_D [OF run] obtain g' where
    "lm_scorer env lstm block m sentence position g = (Inr (score, hid), g')"
    by blast
  from lm_scorer_chain [OF this] obtain d_char_out g5 where
    proj: "call env (word_pre_train_out m) d_char_out g5 = (Inr score, g')"
    by blast
  from kind have "word_pre_train_out m = Module (Linear i in_doc_words) (params (word_pre_train_out m))"
    by (cases "word_pre_train_out m") simp
  with proj have "call env (Module (Linear i in_doc_words) (params (word_pre_train_out m)))
                    d_char_out g5 = (Inr score, g')"
    by simp
  with lin show ?thesis
    by blast
qed

text \<open>
  C7. Both scorers are the same computation over one model, \<open>word_pre_train_forward\<close> on
  the forward character LSTM and \<open>forw2word\<close>, \<open>word_pre_train_backward\<close> on the backward
  one and \<open>back2word\<close>. A scorer that returns went through these steps, each on the result
  and the generator state of the one before: the sentence embedded by \<open>char_embeds\<close>,
  dropout, the character LSTM; the states of the LSTM gathered at the positions, which
  have the two axes \<open>(words, batch)\<close> (the state for the word \<open>w\<close> of sentence \<open>b\<close> is the
  output of the LSTM at character \<open>position[w, b]\<close> of that sentence); dropout; these
  states as rows of width \<open>char_hidden_dim\<close>; the highway block when \<open>if_highway\<close> is set;
  and the projection \<open>word_pre_train_out\<close> of these rows. It returns the projection's output
  with the hidden state that the LSTM returned, and the model is not changed. The gather
  itself returns these states whenever the positions are characters of the sequence: for
  positions \<open>(W, B)\<close> below \<open>L\<close> and LSTM states \<open>(L, B, H)\<close>, \<open>unsqueeze\<close>, \<open>expand\<close> and
  \<open>torch.gather\<close> return the tensor \<open>(W, B, H)\<close> with \<open>states[pos[w, b], b, k]\<close> at
  \<open>[w, b, k]\<close>. \<open>__init__\<close> builds \<open>word_pre_train_out\<close> as a linear layer from
  \<open>char_hidden_dim\<close> to \<open>in_doc_words\<close>; where the library's linear layer returns tensors
  whose last dimension is its number of output features, the score has width
  \<open>in_doc_words\<close>.
\<close>

theorem language_model_scorers:
  "word_pre_train_forward env sentence position hidden (m, g)
     = ext (lm_scorer env forw_char_lstm forw2word m sentence position) (m, g)
 \<and> word_pre_train_backward env sentence position hidden (m, g)
     = ext (lm_scorer env back_char_lstm back2word m sentence position) (m, g)
 \<and> (word_pre_train_forward env sentence position hidden (m, g) = (Inr (score, hid), st')
    \<longrightarrow> (\<exists>embeds g1 d_embeds g2 lstm_out g3 d_select g4 rows d_char_out g5 g6.
            call_embedding env (char_embeds m) sentence g = (Inr embeds, g1)
          \<and> call env (dropout m) embeds g1 = (Inr d_embeds, g2)
          \<and> call_lstm env (forw_char_lstm m) d_embeds g2 = (Inr (lstm_out, hid), g3)
          \<and> length (shape position) = 2 \<and> 0 < char_hidden_dim m
          \<and> call env (dropout m)
              (tabulate [shape position ! 0, shape position ! 1, nat (char_hidden_dim m)]
                 (\<lambda>idx. elem lstm_out [nat (elem position [idx ! 0, idx ! 1]),
                                         idx ! 1, idx ! 2])) g3
            = (Inr d_select, g4)
          \<and> view d_select [- 1, char_hidden_dim m] = Inr rows
          \<and> shape rows = [numel d_select div nat (char_hidden_dim m),
                           nat (char_hidden_dim m)]
          \<and> data rows = data d_select
          \<and> highway_or_id env m forw2word rows g4 = (Inr d_char_out, g5)
          \<and> call env (word_pre_train_out m) d_char_out g5 = (Inr score, g6)
          \<and> st' = (m, g6)))
 \<and> (word_pre_train_backward env sentence position hidden (m, g) = (Inr (score, hid), st')
    \<longrightarrow> (\<exists>embeds g1 d_embeds g2 lstm_out g3 d_select g4 rows d_char_out g5 g6.
            call_embedding env (char_embeds m) sentence g = (Inr embeds, g1)
          \<and> call env (dropout m) embeds g1 = (Inr d_embeds, g2)
          \<and> call_lstm env (back_char_lstm m) d_embeds g2 = (Inr (lstm_out, hid), g3)
          \<and> length (shape position) = 2 \<and> 0 < char_hidden_dim m
          \<and> call env (dropout m)
              (tabulate [shape position ! 0, shape position ! 1, nat (char_hidden_dim m)]
                 (\<lambda>idx. elem lstm_out [nat (elem position [idx ! 0, idx ! 1]),
                                         idx ! 1, idx ! 2])) g3
            = (Inr d_select, g4)
          \<and> view d_select [- 1, char_hidden_dim m] = Inr rows
          \<and> shape rows = [numel d_select div nat (char_hidden_dim m),
                           nat (char_hidden_dim m)]
          \<and> data rows = data d_select
          \<and> highway_or_id env m back2word rows g4 = (Inr d_char_out, g5)
          \<and> call env (word_pre_train_out m) d_char_out g5 = (Inr score, g6)
          \<and> st' = (m, g6)))
 \<and> (shape pos = [W, B] \<and> length (data pos) = W * B \<and> shape states = [L, B, H]
    \<and> (\<forall>v \<in> set (data pos). 0 \<le> v \<and> v < int L)
    \<longrightarrow> (\<exists>position1 position2.
           unsqueeze pos 2 = Inr position1
         \<and> expand position1 [int W, int B, int H] = Inr position2
         \<and> gather0 states position2
           = Inr (tabulate [W, B, H]
                    (\<lambda>idx. elem states [nat (elem pos [idx ! 0, idx ! 1]),
                                         idx ! 1, idx ! 2]))))
 \<and> (init env tagset_size' char_size' char_dim' char_hidden_dim' char_rnn_layers'
       embedding_dim word_hidden_dim' word_rnn_layers' vocab_size dropout_ratio file_num
       len_max_seq n_layers n_head d_k d_v large_CRF if_highway' in_doc_words
       highway_layers word_level_attention' g0 = (Inr m, g1)
    \<longrightarrow> kind (word_pre_train_out m) = Linear char_hidden_dim' in_doc_words
      \<and> kind (char_embeds m) = Embedding char_size' char_dim' False
      \<and> kind (forw_char_lstm m)
          = LSTM char_dim' char_hidden_dim' char_rnn_layers' False dropout_ratio
      \<and> kind (back_char_lstm m)
          = LSTM char_dim' char_hidden_dim' char_rnn_layers' False dropout_ratio
      \<and> ((\<forall>i out ps x ga y gb.
             call env (Module (Linear i out) ps) x ga = (Inr y, gb)
             \<longrightarrow> shape y \<noteq> [] \<and> last (shape y) = nat out)
          \<longrightarrow> (word_pre_train_forward env sentence position hidden (m, g)
                 = (Inr (score, hid), st')
               \<longrightarrow> last (shape score) = nat in_doc_words)
            \<and> (word_pre_train_backward env sentence position hidden (m, g)
                 = (Inr (score, hid), st')
               \<longrightarrow> last (shape score) = nat in_doc_words)))"
proof (intro conjI impI)
  show "word_pre_train_forward env sentence position hidden (m, g)
     = ext (lm_scorer env forw_char_lstm forw2word m sentence position) (m, g)"
    by (rule word_pre_train_forward_run)
  show "word_pre_train_backward env sentence position hidden (m, g)
     = ext (lm_scorer env back_char_lstm back2word m sentence position) (m, g)"
    by (rule word_pre_train_backward_run)
next
  assume "word_pre_train_forward env sentence position hidden (m, g) = (Inr (score, hid), st')"
  then have "ext (lm_scorer env forw_char_lstm forw2word m sentence position) (m, g)
             = (Inr (score, hid), st')"
    by (simp add: word_pre_train_forward_run)
  from ext_Inr_D [OF this] obtain g' where
    run: "lm_scorer env forw_char_lstm forw2word m sentence position g = (Inr (score, hid), g')"
    and st: "st' = (m, g')"
    by blast
  from lm_scorer_chain [OF run] st
  show "\<exists>embeds g1 d_embeds g2 lstm_out g3 d_select g4 rows d_char_out g5 g6.
            call_embedding env (char_embeds m) sentence g = (Inr embeds, g1)
          \<and> call env (dropout m) embeds g1 = (Inr d_embeds, g2)
          \<and> call_lstm env (forw_char_lstm m) d_embeds g2 = (Inr (lstm_out, hid), g3)
          \<and> length (shape position) = 2 \<and> 0 < char_hidden_dim m
          \<and> call env (dropout m)
              (tabulate [shape position ! 0, shape position ! 1, nat (char_hidden_dim m)]
                 (\<lambda>idx. elem lstm_out [nat (elem position [idx ! 0, idx ! 1]),
                                         idx ! 1, idx ! 2])) g3
            = (Inr d_select, g4)
          \<and> view d_select [- 1, char_hidden_dim m] = Inr rows
          \<and> shape rows = [numel d_select div nat (char_hidden_dim m),
                           nat (char_hidden_dim m)]
          \<and> data rows = data d_select
          \<and> highway_or_id env m forw2word rows g4 = (Inr d_char_out, g5)
          \<and> call env (word_pre_train_out m) d_char_out g5 = (Inr score, g6)
          \<and> st' = (m, g6)"
    by blast
next
  assume "word_pre_train_backward env sentence position hidden (m, g) = (Inr (score, hid), st')"
  then have "ext (lm_scorer env back_char_lstm back2word m sentence position) (m, g)
             = (Inr (score, hid), st')"
    by (simp add: word_pre_train_backward_run)
  from ext_Inr_D [OF this] obtain g' where
    run: "lm_scorer env back_char_lstm back2word m sentence position g = (Inr (score, hid), g')"
    and st: "st' = (m, g')"
    by blast
  from lm_scorer_chain [OF run] st
  show "\<exists>embeds g1 d_embeds g2 lstm_out g3 d_select g4 rows d_char_out g5 g6.
            call_embedding env (char_embeds m) sentence g = (Inr embeds, g1)
          \<and> call env (dropout m) embeds g1 = (Inr d_embeds, g2)
          \<and> call_lstm env (back_char_lstm m) d_embeds g2 = (Inr (lstm_out, hid), g3)
          \<and> length (shape position) = 2 \<and> 0 < char_hidden_dim m
          \<and> call env (dropout m)
              (tabulate [shape position ! 0, shape position ! 1, nat (char_hidden_dim m)]
                 (\<lambda>idx. elem lstm_out [nat (elem position [idx ! 0, idx ! 1]),
                                         idx ! 1, idx ! 2])) g3
            = (Inr d_select, g4)
          \<and> view d_select [- 1, char_hidden_dim m] = Inr rows
          \<and> shape rows = [numel d_select div nat (char_hidden_dim m),
                           nat (char_hidden_dim m)]
          \<and> data rows = data d_select
          \<and> highway_or_id env m back2word rows g4 = (Inr d_char_out, g5)
          \<and> call env (word_pre_train_out m) d_char_out g5 = (Inr score, g6)
          \<and> st' = (m, g6)"
    by blast
next
  assume "shape pos = [W, B] \<and> length (data pos) = W * B \<and> shape states = [L, B, H]
    \<and> (\<forall>v \<in> set (data pos). 0 \<le> v \<and> v < int L)"
  then have sh: "shape pos = [W, B]" and len: "length (data pos) = W * B"
    and out: "shape states = [L, B, H]"
    and range: "\<forall>v \<in> set (data pos). 0 \<le> v \<and> v < int L"
    by simp_all
  show "\<exists>position1 position2.
           unsqueeze pos 2 = Inr position1
         \<and> expand position1 [int W, int B, int H] = Inr position2
         \<and> gather0 states position2
           = Inr (tabulate [W, B, H]
                    (\<lambda>idx. elem states [nat (elem pos [idx ! 0, idx ! 1]),
                                         idx ! 1, idx ! 2]))"
  proof -
    let ?p1 = "Tensor [W, B, 1] (data pos)"
    let ?ix = "\<lambda>idx. elem ?p1 (map2 (\<lambda>d i. if d = 1 then 0 else i) [W, B, 1] idx)"
    let ?p2 = "tabulate [W, B, H] ?ix"
    let ?goal = "tabulate [W, B, H]
                   (\<lambda>idx. elem states [nat (elem pos [idx ! 0, idx ! 1]), idx ! 1, idx ! 2])"
    have unsq: "unsqueeze pos 2 = Inr ?p1"
      by (simp add: unsqueeze_def sh)
    have exp: "expand ?p1 [int W, int B, int H] = Inr ?p2"
      by (simp add: expand_def Let_def)
    have at_pos: "?ix idx = elem pos [idx ! 0, idx ! 1]
                  \<and> ravel [W, B] [idx ! 0, idx ! 1] < W * B"
      if "list_all2 (<) idx [W, B, H]" for idx
    proof -
      from that obtain i j k where idx: "idx = [i, j, k]" and ij: "i < W" "j < B"
        by (auto simp: within_3)
      from ij have "list_all2 (<) [i, j] [W, B]"
        by simp
      from ravel_less [OF this] ij show ?thesis
        by (auto simp: elem_def sh idx)
    qed
    have elems: "elem ?p2 idx = elem pos [idx ! 0, idx ! 1]"
      if "list_all2 (<) idx [W, B, H]" for idx
      using at_pos [OF that] by (simp add: elem_tabulate [OF that])
    have in_range: "\<not> list_ex (\<lambda>v. v < 0 \<or> int L \<le> v) (data ?p2)"
    proof -
      have "0 \<le> v \<and> v < int L" if "v \<in> set (data ?p2)" for v
      proof -
        from that have "v \<in> (\<lambda>n. ?ix (unravel [W, B, H] n)) ` {0..<prod_list [W, B, H]}"
          by (simp only: tabulate_def tensor.sel set_map set_upt)
        then obtain n where "n \<in> {0..<prod_list [W, B, H]}"
          and v: "v = ?ix (unravel [W, B, H] n)"
          by (rule imageE)
        then have "n < prod_list [W, B, H]"
          by (simp only: atLeastLessThan_iff)
        from at_pos [OF unravel_within [OF this]] len
        have "?ix (unravel [W, B, H] n) \<in> set (data pos)"
          by (simp add: elem_def sh)
        with range v show ?thesis
          by blast
      qed
      then show ?thesis
        unfolding list_ex_iff by fastforce
    qed
    have "gather0 states ?p2 = Inr ?goal"
    proof (cases "numel ?p2 = 0")
      case True
      then have "prod_list [W, B, H] = 0"
        by (simp add: numel_def shape_tabulate)
      then have "?goal = Tensor [W, B, H] []"
        by (simp only: tabulate_empty)
      with True show ?thesis
        by (simp add: gather0_def Let_def shape_tabulate)
    next
      case False
      have "tabulate [W, B, H] (\<lambda>idx. elem states (nat (elem ?p2 idx) # tl idx)) = ?goal"
      proof (rule tabulate_cong)
        fix idx
        assume within: "list_all2 (<) idx [W, B, H]"
        then obtain i j k where "idx = [i, j, k]"
          by (auto simp: within_3)
        with elems [OF within]
        show "elem states (nat (elem ?p2 idx) # tl idx)
              = elem states [nat (elem pos [idx ! 0, idx ! 1]), idx ! 1, idx ! 2]"
          by simp
      qed
      moreover have "Tensor [W, B, H]
                       (data (tabulate [W, B, H]
                                (\<lambda>idx. elem states (nat (elem ?p2 idx) # tl idx))))
                     = tabulate [W, B, H] (\<lambda>idx. elem states (nat (elem ?p2 idx) # tl idx))"
        by (simp add: tabulate_def)
      ultimately show ?thesis
        using False in_range
        by (simp add: gather0_def Let_def at_least_one_axis_def shape_tabulate out)
    qed
    with unsq exp show ?thesis
      by blast
  qed
next
  assume built: "init env tagset_size' char_size' char_dim' char_hidden_dim' char_rnn_layers'
       embedding_dim word_hidden_dim' word_rnn_layers' vocab_size dropout_ratio file_num
       len_max_seq n_layers n_head d_k d_v large_CRF if_highway' in_doc_words
       highway_layers word_level_attention' g0 = (Inr m, g1)"
  from init_D [OF built] obtain s1 s2 s3 s9 s10 where
    "new_module env (Embedding char_size' char_dim' False) g0 = (Inr (char_embeds m), s1)"
    "new_module env (LSTM char_dim' char_hidden_dim' char_rnn_layers' False dropout_ratio) s1
       = (Inr (forw_char_lstm m), s2)"
    "new_module env (LSTM char_dim' char_hidden_dim' char_rnn_layers' False dropout_ratio) s2
       = (Inr (back_char_lstm m), s3)"
    "new_module env (Linear char_hidden_dim' in_doc_words) s9
       = (Inr (word_pre_train_out m), s10)"
    by blast
  then show proj: "kind (word_pre_train_out m) = Linear char_hidden_dim' in_doc_words"
    and "kind (char_embeds m) = Embedding char_size' char_dim' False"
    and "kind (forw_char_lstm m)
          = LSTM char_dim' char_hidden_dim' char_rnn_layers' False dropout_ratio"
    and "kind (back_char_lstm m)
          = LSTM char_dim' char_hidden_dim' char_rnn_layers' False dropout_ratio"
    by (simp_all add: new_module_kind)
  assume lin: "\<forall>i out ps x ga y gb.
             call env (Module (Linear i out) ps) x ga = (Inr y, gb)
             \<longrightarrow> shape y \<noteq> [] \<and> last (shape y) = nat out"
  show "last (shape score) = nat in_doc_words"
    if "word_pre_train_forward env sentence position hidden (m, g) = (Inr (score, hid), st')"
    using scorer_width [OF lin proj] that by (simp add: word_pre_train_forward_run)
  show "last (shape score) = nat in_doc_words"
    if "word_pre_train_backward env sentence position hidden (m, g) = (Inr (score, hid), st')"
    using scorer_width [OF lin proj] that by (simp add: word_pre_train_backward_run)
qed

text \<open>
  On the example model, built with \<open>in_doc_words = 3\<close>, both scorers return six rows of
  width 3 for three words in two sentences, each row filled with the character at the
  boundary of its word, and the hidden state of one layer for two sentences. With a
  module that is no LSTM in \<open>back_char_lstm\<close> the forward scorer returns the same and the
  backward scorer raises.
\<close>

theorem language_model_scorers_witness:
  "ex_init True True 0 = (Inr ex_model_hw, 17)
   \<and> kind (word_pre_train_out ex_model_hw) = Linear 1 3
   \<and> fst (word_pre_train_forward ex_env ex_sentence ex_position None (ex_model_hw, 0))
     = Inr (Tensor [6, 3] [0, 0, 0, 0, 0, 0, 1, 1, 1, 1, 1, 1, 2, 2, 2, 2, 2, 2],
            Tensor [1, 2, 1] [0, 0], Tensor [1, 2, 1] [0, 0])
   \<and> fst (word_pre_train_backward ex_env ex_sentence ex_position None (ex_model_hw, 0))
     = Inr (Tensor [6, 3] [0, 0, 0, 0, 0, 0, 1, 1, 1, 1, 1, 1, 2, 2, 2, 2, 2, 2],
            Tensor [1, 2, 1] [0, 0], Tensor [1, 2, 1] [0, 0])
   \<and> last (shape (Tensor [6, 3] [0, 0, 0, 0, 0, 0, 1, 1, 1, 1, 1, 1, 2, 2, 2, 2, 2, 2] :: int tensor))
     = nat 3
   \<and> fst (snd (word_pre_train_forward ex_env ex_sentence ex_position None (ex_model_hw, 0)))
     = ex_model_hw
   \<and> length (shape ex_position) = 2 \<and> 0 < char_hidden_dim ex_model_hw
   \<and> (\<exists>position1 position2.
          unsqueeze ex_position 2 = Inr position1
        \<and> expand position1 [3, 2, 1] = Inr position2
        \<and> gather0 (Tensor [4, 2, 1] [0, 1, 2, 0, 1, 2, 3, 4 :: int]) position2
          = Inr (Tensor [3, 2, 1] [0, 0, 1, 1, 2, 2]))
   \<and> gather0 (Tensor [4, 2, 1] [0, 1, 2, 0, 1, 2, 3, 4 :: int])
       (Tensor [3, 2, 1] [0, 1, 2, 0, 1, 2])
     = Inr (Tensor [3, 2, 1] [0, 0, 1, 1, 2, 2])
   \<and> fst (word_pre_train_forward ex_env ex_sentence ex_position None
            (ex_model_hw\<lparr>back_char_lstm := ex_module (Linear 1 1) 0\<rparr>, 0))
     = Inr (Tensor [6, 3] [0, 0, 0, 0, 0, 0, 1, 1, 1, 1, 1, 1, 2, 2, 2, 2, 2, 2],
            Tensor [1, 2, 1] [0, 0], Tensor [1, 2, 1] [0, 0])
   \<and> fst (word_pre_train_backward ex_env ex_sentence ex_position None
            (ex_model_hw\<lparr>back_char_lstm := ex_module (Linear 1 1) 0\<rparr>, 0))
     = Inl RuntimeError"
proof -
  let ?score = "Tensor [6, 3] [0, 0, 0, 0, 0, 0, 1, 1, 1, 1, 1, 1, 2, 2, 2, 2, 2, 2] :: int tensor"
  let ?hid = "(Tensor [1, 2, 1] [0, 0 :: int], Tensor [1, 2, 1] [0, 0 :: int])"
  have v_forw: "fst (word_pre_train_forward ex_env ex_sentence ex_position None (ex_model_hw, 0))
     = Inr (Tensor [6, 3] [0, 0, 0, 0, 0, 0, 1, 1, 1, 1, 1, 1, 2, 2, 2, 2, 2, 2],
            Tensor [1, 2, 1] [0, 0], Tensor [1, 2, 1] [0, 0])"
    by code_simp
  have v_back: "fst (word_pre_train_backward ex_env ex_sentence ex_position None (ex_model_hw, 0))
     = Inr (Tensor [6, 3] [0, 0, 0, 0, 0, 0, 1, 1, 1, 1, 1, 1, 2, 2, 2, 2, 2, 2],
            Tensor [1, 2, 1] [0, 0], Tensor [1, 2, 1] [0, 0])"
    by code_simp
  have v_forw2: "fst (word_pre_train_forward ex_env ex_sentence ex_position None
            (ex_model_hw\<lparr>back_char_lstm := ex_module (Linear 1 1) 0\<rparr>, 0))
     = Inr (Tensor [6, 3] [0, 0, 0, 0, 0, 0, 1, 1, 1, 1, 1, 1, 2, 2, 2, 2, 2, 2],
            Tensor [1, 2, 1] [0, 0], Tensor [1, 2, 1] [0, 0])"
    by code_simp
  have v_back2: "fst (word_pre_train_backward ex_env ex_sentence ex_position None
            (ex_model_hw\<lparr>back_char_lstm := ex_module (Linear 1 1) 0\<rparr>, 0))
     = Inl RuntimeError"
    by code_simp
  have gath: "gather0 (Tensor [4, 2, 1] [0, 1, 2, 0, 1, 2, 3, 4 :: int])
       (Tensor [3, 2, 1] [0, 1, 2, 0, 1, 2])
     = Inr (Tensor [3, 2, 1] [0, 0, 1, 1, 2, 2])"
    by code_simp
  obtain st' where run:
    "word_pre_train_forward ex_env ex_sentence ex_position None (ex_model_hw, 0)
     = (Inr (?score, ?hid), st')"
    using v_forw by (metis prod.collapse)
  note facts = language_model_scorers [
      where env = ex_env and sentence = ex_sentence and position = ex_position
        and hidden = None and m = ex_model_hw and g = 0 and score = ?score and hid = ?hid
        and st' = st' and pos = ex_position
        and states = "Tensor [4, 2, 1] [0, 1, 2, 0, 1, 2, 3, 4]"
        and W = 3 and B = 2 and L = 4 and H = 1]
  from facts [THEN conjunct2, THEN conjunct2, THEN conjunct1, THEN mp, OF run]
  have unchanged: "fst st' = ex_model_hw"
    and pos: "length (shape ex_position) = 2" and width_pos: "0 < char_hidden_dim ex_model_hw"
    by auto
  have "shape ex_position = [3, 2] \<and> length (data ex_position) = 3 * 2
        \<and> shape (Tensor [4, 2, 1] [0, 1, 2, 0, 1, 2, 3, 4 :: int]) = [4, 2, 1]
        \<and> (\<forall>v \<in> set (data ex_position). 0 \<le> v \<and> v < int 4)"
    by (simp add: ex_position_def)
  from facts [THEN conjunct2, THEN conjunct2, THEN conjunct2, THEN conjunct2, THEN conjunct1,
      THEN mp, OF this]
  obtain position1 position2 where
    "unsqueeze ex_position 2 = Inr position1"
    "expand position1 [3, 2, 1] = Inr position2"
    "gather0 (Tensor [4, 2, 1] [0, 1, 2, 0, 1, 2, 3, 4 :: int]) position2
     = Inr (tabulate [3, 2, 1]
              (\<lambda>idx. elem (Tensor [4, 2, 1] [0, 1, 2, 0, 1, 2, 3, 4 :: int])
                       [nat (elem ex_position [idx ! 0, idx ! 1]), idx ! 1, idx ! 2]))"
    by auto
  moreover have "tabulate [3, 2, 1]
       (\<lambda>idx. elem (Tensor [4, 2, 1] [0, 1, 2, 0, 1, 2, 3, 4 :: int])
                [nat (elem ex_position [idx ! 0, idx ! 1]), idx ! 1, idx ! 2])
     = Tensor [3, 2, 1] [0, 0, 1, 1, 2, 2]"
    by code_simp
  ultimately have states: "\<exists>position1 position2.
          unsqueeze ex_position 2 = Inr position1
        \<and> expand position1 [3, 2, 1] = Inr position2
        \<and> gather0 (Tensor [4, 2, 1] [0, 1, 2, 0, 1, 2, 3, 4 :: int]) position2
          = Inr (Tensor [3, 2, 1] [0, 0, 1, 1, 2, 2])"
    by auto
  note built = facts [THEN conjunct2, THEN conjunct2, THEN conjunct2, THEN conjunct2,
      THEN conjunct2, THEN mp, OF ex_init_hw [unfolded ex_init_def]]
  from built have proj: "kind (word_pre_train_out ex_model_hw) = Linear 1 3"
    by blast
  have lin: "\<forall>i out ps x ga y gb.
     call ex_env (Module (Linear i out) ps) x ga = (Inr y, gb)
     \<longrightarrow> shape y \<noteq> [] \<and> last (shape y) = nat out"
    by (auto simp: ex_env_def ex_call_def ret_app raise_app split: if_splits)
  from built [THEN conjunct2, THEN conjunct2, THEN conjunct2, THEN conjunct2, THEN mp,
      OF lin, THEN conjunct1, THEN mp, OF run]
  have width: "last (shape ?score) = nat 3" .
  from unchanged run have same:
    "fst (snd (word_pre_train_forward ex_env ex_sentence ex_position None (ex_model_hw, 0)))
     = ex_model_hw"
    by simp
  from ex_init_hw proj v_forw v_back width same pos width_pos states gath v_forw2 v_back2
  show ?thesis
    by (intro conjI)
qed
section \<open>Random initialisation\<close>





















end
